theory Spec2Isabelle
  imports Complex_Main
begin

section \<open>Tensors and errors\<close>

text \<open>
  The populations of \<^verbatim>\<open>population.py\<close> keep their state in one-dimensional torch
  buffers created by \<^verbatim>\<open>torch.zeros(neurons)\<close> and changed in place only. A buffer is
  modelled as a list of reals; a scalar buffer (\<^verbatim>\<open>torch.tensor(dt)\<close>) as a real.
  In the sections on the populations arithmetic is exact, and \<open>exp (- dt / tau)\<close> is the real
  exponential (for \<open>tau = 0\<close> torch yields an infinity where HOL's division yields 0, so
  statements that depend on the value of the factor assume \<open>tau \<noteq> 0\<close>). The float32 rounding
  of torch is written out in the section on rounded arithmetic: what is said about the
  length of the refractory period and about the growth of \<open>theta\<close> over many calls depends
  on it and is stated there.

  Two exceptions can leave a method: the \<^verbatim>\<open>AttributeError\<close> of \<^verbatim>\<open>nn.Module.__getattr__\<close>
  for an attribute or buffer that was never set, and the \<^verbatim>\<open>RuntimeError\<close> torch raises
  for operands whose shapes cannot be broadcast. A method mutates its object in place, so
  the model returns the object as it is when the method returns or raises, paired with
  the returned value or the exception.
\<close>

datatype error = AttributeError | RuntimeError

type_synonym tensor = "real list"

text \<open>\<^verbatim>\<open>a * b\<close> on one-dimensional tensors: equal sizes, or one of them of size 1.\<close>

definition tensor_mul :: "tensor \<Rightarrow> tensor \<Rightarrow> error + tensor" where
  "tensor_mul a b =
     (if length a = length b then Inr (map2 (*) a b)
      else if length b = 1 then Inr (map (\<lambda>u. u * hd b) a)
      else if length a = 1 then Inr (map (\<lambda>u. hd a * u) b)
      else Inl RuntimeError)"

text \<open>\<^verbatim>\<open>self += b\<close>: the result keeps the shape of \<^verbatim>\<open>self\<close>, so \<^verbatim>\<open>b\<close> has its size or size 1.\<close>

definition tensor_iadd :: "tensor \<Rightarrow> tensor \<Rightarrow> error + tensor" where
  "tensor_iadd self b =
     (if length b = length self then Inr (map2 (+) self b)
      else if length b = 1 then Inr (map (\<lambda>u. u + hd b) self)
      else Inl RuntimeError)"

text \<open>\<^verbatim>\<open>self[:] = b\<close>: \<^verbatim>\<open>b\<close> is expanded to the shape of \<^verbatim>\<open>self\<close>.\<close>

definition tensor_assign :: "tensor \<Rightarrow> tensor \<Rightarrow> error + tensor" where
  "tensor_assign self b =
     (if length b = length self then Inr b
      else if length b = 1 then Inr (map (\<lambda>u. hd b) self)
      else Inl RuntimeError)"

text \<open>\<^verbatim>\<open>(t <= 0).float()\<close>, \<^verbatim>\<open>(t > 0).float()\<close>, \<^verbatim>\<open>(t < 1).float()\<close>.\<close>

definition le_zero :: "tensor \<Rightarrow> tensor" where
  "le_zero t = map (\<lambda>u. if u \<le> 0 then 1 else 0) t"

definition gt_zero :: "tensor \<Rightarrow> tensor" where
  "gt_zero t = map (\<lambda>u. if 0 < u then 1 else 0) t"

definition lt_one :: "tensor \<Rightarrow> tensor" where
  "lt_one t = map (\<lambda>u. if u < 1 then 1 else 0) t"

text \<open>\<^verbatim>\<open>self.masked_fill_(mask.bool(), value)\<close>: a nonzero mask entry selects \<^verbatim>\<open>value\<close>.\<close>

definition masked_fill :: "tensor \<Rightarrow> tensor \<Rightarrow> real \<Rightarrow> tensor" where
  "masked_fill self msk val = map2 (\<lambda>u m. if m \<noteq> 0 then val else u) self msk"

text \<open>
  \<^verbatim>\<open>self.v += (self.refrac <= 0).float() * x\<close>, the statement by which every thresholded
  population takes its input: the product is formed first, then added in place.
\<close>

definition add_input :: "tensor \<Rightarrow> tensor \<Rightarrow> tensor \<Rightarrow> error + tensor" where
  "add_input v0 refrac0 xin =
     (case tensor_mul (le_zero refrac0) xin of
        Inl e \<Rightarrow> Inl e
      | Inr m \<Rightarrow> tensor_iadd v0 m)"

section \<open>InputPopulation\<close>

record InputPopulation =
  neurons :: nat
  traces :: bool
  count_spike :: bool
  dt :: real
  s :: tensor
  x :: "tensor option"
  tau_tr :: "real option"
  scale_tr :: "real option"
  spikecount :: "tensor option"

definition InputPopulation_reset :: "InputPopulation \<Rightarrow> InputPopulation \<times> (error + unit)" where
  "InputPopulation_reset p =
     (case InputPopulation.x p of
        None \<Rightarrow> (p, Inl AttributeError)
      | Some xt \<Rightarrow> (p\<lparr>InputPopulation.x := Some (map (\<lambda>u. 0) xt)\<rparr>, Inr ()))"

definition InputPopulation_init ::
  "nat \<Rightarrow> real \<Rightarrow> bool \<Rightarrow> real \<Rightarrow> real \<Rightarrow> bool \<Rightarrow> error + InputPopulation" where
  "InputPopulation_init n dt0 traces0 tau_tr0 scale_tr0 count_spike0 =
     (let p = \<lparr>InputPopulation.neurons = n, traces = traces0, count_spike = count_spike0,
                dt = dt0, s = replicate n 0,
                x = (if traces0 then Some (replicate n 0) else None),
                tau_tr = (if traces0 then Some tau_tr0 else None),
                scale_tr = (if traces0 then Some scale_tr0 else None),
                spikecount = None\<rparr>
      in case InputPopulation_reset p of
           (p1, Inl e) \<Rightarrow> Inl e
         | (p1, Inr u) \<Rightarrow>
             Inr (if InputPopulation.count_spike p1
                  then p1\<lparr>InputPopulation.spikecount := Some (replicate n 0)\<rparr> else p1))"

text \<open>The two statements under \<^verbatim>\<open>if self.traces\<close>: decay the trace, then add the scaled spikes.\<close>

definition InputPopulation_trace :: "InputPopulation \<Rightarrow> InputPopulation \<times> (error + unit)" where
  "InputPopulation_trace p =
     (case (InputPopulation.x p, InputPopulation.tau_tr p) of
        (Some xt, Some tt) \<Rightarrow>
          (let p1 = p\<lparr>InputPopulation.x :=
                       Some (map (\<lambda>u. u * exp (- InputPopulation.dt p / tt)) xt)\<rparr>
           in case (InputPopulation.x p1, InputPopulation.scale_tr p1) of
                (Some xd, Some sc) \<Rightarrow>
                  (p1\<lparr>InputPopulation.x :=
                        Some (map2 (+) xd (map (\<lambda>u. sc * u) (InputPopulation.s p1)))\<rparr>, Inr ())
              | _ \<Rightarrow> (p1, Inl AttributeError))
      | _ \<Rightarrow> (p, Inl AttributeError))"

definition InputPopulation_forward ::
  "InputPopulation \<Rightarrow> tensor \<Rightarrow> InputPopulation \<times> (error + tensor)" where
  "InputPopulation_forward p xin =
     (case tensor_assign (InputPopulation.s p) xin of
        Inl e \<Rightarrow> (p, Inl e)
      | Inr s1 \<Rightarrow>
          (let p1 = p\<lparr>InputPopulation.s := s1\<rparr>
           in case (if InputPopulation.traces p1 then InputPopulation_trace p1 else (p1, Inr ())) of
                (p2, Inl e) \<Rightarrow> (p2, Inl e)
              | (p2, Inr u) \<Rightarrow>
                  (if InputPopulation.count_spike p2
                   then (case InputPopulation.spikecount p2 of
                           None \<Rightarrow> (p2, Inl AttributeError)
                         | Some c \<Rightarrow>
                             (let p3 = p2\<lparr>InputPopulation.spikecount :=
                                            Some (map2 (+) c (InputPopulation.s p2))\<rparr>
                              in (p3, Inr (InputPopulation.s p3))))
                   else (p2, Inr (InputPopulation.s p2)))))"

section \<open>IFPopulation\<close>

text \<open>
  \<^verbatim>\<open>__init__\<close> stores the attribute \<^verbatim>\<open>count_spike\<close> only inside
  \<^verbatim>\<open>if count_spike == True\<close>, so the attribute is absent (\<open>None\<close>) on an instance
  built with \<^verbatim>\<open>count_spike=False\<close>, and \<^verbatim>\<open>forward\<close> reads it unconditionally.
\<close>

record IFPopulation =
  neurons :: nat
  dt :: real
  v :: tensor
  v_th :: real
  rest :: real
  refrac :: tensor
  tau_ref :: real
  s :: tensor
  count_spike :: "bool option"
  spikecount :: "tensor option"

definition IFPopulation_init :: "nat \<Rightarrow> real \<Rightarrow> real \<Rightarrow> real \<Rightarrow> real \<Rightarrow> bool \<Rightarrow> IFPopulation" where
  "IFPopulation_init n dt0 v_th0 rest0 tau_ref0 count_spike0 =
     \<lparr>IFPopulation.neurons = n, dt = dt0, v = replicate n rest0, v_th = v_th0, rest = rest0,
      refrac = replicate n 0, tau_ref = tau_ref0, s = replicate n 0,
      count_spike = (if count_spike0 then Some count_spike0 else None),
      spikecount = (if count_spike0 then Some (replicate n 0) else None)\<rparr>"

definition IFPopulation_reset :: "IFPopulation \<Rightarrow> IFPopulation" where
  "IFPopulation_reset p = p\<lparr>IFPopulation.v := map (\<lambda>u. IFPopulation.rest p) (IFPopulation.v p)\<rparr>"

definition IFPopulation_forward ::
  "IFPopulation \<Rightarrow> tensor \<Rightarrow> IFPopulation \<times> (error + tensor \<times> tensor)" where
  "IFPopulation_forward p xin =
     (case add_input (IFPopulation.v p) (IFPopulation.refrac p) xin of
        Inl e \<Rightarrow> (p, Inl e)
      | Inr v1 \<Rightarrow>
          (let p1 = p\<lparr>IFPopulation.v := v1\<rparr>;
               p2 = p1\<lparr>IFPopulation.refrac :=
                        map (\<lambda>r. r - IFPopulation.dt p1) (IFPopulation.refrac p1)\<rparr>;
               p3 = p2\<lparr>IFPopulation.s :=
                        map (\<lambda>u. if IFPopulation.v_th p2 \<le> u then 1 else 0) (IFPopulation.v p2)\<rparr>;
               p4 = p3\<lparr>IFPopulation.refrac :=
                        masked_fill (IFPopulation.refrac p3) (IFPopulation.s p3) (IFPopulation.tau_ref p3)\<rparr>;
               p5 = p4\<lparr>IFPopulation.v :=
                        masked_fill (IFPopulation.v p4) (IFPopulation.s p4) (IFPopulation.rest p4)\<rparr>
           in case IFPopulation.count_spike p5 of
                None \<Rightarrow> (p5, Inl AttributeError)
              | Some c \<Rightarrow>
                  (if c
                   then (case IFPopulation.spikecount p5 of
                           None \<Rightarrow> (p5, Inl AttributeError)
                         | Some sc \<Rightarrow>
                             (let p6 = p5\<lparr>IFPopulation.spikecount :=
                                            Some (map2 (+) sc (IFPopulation.s p5))\<rparr>
                              in (p6, Inr (IFPopulation.s p6, IFPopulation.v p6))))
                   else (p5, Inr (IFPopulation.s p5, IFPopulation.v p5)))))"

section \<open>HomoeostasisLIFPopulation\<close>

record HomoeostasisLIFPopulation =
  neurons :: nat
  dt :: real
  v :: tensor
  tau_rc :: real
  v_th :: real
  s :: tensor
  rest :: real
  refrac :: tensor
  tau_ref :: real
  threshold :: real
  theta_plus :: real
  theta :: tensor
  tau_theta :: real
  frozen_th :: bool
  count_spike :: bool
  spikecount :: "tensor option"

definition HomoeostasisLIFPopulation_init ::
  "nat \<Rightarrow> real \<Rightarrow> real \<Rightarrow> real \<Rightarrow> real \<Rightarrow> real \<Rightarrow> real \<Rightarrow> real \<Rightarrow> bool \<Rightarrow> bool
     \<Rightarrow> HomoeostasisLIFPopulation" where
  "HomoeostasisLIFPopulation_init n dt0 tau_rc0 v_th0 theta_plus0 tau_theta0 rest0 tau_ref0
       frozen_threshold count_spike0 =
     \<lparr>HomoeostasisLIFPopulation.neurons = n, dt = dt0, v = replicate n rest0, tau_rc = tau_rc0,
      v_th = v_th0, s = replicate n 0, rest = rest0, refrac = replicate n 0,
      tau_ref = tau_ref0, threshold = v_th0, theta_plus = theta_plus0,
      theta = replicate n 0, tau_theta = tau_theta0, frozen_th = frozen_threshold,
      count_spike = count_spike0,
      spikecount = (if count_spike0 then Some (replicate n 0) else None)\<rparr>"

definition HomoeostasisLIFPopulation_reset ::
  "HomoeostasisLIFPopulation \<Rightarrow> HomoeostasisLIFPopulation \<times> (error + unit)" where
  "HomoeostasisLIFPopulation_reset p =
     (let p1 = p\<lparr>HomoeostasisLIFPopulation.v :=
                  map (\<lambda>u. HomoeostasisLIFPopulation.rest p) (HomoeostasisLIFPopulation.v p)\<rparr>
      in if HomoeostasisLIFPopulation.count_spike p1
         then (case HomoeostasisLIFPopulation.spikecount p1 of
                 None \<Rightarrow> (p1, Inl AttributeError)
               | Some c \<Rightarrow>
                   (p1\<lparr>HomoeostasisLIFPopulation.spikecount := Some (map (\<lambda>u. 0) c)\<rparr>, Inr ()))
         else (p1, Inr ()))"

text \<open>The statements of \<^verbatim>\<open>forward\<close> after the spike test, from the spike count on.\<close>

definition HomoeostasisLIFPopulation_after_spikes ::
  "HomoeostasisLIFPopulation \<Rightarrow> HomoeostasisLIFPopulation \<times> (error + tensor \<times> tensor)" where
  "HomoeostasisLIFPopulation_after_spikes p3 =
     (case (if HomoeostasisLIFPopulation.count_spike p3
            then (case HomoeostasisLIFPopulation.spikecount p3 of
                    None \<Rightarrow> Inl AttributeError
                  | Some c \<Rightarrow>
                      Inr (p3\<lparr>HomoeostasisLIFPopulation.spikecount :=
                                Some (map2 (+) c
                                  (map (\<lambda>u. u * 1) (gt_zero (HomoeostasisLIFPopulation.s p3))))\<rparr>))
            else Inr p3) of
        Inl e \<Rightarrow> (p3, Inl e)
      | Inr p4 \<Rightarrow>
          (let p6 =
                 (if HomoeostasisLIFPopulation.frozen_th p4 = False
                  then (let p5 = p4\<lparr>HomoeostasisLIFPopulation.theta :=
                                      map2 (+) (HomoeostasisLIFPopulation.theta p4)
                                        (map (\<lambda>u. u * HomoeostasisLIFPopulation.theta_plus p4)
                                           (gt_zero (HomoeostasisLIFPopulation.s p4)))\<rparr>
                        in p5\<lparr>HomoeostasisLIFPopulation.theta :=
                                map2 (+) (HomoeostasisLIFPopulation.theta p5)
                                  (map (\<lambda>u. u * exp (- (HomoeostasisLIFPopulation.dt p5
                                                         / HomoeostasisLIFPopulation.tau_theta p5)))
                                     (lt_one (HomoeostasisLIFPopulation.s p5)))\<rparr>)
                  else p4);
               p7 = p6\<lparr>HomoeostasisLIFPopulation.refrac :=
                        masked_fill (HomoeostasisLIFPopulation.refrac p6)
                          (HomoeostasisLIFPopulation.s p6) (HomoeostasisLIFPopulation.tau_ref p6)\<rparr>;
               p8 = p7\<lparr>HomoeostasisLIFPopulation.v :=
                        masked_fill (HomoeostasisLIFPopulation.v p7)
                          (HomoeostasisLIFPopulation.s p7) (HomoeostasisLIFPopulation.rest p7)\<rparr>
           in (p8, Inr (HomoeostasisLIFPopulation.s p8, HomoeostasisLIFPopulation.v p8))))"

definition HomoeostasisLIFPopulation_forward ::
  "HomoeostasisLIFPopulation \<Rightarrow> tensor
     \<Rightarrow> HomoeostasisLIFPopulation \<times> (error + tensor \<times> tensor)" where
  "HomoeostasisLIFPopulation_forward p xin =
     (let p0 = p\<lparr>HomoeostasisLIFPopulation.v :=
                  map (\<lambda>u. exp (- HomoeostasisLIFPopulation.dt p / HomoeostasisLIFPopulation.tau_rc p)
                            * (u - HomoeostasisLIFPopulation.rest p)
                            + HomoeostasisLIFPopulation.rest p)
                      (HomoeostasisLIFPopulation.v p)\<rparr>
      in case add_input (HomoeostasisLIFPopulation.v p0) (HomoeostasisLIFPopulation.refrac p0) xin of
           Inl e \<Rightarrow> (p0, Inl e)
         | Inr v1 \<Rightarrow>
             (let p1 = p0\<lparr>HomoeostasisLIFPopulation.v := v1\<rparr>;
                  p2 = p1\<lparr>HomoeostasisLIFPopulation.refrac :=
                           map (\<lambda>r. r - HomoeostasisLIFPopulation.dt p1)
                               (HomoeostasisLIFPopulation.refrac p1)\<rparr>;
                  p3 = p2\<lparr>HomoeostasisLIFPopulation.s :=
                           map2 (\<lambda>u th. if HomoeostasisLIFPopulation.v_th p2 + th \<le> u then 1 else 0)
                                (HomoeostasisLIFPopulation.v p2) (HomoeostasisLIFPopulation.theta p2)\<rparr>
              in HomoeostasisLIFPopulation_after_spikes p3))"

section \<open>LIFPopulation2\<close>

record LIFPopulation2 =
  neurons :: nat
  dt :: real
  v :: tensor
  tau_rc :: real
  v_th :: real
  s :: tensor
  rest :: real
  refrac :: tensor
  tau_ref :: real
  spikecount :: tensor

definition LIFPopulation2_init :: "nat \<Rightarrow> real \<Rightarrow> real \<Rightarrow> real \<Rightarrow> real \<Rightarrow> real \<Rightarrow> LIFPopulation2" where
  "LIFPopulation2_init n dt0 tau_rc0 v_th0 rest0 tau_ref0 =
     \<lparr>LIFPopulation2.neurons = n, dt = dt0, v = replicate n rest0, tau_rc = tau_rc0,
      v_th = v_th0, s = replicate n 0, rest = rest0, refrac = replicate n 0,
      tau_ref = tau_ref0, spikecount = replicate n 0\<rparr>"

definition LIFPopulation2_reset :: "LIFPopulation2 \<Rightarrow> LIFPopulation2" where
  "LIFPopulation2_reset p =
     (let p1 = p\<lparr>LIFPopulation2.v := map (\<lambda>u. LIFPopulation2.rest p) (LIFPopulation2.v p)\<rparr>
      in p1\<lparr>LIFPopulation2.spikecount := map (\<lambda>u. 0) (LIFPopulation2.spikecount p1)\<rparr>)"

definition LIFPopulation2_forward ::
  "LIFPopulation2 \<Rightarrow> tensor \<Rightarrow> LIFPopulation2 \<times> (error + tensor \<times> tensor)" where
  "LIFPopulation2_forward p xin =
     (let p0 = p\<lparr>LIFPopulation2.v :=
                  map (\<lambda>u. exp (- LIFPopulation2.dt p / LIFPopulation2.tau_rc p)
                            * (u - LIFPopulation2.rest p) + LIFPopulation2.rest p)
                      (LIFPopulation2.v p)\<rparr>
      in case add_input (LIFPopulation2.v p0) (LIFPopulation2.refrac p0) xin of
           Inl e \<Rightarrow> (p0, Inl e)
         | Inr v1 \<Rightarrow>
             (let p1 = p0\<lparr>LIFPopulation2.v := v1\<rparr>;
                  p2 = p1\<lparr>LIFPopulation2.refrac :=
                           map (\<lambda>r. r - LIFPopulation2.dt p1) (LIFPopulation2.refrac p1)\<rparr>;
                  p3 = p2\<lparr>LIFPopulation2.s :=
                           map (\<lambda>u. if LIFPopulation2.v_th p2 \<le> u then 1 else 0)
                               (LIFPopulation2.v p2)\<rparr>;
                  p4 = p3\<lparr>LIFPopulation2.spikecount :=
                           map2 (+) (LIFPopulation2.spikecount p3)
                             (map (\<lambda>u. u * 1) (gt_zero (LIFPopulation2.s p3)))\<rparr>;
                  p5 = p4\<lparr>LIFPopulation2.refrac :=
                           masked_fill (LIFPopulation2.refrac p4) (LIFPopulation2.s p4)
                             (LIFPopulation2.tau_ref p4)\<rparr>;
                  p6 = p5\<lparr>LIFPopulation2.v :=
                           masked_fill (LIFPopulation2.v p5) (LIFPopulation2.s p5)
                             (LIFPopulation2.rest p5)\<rparr>
              in (p6, Inr (LIFPopulation2.s p6, LIFPopulation2.v p6))))"

section \<open>LIFPopulation\<close>

record LIFPopulation =
  neurons :: nat
  dt :: real
  v :: tensor
  tau_rc :: real
  v_th :: real
  theta :: real
  s :: tensor
  rest :: real
  refrac :: tensor
  tau_ref :: real

definition LIFPopulation_init ::
  "nat \<Rightarrow> real \<Rightarrow> real \<Rightarrow> real \<Rightarrow> real \<Rightarrow> real \<Rightarrow> real \<Rightarrow> LIFPopulation" where
  "LIFPopulation_init n dt0 tau_rc0 v_th0 theta0 rest0 tau_ref0 =
     \<lparr>LIFPopulation.neurons = n, dt = dt0, v = replicate n rest0, tau_rc = tau_rc0,
      v_th = v_th0, theta = theta0, s = replicate n 0, rest = rest0,
      refrac = replicate n 0, tau_ref = tau_ref0\<rparr>"

definition LIFPopulation_reset :: "LIFPopulation \<Rightarrow> LIFPopulation" where
  "LIFPopulation_reset p = p\<lparr>LIFPopulation.v := map (\<lambda>u. LIFPopulation.rest p) (LIFPopulation.v p)\<rparr>"

definition LIFPopulation_forward ::
  "LIFPopulation \<Rightarrow> tensor \<Rightarrow> LIFPopulation \<times> (error + tensor \<times> tensor)" where
  "LIFPopulation_forward p xin =
     (let p0 = p\<lparr>LIFPopulation.v :=
                  map (\<lambda>u. exp (- LIFPopulation.dt p / LIFPopulation.tau_rc p)
                            * (u - LIFPopulation.rest p) + LIFPopulation.rest p)
                      (LIFPopulation.v p)\<rparr>
      in case add_input (LIFPopulation.v p0) (LIFPopulation.refrac p0) xin of
           Inl e \<Rightarrow> (p0, Inl e)
         | Inr v1 \<Rightarrow>
             (let p1 = p0\<lparr>LIFPopulation.v := v1\<rparr>;
                  p2 = p1\<lparr>LIFPopulation.refrac :=
                           map (\<lambda>r. r - LIFPopulation.dt p1) (LIFPopulation.refrac p1)\<rparr>;
                  p3 = p2\<lparr>LIFPopulation.s :=
                           map (\<lambda>u. if LIFPopulation.v_th p2 + LIFPopulation.theta p2 \<le> u
                                     then 1 else 0)
                               (LIFPopulation.v p2)\<rparr>;
                  p4 = p3\<lparr>LIFPopulation.refrac :=
                           masked_fill (LIFPopulation.refrac p3) (LIFPopulation.s p3)
                             (LIFPopulation.tau_ref p3)\<rparr>;
                  p5 = p4\<lparr>LIFPopulation.v :=
                           masked_fill (LIFPopulation.v p4) (LIFPopulation.s p4)
                             (LIFPopulation.rest p4)\<rparr>
              in (p5, Inr (LIFPopulation.s p5, LIFPopulation.v p5))))"

section \<open>DiehlAndCookPopulation\<close>

record DiehlAndCookPopulation =
  neurons :: nat
  traces :: bool
  dt :: real
  v :: tensor
  tau_rc :: real
  v_th :: real
  theta :: real
  s :: tensor
  rest :: real
  refrac :: tensor
  tau_ref :: real
  x :: "tensor option"
  tau_tr :: "real option"
  scale_tr :: "real option"

definition DiehlAndCookPopulation_reset ::
  "DiehlAndCookPopulation \<Rightarrow> DiehlAndCookPopulation \<times> (error + unit)" where
  "DiehlAndCookPopulation_reset p =
     (let p1 = p\<lparr>DiehlAndCookPopulation.v :=
                  map (\<lambda>u. DiehlAndCookPopulation.rest p) (DiehlAndCookPopulation.v p)\<rparr>
      in case DiehlAndCookPopulation.x p1 of
           None \<Rightarrow> (p1, Inl AttributeError)
         | Some xt \<Rightarrow> (p1\<lparr>DiehlAndCookPopulation.x := Some (map (\<lambda>u. 0) xt)\<rparr>, Inr ()))"

definition DiehlAndCookPopulation_init ::
  "nat \<Rightarrow> real \<Rightarrow> real \<Rightarrow> real \<Rightarrow> real \<Rightarrow> real \<Rightarrow> real \<Rightarrow> bool \<Rightarrow> real \<Rightarrow> real
     \<Rightarrow> error + DiehlAndCookPopulation" where
  "DiehlAndCookPopulation_init n dt0 tau_rc0 v_th0 theta0 rest0 tau_ref0 traces0 tau_tr0 scale_tr0 =
     (let p = \<lparr>DiehlAndCookPopulation.neurons = n, traces = traces0, dt = dt0,
                v = replicate n 0, tau_rc = tau_rc0, v_th = v_th0, theta = theta0,
                s = replicate n 0, rest = rest0, refrac = replicate n 0, tau_ref = tau_ref0,
                x = (if traces0 then Some (replicate n 0) else None),
                tau_tr = (if traces0 then Some tau_tr0 else None),
                scale_tr = (if traces0 then Some scale_tr0 else None)\<rparr>
      in case DiehlAndCookPopulation_reset p of
           (p1, Inl e) \<Rightarrow> Inl e
         | (p1, Inr u) \<Rightarrow> Inr p1)"

text \<open>The two statements under \<^verbatim>\<open>if self.traces\<close>, run after the spike and the reset.\<close>

definition DiehlAndCookPopulation_trace ::
  "DiehlAndCookPopulation \<Rightarrow> DiehlAndCookPopulation \<times> (error + unit)" where
  "DiehlAndCookPopulation_trace p =
     (case (DiehlAndCookPopulation.x p, DiehlAndCookPopulation.tau_tr p) of
        (Some xt, Some tt) \<Rightarrow>
          (let p1 = p\<lparr>DiehlAndCookPopulation.x :=
                       Some (map (\<lambda>u. u * exp (- DiehlAndCookPopulation.dt p / tt)) xt)\<rparr>
           in case (DiehlAndCookPopulation.x p1, DiehlAndCookPopulation.scale_tr p1) of
                (Some xd, Some sc) \<Rightarrow>
                  (p1\<lparr>DiehlAndCookPopulation.x :=
                        Some (map2 (+) xd (map (\<lambda>u. sc * u) (DiehlAndCookPopulation.s p1)))\<rparr>,
                   Inr ())
              | _ \<Rightarrow> (p1, Inl AttributeError))
      | _ \<Rightarrow> (p, Inl AttributeError))"

definition DiehlAndCookPopulation_forward ::
  "DiehlAndCookPopulation \<Rightarrow> tensor \<Rightarrow> DiehlAndCookPopulation \<times> (error + tensor \<times> tensor)" where
  "DiehlAndCookPopulation_forward p xin =
     (let p0 = p\<lparr>DiehlAndCookPopulation.v :=
                  map (\<lambda>u. exp (- DiehlAndCookPopulation.dt p / DiehlAndCookPopulation.tau_rc p)
                            * (u - DiehlAndCookPopulation.rest p) + DiehlAndCookPopulation.rest p)
                      (DiehlAndCookPopulation.v p)\<rparr>
      in case add_input (DiehlAndCookPopulation.v p0) (DiehlAndCookPopulation.refrac p0) xin of
           Inl e \<Rightarrow> (p0, Inl e)
         | Inr v1 \<Rightarrow>
             (let p1 = p0\<lparr>DiehlAndCookPopulation.v := v1\<rparr>;
                  p2 = p1\<lparr>DiehlAndCookPopulation.refrac :=
                           map (\<lambda>r. r - DiehlAndCookPopulation.dt p1)
                               (DiehlAndCookPopulation.refrac p1)\<rparr>;
                  p3 = p2\<lparr>DiehlAndCookPopulation.s :=
                           map (\<lambda>u. if DiehlAndCookPopulation.v_th p2
                                        + DiehlAndCookPopulation.theta p2 \<le> u then 1 else 0)
                               (DiehlAndCookPopulation.v p2)\<rparr>;
                  p4 = p3\<lparr>DiehlAndCookPopulation.refrac :=
                           masked_fill (DiehlAndCookPopulation.refrac p3)
                             (DiehlAndCookPopulation.s p3) (DiehlAndCookPopulation.tau_ref p3)\<rparr>;
                  p5 = p4\<lparr>DiehlAndCookPopulation.v :=
                           masked_fill (DiehlAndCookPopulation.v p4)
                             (DiehlAndCookPopulation.s p4) (DiehlAndCookPopulation.rest p4)\<rparr>
              in case (if DiehlAndCookPopulation.traces p5
                       then DiehlAndCookPopulation_trace p5 else (p5, Inr ())) of
                   (p6, Inl e) \<Rightarrow> (p6, Inl e)
                 | (p6, Inr u) \<Rightarrow>
                     (p6, Inr (DiehlAndCookPopulation.s p6, DiehlAndCookPopulation.v p6))))"

section \<open>Driving a population over a sequence of inputs\<close>

text \<open>
  The loop of the module's \<^verbatim>\<open>__main__\<close> block calls the population once per time step
  and appends a clone of what it returns; an exception ends the loop. \<open>run\<close> is that
  loop for any of the \<open>forward\<close> functions above. \<open>steps\<close> is the object after the
  calls have been made one after the other, each call's in-place changes kept whether it
  returned or raised.
\<close>

fun run :: "('p \<Rightarrow> tensor \<Rightarrow> 'p \<times> (error + 'o)) \<Rightarrow> 'p \<Rightarrow> tensor list \<Rightarrow> 'p \<times> (error + 'o list)" where
  "run f p [] = (p, Inr [])"
| "run f p (xin # xs) =
     (case f p xin of
        (p1, Inl e) \<Rightarrow> (p1, Inl e)
      | (p1, Inr out) \<Rightarrow>
          (case run f p1 xs of
             (p2, Inl e) \<Rightarrow> (p2, Inl e)
           | (p2, Inr outs) \<Rightarrow> (p2, Inr (out # outs))))"

definition steps :: "('p \<Rightarrow> tensor \<Rightarrow> 'p \<times> (error + 'o)) \<Rightarrow> 'p \<Rightarrow> tensor list \<Rightarrow> 'p" where
  "steps f p xs = foldl (\<lambda>q xin. fst (f q xin)) p xs"

section \<open>Invariants of the objects\<close>

text \<open>
  Every per-neuron buffer is registered as \<^verbatim>\<open>torch.zeros(neurons)\<close> and from then on only
  written in place, so it keeps the length \<open>neurons\<close>. The buffers registered under a flag
  are present on every object whose constructor returned.
\<close>

definition InputPopulation_wf :: "InputPopulation \<Rightarrow> bool" where
  "InputPopulation_wf p =
     (length (InputPopulation.s p) = InputPopulation.neurons p
      \<and> (case InputPopulation.x p of
             None \<Rightarrow> False | Some xt \<Rightarrow> length xt = InputPopulation.neurons p)
      \<and> InputPopulation.tau_tr p \<noteq> None \<and> InputPopulation.scale_tr p \<noteq> None
      \<and> (case InputPopulation.spikecount p of
             None \<Rightarrow> InputPopulation.count_spike p = False
           | Some c \<Rightarrow> length c = InputPopulation.neurons p))"

definition IFPopulation_wf :: "IFPopulation \<Rightarrow> bool" where
  "IFPopulation_wf p =
     (length (IFPopulation.v p) = IFPopulation.neurons p
      \<and> length (IFPopulation.refrac p) = IFPopulation.neurons p
      \<and> length (IFPopulation.s p) = IFPopulation.neurons p)"

definition HomoeostasisLIFPopulation_wf :: "HomoeostasisLIFPopulation \<Rightarrow> bool" where
  "HomoeostasisLIFPopulation_wf p =
     (length (HomoeostasisLIFPopulation.v p) = HomoeostasisLIFPopulation.neurons p
      \<and> length (HomoeostasisLIFPopulation.refrac p) = HomoeostasisLIFPopulation.neurons p
      \<and> length (HomoeostasisLIFPopulation.s p) = HomoeostasisLIFPopulation.neurons p
      \<and> length (HomoeostasisLIFPopulation.theta p) = HomoeostasisLIFPopulation.neurons p
      \<and> (case HomoeostasisLIFPopulation.spikecount p of
             None \<Rightarrow> HomoeostasisLIFPopulation.count_spike p = False
           | Some c \<Rightarrow> length c = HomoeostasisLIFPopulation.neurons p))"

definition LIFPopulation2_wf :: "LIFPopulation2 \<Rightarrow> bool" where
  "LIFPopulation2_wf p =
     (length (LIFPopulation2.v p) = LIFPopulation2.neurons p
      \<and> length (LIFPopulation2.refrac p) = LIFPopulation2.neurons p
      \<and> length (LIFPopulation2.s p) = LIFPopulation2.neurons p
      \<and> length (LIFPopulation2.spikecount p) = LIFPopulation2.neurons p)"

definition LIFPopulation_wf :: "LIFPopulation \<Rightarrow> bool" where
  "LIFPopulation_wf p =
     (length (LIFPopulation.v p) = LIFPopulation.neurons p
      \<and> length (LIFPopulation.refrac p) = LIFPopulation.neurons p
      \<and> length (LIFPopulation.s p) = LIFPopulation.neurons p)"

definition DiehlAndCookPopulation_wf :: "DiehlAndCookPopulation \<Rightarrow> bool" where
  "DiehlAndCookPopulation_wf p =
     (length (DiehlAndCookPopulation.v p) = DiehlAndCookPopulation.neurons p
      \<and> length (DiehlAndCookPopulation.refrac p) = DiehlAndCookPopulation.neurons p
      \<and> length (DiehlAndCookPopulation.s p) = DiehlAndCookPopulation.neurons p
      \<and> (case DiehlAndCookPopulation.x p of
             None \<Rightarrow> False | Some xt \<Rightarrow> length xt = DiehlAndCookPopulation.neurons p)
      \<and> DiehlAndCookPopulation.tau_tr p \<noteq> None
      \<and> DiehlAndCookPopulation.scale_tr p \<noteq> None)"

section \<open>One neuron of a thresholded population\<close>

text \<open>
  The thresholded populations treat their neurons independently. A neuron is seen as
  its potential, its refractory counter and its threshold offset. \<open>neuron_potential\<close> is
  the potential the spike test reads; \<open>neuron_step\<close> is the neuron after one call, for a
  leak factor \<open>a\<close> (1 without leak) and the amounts \<open>up\<close> and \<open>dn\<close> added to the offset
  of a spiking and of a silent neuron (both 0 where the offset is fixed).
\<close>

type_synonym neuron = "real \<times> real \<times> real"

definition neuron_potential :: "real \<Rightarrow> real \<Rightarrow> real \<Rightarrow> real \<Rightarrow> real \<Rightarrow> real" where
  "neuron_potential a rest0 v0 r xi = a * (v0 - rest0) + rest0 + (if r \<le> 0 then 1 else 0) * xi"

definition neuron_step ::
  "real \<Rightarrow> real \<Rightarrow> real \<Rightarrow> real \<Rightarrow> real \<Rightarrow> real \<Rightarrow> real \<Rightarrow> neuron \<Rightarrow> real \<Rightarrow> neuron" where
  "neuron_step a dt0 rest0 tau_ref0 v_th0 up dn n xi =
     (case n of (v0, r, th) \<Rightarrow>
        (let u = neuron_potential a rest0 v0 r xi
         in if v_th0 + th \<le> u then (rest0, tau_ref0, th + up) else (u, r - dt0, th + dn)))"

definition neuron_spike :: "real \<Rightarrow> real \<Rightarrow> real \<Rightarrow> neuron \<Rightarrow> real \<Rightarrow> real" where
  "neuron_spike a rest0 v_th0 n xi =
     (case n of (v0, r, th) \<Rightarrow>
        (if v_th0 + th \<le> neuron_potential a rest0 v0 r xi then 1 else 0))"

definition IFPopulation_neuron :: "IFPopulation \<Rightarrow> nat \<Rightarrow> neuron" where
  "IFPopulation_neuron p i = (IFPopulation.v p ! i, IFPopulation.refrac p ! i, 0)"

definition IFPopulation_law :: "IFPopulation \<Rightarrow> neuron \<Rightarrow> real \<Rightarrow> neuron" where
  "IFPopulation_law p =
     neuron_step 1 (IFPopulation.dt p) (IFPopulation.rest p) (IFPopulation.tau_ref p)
       (IFPopulation.v_th p) 0 0"

definition HomoeostasisLIFPopulation_neuron :: "HomoeostasisLIFPopulation \<Rightarrow> nat \<Rightarrow> neuron" where
  "HomoeostasisLIFPopulation_neuron p i =
     (HomoeostasisLIFPopulation.v p ! i, HomoeostasisLIFPopulation.refrac p ! i,
      HomoeostasisLIFPopulation.theta p ! i)"


definition LIFPopulation2_neuron :: "LIFPopulation2 \<Rightarrow> nat \<Rightarrow> neuron" where
  "LIFPopulation2_neuron p i = (LIFPopulation2.v p ! i, LIFPopulation2.refrac p ! i, 0)"


definition LIFPopulation_neuron :: "LIFPopulation \<Rightarrow> nat \<Rightarrow> neuron" where
  "LIFPopulation_neuron p i =
     (LIFPopulation.v p ! i, LIFPopulation.refrac p ! i, LIFPopulation.theta p)"


definition DiehlAndCookPopulation_neuron :: "DiehlAndCookPopulation \<Rightarrow> nat \<Rightarrow> neuron" where
  "DiehlAndCookPopulation_neuron p i =
     (DiehlAndCookPopulation.v p ! i, DiehlAndCookPopulation.refrac p ! i,
      DiehlAndCookPopulation.theta p)"


section \<open>The recurrence as the specification words it\<close>


text \<open>
  A \<open>LIFPopulation\<close> and a \<open>DiehlAndCookPopulation\<close> with the same shared
  hyperparameters, potentials and refractory counters.
\<close>

definition same_membrane :: "LIFPopulation \<Rightarrow> DiehlAndCookPopulation \<Rightarrow> bool" where
  "same_membrane l d =
     (LIFPopulation.dt l = DiehlAndCookPopulation.dt d
      \<and> LIFPopulation.tau_rc l = DiehlAndCookPopulation.tau_rc d
      \<and> LIFPopulation.v_th l = DiehlAndCookPopulation.v_th d
      \<and> LIFPopulation.theta l = DiehlAndCookPopulation.theta d
      \<and> LIFPopulation.rest l = DiehlAndCookPopulation.rest d
      \<and> LIFPopulation.tau_ref l = DiehlAndCookPopulation.tau_ref d
      \<and> LIFPopulation.v l = DiehlAndCookPopulation.v d
      \<and> LIFPopulation.refrac l = DiehlAndCookPopulation.refrac d)"

section \<open>Rounded arithmetic\<close>

text \<open>
  The buffers are float32 tensors, and every arithmetic operation of torch on them
  returns the exact result rounded to float32. The functions of this section are the
  \<open>forward\<close> methods of the thresholded populations once more, statement by statement as
  above, with the rounding written out: \<open>rnd\<close> is applied to the result of every addition,
  subtraction, multiplication and division, and \<open>fexp\<close> stands for torch's float32
  exponential, which is taken as a parameter. Comparisons, masks and fills are exact.
  With the identity for \<open>rnd\<close> and the real exponential for \<open>fexp\<close> they are the functions
  above. Results that overflow to an infinity (a division by zero among them), and NaN,
  are not modelled.

  \<open>fl32\<close> is the rounding of IEEE 754 binary32: to the nearest representable number,
  ties to the even significand, with the subnormal spacing \<open>2 powr (- 149)\<close> below
  \<open>2 powr (- 126)\<close>.
\<close>

definition round_even :: "real \<Rightarrow> int" where
  "round_even y =
     (let f = \<lfloor>y\<rfloor>; d = y - of_int f
      in if d < 1 / 2 then f else if 1 / 2 < d then f + 1 else if even f then f else f + 1)"

definition fl32 :: "real \<Rightarrow> real" where
  "fl32 z =
     (if z = 0 then 0
      else (let e = max \<lfloor>log 2 \<bar>z\<bar>\<rfloor> (- 126); q = 2 powr of_int (e - 23)
            in of_int (round_even (z / q)) * q))"

text \<open>\<^verbatim>\<open>self.v += (self.refrac <= 0).float() * x\<close>: a rounded product, then a rounded sum.\<close>

definition add_input_rnd :: "(real \<Rightarrow> real) \<Rightarrow> tensor \<Rightarrow> tensor \<Rightarrow> tensor \<Rightarrow> error + tensor" where
  "add_input_rnd rnd v0 refrac0 xin =
     (case tensor_mul (le_zero refrac0) xin of
        Inl e \<Rightarrow> Inl e
      | Inr m \<Rightarrow>
          (case tensor_iadd v0 (map rnd m) of
             Inl e \<Rightarrow> Inl e
           | Inr w \<Rightarrow> Inr (map rnd w)))"

definition IFPopulation_forward_rnd ::
  "(real \<Rightarrow> real) \<Rightarrow> IFPopulation \<Rightarrow> tensor \<Rightarrow> IFPopulation \<times> (error + tensor \<times> tensor)" where
  "IFPopulation_forward_rnd rnd p xin =
     (case add_input_rnd rnd (IFPopulation.v p) (IFPopulation.refrac p) xin of
        Inl e \<Rightarrow> (p, Inl e)
      | Inr v1 \<Rightarrow>
          (let p1 = p\<lparr>IFPopulation.v := v1\<rparr>;
               p2 = p1\<lparr>IFPopulation.refrac :=
                        map (\<lambda>r. rnd (r - IFPopulation.dt p1)) (IFPopulation.refrac p1)\<rparr>;
               p3 = p2\<lparr>IFPopulation.s :=
                        map (\<lambda>u. if IFPopulation.v_th p2 \<le> u then 1 else 0) (IFPopulation.v p2)\<rparr>;
               p4 = p3\<lparr>IFPopulation.refrac :=
                        masked_fill (IFPopulation.refrac p3) (IFPopulation.s p3) (IFPopulation.tau_ref p3)\<rparr>;
               p5 = p4\<lparr>IFPopulation.v :=
                        masked_fill (IFPopulation.v p4) (IFPopulation.s p4) (IFPopulation.rest p4)\<rparr>
           in case IFPopulation.count_spike p5 of
                None \<Rightarrow> (p5, Inl AttributeError)
              | Some c \<Rightarrow>
                  (if c
                   then (case IFPopulation.spikecount p5 of
                           None \<Rightarrow> (p5, Inl AttributeError)
                         | Some sc \<Rightarrow>
                             (let p6 = p5\<lparr>IFPopulation.spikecount :=
                                            Some (map rnd (map2 (+) sc (IFPopulation.s p5)))\<rparr>
                              in (p6, Inr (IFPopulation.s p6, IFPopulation.v p6))))
                   else (p5, Inr (IFPopulation.s p5, IFPopulation.v p5)))))"

definition HomoeostasisLIFPopulation_after_spikes_rnd ::
  "(real \<Rightarrow> real) \<Rightarrow> (real \<Rightarrow> real) \<Rightarrow> HomoeostasisLIFPopulation
     \<Rightarrow> HomoeostasisLIFPopulation \<times> (error + tensor \<times> tensor)" where
  "HomoeostasisLIFPopulation_after_spikes_rnd rnd fexp p3 =
     (case (if HomoeostasisLIFPopulation.count_spike p3
            then (case HomoeostasisLIFPopulation.spikecount p3 of
                    None \<Rightarrow> Inl AttributeError
                  | Some c \<Rightarrow>
                      Inr (p3\<lparr>HomoeostasisLIFPopulation.spikecount :=
                                Some (map rnd (map2 (+) c
                                  (map (\<lambda>u. rnd (u * 1))
                                     (gt_zero (HomoeostasisLIFPopulation.s p3)))))\<rparr>))
            else Inr p3) of
        Inl e \<Rightarrow> (p3, Inl e)
      | Inr p4 \<Rightarrow>
          (let p6 =
                 (if HomoeostasisLIFPopulation.frozen_th p4 = False
                  then (let p5 = p4\<lparr>HomoeostasisLIFPopulation.theta :=
                                      map rnd (map2 (+) (HomoeostasisLIFPopulation.theta p4)
                                        (map (\<lambda>u. rnd (u * HomoeostasisLIFPopulation.theta_plus p4))
                                           (gt_zero (HomoeostasisLIFPopulation.s p4))))\<rparr>
                        in p5\<lparr>HomoeostasisLIFPopulation.theta :=
                                map rnd (map2 (+) (HomoeostasisLIFPopulation.theta p5)
                                  (map (\<lambda>u. rnd (u * fexp (- rnd (HomoeostasisLIFPopulation.dt p5
                                                         / HomoeostasisLIFPopulation.tau_theta p5))))
                                     (lt_one (HomoeostasisLIFPopulation.s p5))))\<rparr>)
                  else p4);
               p7 = p6\<lparr>HomoeostasisLIFPopulation.refrac :=
                        masked_fill (HomoeostasisLIFPopulation.refrac p6)
                          (HomoeostasisLIFPopulation.s p6) (HomoeostasisLIFPopulation.tau_ref p6)\<rparr>;
               p8 = p7\<lparr>HomoeostasisLIFPopulation.v :=
                        masked_fill (HomoeostasisLIFPopulation.v p7)
                          (HomoeostasisLIFPopulation.s p7) (HomoeostasisLIFPopulation.rest p7)\<rparr>
           in (p8, Inr (HomoeostasisLIFPopulation.s p8, HomoeostasisLIFPopulation.v p8))))"

definition HomoeostasisLIFPopulation_forward_rnd ::
  "(real \<Rightarrow> real) \<Rightarrow> (real \<Rightarrow> real) \<Rightarrow> HomoeostasisLIFPopulation \<Rightarrow> tensor
     \<Rightarrow> HomoeostasisLIFPopulation \<times> (error + tensor \<times> tensor)" where
  "HomoeostasisLIFPopulation_forward_rnd rnd fexp p xin =
     (let p0 = p\<lparr>HomoeostasisLIFPopulation.v :=
                  map (\<lambda>u. rnd (rnd (fexp (rnd (- HomoeostasisLIFPopulation.dt p
                                                  / HomoeostasisLIFPopulation.tau_rc p))
                                       * rnd (u - HomoeostasisLIFPopulation.rest p))
                                  + HomoeostasisLIFPopulation.rest p))
                      (HomoeostasisLIFPopulation.v p)\<rparr>
      in case add_input_rnd rnd (HomoeostasisLIFPopulation.v p0)
                (HomoeostasisLIFPopulation.refrac p0) xin of
           Inl e \<Rightarrow> (p0, Inl e)
         | Inr v1 \<Rightarrow>
             (let p1 = p0\<lparr>HomoeostasisLIFPopulation.v := v1\<rparr>;
                  p2 = p1\<lparr>HomoeostasisLIFPopulation.refrac :=
                           map (\<lambda>r. rnd (r - HomoeostasisLIFPopulation.dt p1))
                               (HomoeostasisLIFPopulation.refrac p1)\<rparr>;
                  p3 = p2\<lparr>HomoeostasisLIFPopulation.s :=
                           map2 (\<lambda>u th. if rnd (HomoeostasisLIFPopulation.v_th p2 + th) \<le> u
                                       then 1 else 0)
                                (HomoeostasisLIFPopulation.v p2) (HomoeostasisLIFPopulation.theta p2)\<rparr>
              in HomoeostasisLIFPopulation_after_spikes_rnd rnd fexp p3))"

definition LIFPopulation2_forward_rnd ::
  "(real \<Rightarrow> real) \<Rightarrow> (real \<Rightarrow> real) \<Rightarrow> LIFPopulation2 \<Rightarrow> tensor
     \<Rightarrow> LIFPopulation2 \<times> (error + tensor \<times> tensor)" where
  "LIFPopulation2_forward_rnd rnd fexp p xin =
     (let p0 = p\<lparr>LIFPopulation2.v :=
                  map (\<lambda>u. rnd (rnd (fexp (rnd (- LIFPopulation2.dt p / LIFPopulation2.tau_rc p))
                                       * rnd (u - LIFPopulation2.rest p))
                                  + LIFPopulation2.rest p))
                      (LIFPopulation2.v p)\<rparr>
      in case add_input_rnd rnd (LIFPopulation2.v p0) (LIFPopulation2.refrac p0) xin of
           Inl e \<Rightarrow> (p0, Inl e)
         | Inr v1 \<Rightarrow>
             (let p1 = p0\<lparr>LIFPopulation2.v := v1\<rparr>;
                  p2 = p1\<lparr>LIFPopulation2.refrac :=
                           map (\<lambda>r. rnd (r - LIFPopulation2.dt p1)) (LIFPopulation2.refrac p1)\<rparr>;
                  p3 = p2\<lparr>LIFPopulation2.s :=
                           map (\<lambda>u. if LIFPopulation2.v_th p2 \<le> u then 1 else 0)
                               (LIFPopulation2.v p2)\<rparr>;
                  p4 = p3\<lparr>LIFPopulation2.spikecount :=
                           map rnd (map2 (+) (LIFPopulation2.spikecount p3)
                             (map (\<lambda>u. rnd (u * 1)) (gt_zero (LIFPopulation2.s p3))))\<rparr>;
                  p5 = p4\<lparr>LIFPopulation2.refrac :=
                           masked_fill (LIFPopulation2.refrac p4) (LIFPopulation2.s p4)
                             (LIFPopulation2.tau_ref p4)\<rparr>;
                  p6 = p5\<lparr>LIFPopulation2.v :=
                           masked_fill (LIFPopulation2.v p5) (LIFPopulation2.s p5)
                             (LIFPopulation2.rest p5)\<rparr>
              in (p6, Inr (LIFPopulation2.s p6, LIFPopulation2.v p6))))"

definition LIFPopulation_forward_rnd ::
  "(real \<Rightarrow> real) \<Rightarrow> (real \<Rightarrow> real) \<Rightarrow> LIFPopulation \<Rightarrow> tensor
     \<Rightarrow> LIFPopulation \<times> (error + tensor \<times> tensor)" where
  "LIFPopulation_forward_rnd rnd fexp p xin =
     (let p0 = p\<lparr>LIFPopulation.v :=
                  map (\<lambda>u. rnd (rnd (fexp (rnd (- LIFPopulation.dt p / LIFPopulation.tau_rc p))
                                       * rnd (u - LIFPopulation.rest p))
                                  + LIFPopulation.rest p))
                      (LIFPopulation.v p)\<rparr>
      in case add_input_rnd rnd (LIFPopulation.v p0) (LIFPopulation.refrac p0) xin of
           Inl e \<Rightarrow> (p0, Inl e)
         | Inr v1 \<Rightarrow>
             (let p1 = p0\<lparr>LIFPopulation.v := v1\<rparr>;
                  p2 = p1\<lparr>LIFPopulation.refrac :=
                           map (\<lambda>r. rnd (r - LIFPopulation.dt p1)) (LIFPopulation.refrac p1)\<rparr>;
                  p3 = p2\<lparr>LIFPopulation.s :=
                           map (\<lambda>u. if rnd (LIFPopulation.v_th p2 + LIFPopulation.theta p2) \<le> u
                                     then 1 else 0)
                               (LIFPopulation.v p2)\<rparr>;
                  p4 = p3\<lparr>LIFPopulation.refrac :=
                           masked_fill (LIFPopulation.refrac p3) (LIFPopulation.s p3)
                             (LIFPopulation.tau_ref p3)\<rparr>;
                  p5 = p4\<lparr>LIFPopulation.v :=
                           masked_fill (LIFPopulation.v p4) (LIFPopulation.s p4)
                             (LIFPopulation.rest p4)\<rparr>
              in (p5, Inr (LIFPopulation.s p5, LIFPopulation.v p5))))"

definition DiehlAndCookPopulation_trace_rnd ::
  "(real \<Rightarrow> real) \<Rightarrow> (real \<Rightarrow> real) \<Rightarrow> DiehlAndCookPopulation
     \<Rightarrow> DiehlAndCookPopulation \<times> (error + unit)" where
  "DiehlAndCookPopulation_trace_rnd rnd fexp p =
     (case (DiehlAndCookPopulation.x p, DiehlAndCookPopulation.tau_tr p) of
        (Some xt, Some tt) \<Rightarrow>
          (let p1 = p\<lparr>DiehlAndCookPopulation.x :=
                       Some (map (\<lambda>u. rnd (u * fexp (rnd (- DiehlAndCookPopulation.dt p / tt)))) xt)\<rparr>
           in case (DiehlAndCookPopulation.x p1, DiehlAndCookPopulation.scale_tr p1) of
                (Some xd, Some sc) \<Rightarrow>
                  (p1\<lparr>DiehlAndCookPopulation.x :=
                        Some (map rnd (map2 (+) xd
                                (map (\<lambda>u. rnd (sc * u)) (DiehlAndCookPopulation.s p1))))\<rparr>,
                   Inr ())
              | _ \<Rightarrow> (p1, Inl AttributeError))
      | _ \<Rightarrow> (p, Inl AttributeError))"

definition DiehlAndCookPopulation_forward_rnd ::
  "(real \<Rightarrow> real) \<Rightarrow> (real \<Rightarrow> real) \<Rightarrow> DiehlAndCookPopulation \<Rightarrow> tensor
     \<Rightarrow> DiehlAndCookPopulation \<times> (error + tensor \<times> tensor)" where
  "DiehlAndCookPopulation_forward_rnd rnd fexp p xin =
     (let p0 = p\<lparr>DiehlAndCookPopulation.v :=
                  map (\<lambda>u. rnd (rnd (fexp (rnd (- DiehlAndCookPopulation.dt p
                                                  / DiehlAndCookPopulation.tau_rc p))
                                       * rnd (u - DiehlAndCookPopulation.rest p))
                                  + DiehlAndCookPopulation.rest p))
                      (DiehlAndCookPopulation.v p)\<rparr>
      in case add_input_rnd rnd (DiehlAndCookPopulation.v p0)
                (DiehlAndCookPopulation.refrac p0) xin of
           Inl e \<Rightarrow> (p0, Inl e)
         | Inr v1 \<Rightarrow>
             (let p1 = p0\<lparr>DiehlAndCookPopulation.v := v1\<rparr>;
                  p2 = p1\<lparr>DiehlAndCookPopulation.refrac :=
                           map (\<lambda>r. rnd (r - DiehlAndCookPopulation.dt p1))
                               (DiehlAndCookPopulation.refrac p1)\<rparr>;
                  p3 = p2\<lparr>DiehlAndCookPopulation.s :=
                           map (\<lambda>u. if rnd (DiehlAndCookPopulation.v_th p2
                                        + DiehlAndCookPopulation.theta p2) \<le> u then 1 else 0)
                               (DiehlAndCookPopulation.v p2)\<rparr>;
                  p4 = p3\<lparr>DiehlAndCookPopulation.refrac :=
                           masked_fill (DiehlAndCookPopulation.refrac p3)
                             (DiehlAndCookPopulation.s p3) (DiehlAndCookPopulation.tau_ref p3)\<rparr>;
                  p5 = p4\<lparr>DiehlAndCookPopulation.v :=
                           masked_fill (DiehlAndCookPopulation.v p4)
                             (DiehlAndCookPopulation.s p4) (DiehlAndCookPopulation.rest p4)\<rparr>
              in case (if DiehlAndCookPopulation.traces p5
                       then DiehlAndCookPopulation_trace_rnd rnd fexp p5 else (p5, Inr ())) of
                   (p6, Inl e) \<Rightarrow> (p6, Inl e)
                 | (p6, Inr u) \<Rightarrow>
                     (p6, Inr (DiehlAndCookPopulation.s p6, DiehlAndCookPopulation.v p6))))"

section \<open>One neuron in rounded arithmetic\<close>

text \<open>
  What one call does to one neuron, for all thresholded populations at once. A
  \<open>neuron_law\<close> says whether the potential leaks (and by which factor), whether the
  threshold is the rounded sum \<open>v_th + theta\<close> or \<open>v_th\<close> alone, and whether the offset
  adapts (by \<open>nl_up\<close> at a spike, by \<open>nl_dn\<close> otherwise).
\<close>

record neuron_law =
  nl_leak :: bool
  nl_decay :: real
  nl_dt :: real
  nl_rest :: real
  nl_tau_ref :: real
  nl_v_th :: real
  nl_offset :: bool
  nl_adapt :: bool
  nl_up :: real
  nl_dn :: real

definition potential_rnd :: "(real \<Rightarrow> real) \<Rightarrow> neuron_law \<Rightarrow> real \<Rightarrow> real \<Rightarrow> real \<Rightarrow> real" where
  "potential_rnd rnd L v0 r xi =
     rnd ((if nl_leak L then rnd (rnd (nl_decay L * rnd (v0 - nl_rest L)) + nl_rest L) else v0)
          + rnd ((if r \<le> 0 then 1 else 0) * xi))"

definition threshold_rnd :: "(real \<Rightarrow> real) \<Rightarrow> neuron_law \<Rightarrow> real \<Rightarrow> real" where
  "threshold_rnd rnd L th = (if nl_offset L then rnd (nl_v_th L + th) else nl_v_th L)"

definition adapt_rnd :: "(real \<Rightarrow> real) \<Rightarrow> neuron_law \<Rightarrow> bool \<Rightarrow> real \<Rightarrow> real" where
  "adapt_rnd rnd L sp th =
     (if nl_adapt L
      then rnd (rnd (th + rnd ((if sp then 1 else 0) * nl_up L))
                + rnd ((if sp then 0 else 1) * nl_dn L))
      else th)"

definition neuron_step_rnd :: "(real \<Rightarrow> real) \<Rightarrow> neuron_law \<Rightarrow> neuron \<Rightarrow> real \<Rightarrow> neuron" where
  "neuron_step_rnd rnd L n xi =
     (case n of (v0, r, th) \<Rightarrow>
        (let u = potential_rnd rnd L v0 r xi;
             sp = (threshold_rnd rnd L th \<le> u)
         in (if sp then nl_rest L else u,
             if sp then nl_tau_ref L else rnd (r - nl_dt L),
             adapt_rnd rnd L sp th)))"

definition neuron_spike_rnd :: "(real \<Rightarrow> real) \<Rightarrow> neuron_law \<Rightarrow> neuron \<Rightarrow> real \<Rightarrow> real" where
  "neuron_spike_rnd rnd L n xi =
     (case n of (v0, r, th) \<Rightarrow>
        (if threshold_rnd rnd L th \<le> potential_rnd rnd L v0 r xi then 1 else 0))"

text \<open>
  The refractory counter \<open>k\<close> calls after it was \<open>r\<close>, and the offset \<open>k\<close> silent calls
  after it was \<open>th\<close>: \<open>k\<close> rounded subtractions of \<open>dt\<close>, and \<open>k\<close> updates of a silent neuron.
\<close>

fun countdown :: "(real \<Rightarrow> real) \<Rightarrow> real \<Rightarrow> nat \<Rightarrow> real \<Rightarrow> real" where
  "countdown rnd dt0 0 r = r"
| "countdown rnd dt0 (Suc k) r = countdown rnd dt0 k (rnd (r - dt0))"

fun theta_idle :: "(real \<Rightarrow> real) \<Rightarrow> neuron_law \<Rightarrow> nat \<Rightarrow> real \<Rightarrow> real" where
  "theta_idle rnd L 0 th = th"
| "theta_idle rnd L (Suc k) th = theta_idle rnd L k (adapt_rnd rnd L False th)"

definition IFPopulation_law_rnd :: "IFPopulation \<Rightarrow> neuron_law" where
  "IFPopulation_law_rnd p =
     \<lparr>nl_leak = False, nl_decay = 1, nl_dt = IFPopulation.dt p, nl_rest = IFPopulation.rest p,
      nl_tau_ref = IFPopulation.tau_ref p, nl_v_th = IFPopulation.v_th p, nl_offset = False,
      nl_adapt = False, nl_up = 0, nl_dn = 0\<rparr>"

definition LIFPopulation2_law_rnd :: "(real \<Rightarrow> real) \<Rightarrow> (real \<Rightarrow> real) \<Rightarrow> LIFPopulation2 \<Rightarrow> neuron_law" where
  "LIFPopulation2_law_rnd rnd fexp p =
     \<lparr>nl_leak = True, nl_decay = fexp (rnd (- LIFPopulation2.dt p / LIFPopulation2.tau_rc p)),
      nl_dt = LIFPopulation2.dt p, nl_rest = LIFPopulation2.rest p,
      nl_tau_ref = LIFPopulation2.tau_ref p, nl_v_th = LIFPopulation2.v_th p, nl_offset = False,
      nl_adapt = False, nl_up = 0, nl_dn = 0\<rparr>"

definition LIFPopulation_law_rnd :: "(real \<Rightarrow> real) \<Rightarrow> (real \<Rightarrow> real) \<Rightarrow> LIFPopulation \<Rightarrow> neuron_law" where
  "LIFPopulation_law_rnd rnd fexp p =
     \<lparr>nl_leak = True, nl_decay = fexp (rnd (- LIFPopulation.dt p / LIFPopulation.tau_rc p)),
      nl_dt = LIFPopulation.dt p, nl_rest = LIFPopulation.rest p,
      nl_tau_ref = LIFPopulation.tau_ref p, nl_v_th = LIFPopulation.v_th p, nl_offset = True,
      nl_adapt = False, nl_up = 0, nl_dn = 0\<rparr>"

definition DiehlAndCookPopulation_law_rnd ::
  "(real \<Rightarrow> real) \<Rightarrow> (real \<Rightarrow> real) \<Rightarrow> DiehlAndCookPopulation \<Rightarrow> neuron_law" where
  "DiehlAndCookPopulation_law_rnd rnd fexp p =
     \<lparr>nl_leak = True,
      nl_decay = fexp (rnd (- DiehlAndCookPopulation.dt p / DiehlAndCookPopulation.tau_rc p)),
      nl_dt = DiehlAndCookPopulation.dt p, nl_rest = DiehlAndCookPopulation.rest p,
      nl_tau_ref = DiehlAndCookPopulation.tau_ref p, nl_v_th = DiehlAndCookPopulation.v_th p,
      nl_offset = True, nl_adapt = False, nl_up = 0, nl_dn = 0\<rparr>"

definition HomoeostasisLIFPopulation_law_rnd ::
  "(real \<Rightarrow> real) \<Rightarrow> (real \<Rightarrow> real) \<Rightarrow> HomoeostasisLIFPopulation \<Rightarrow> neuron_law" where
  "HomoeostasisLIFPopulation_law_rnd rnd fexp p =
     \<lparr>nl_leak = True,
      nl_decay = fexp (rnd (- HomoeostasisLIFPopulation.dt p / HomoeostasisLIFPopulation.tau_rc p)),
      nl_dt = HomoeostasisLIFPopulation.dt p, nl_rest = HomoeostasisLIFPopulation.rest p,
      nl_tau_ref = HomoeostasisLIFPopulation.tau_ref p, nl_v_th = HomoeostasisLIFPopulation.v_th p,
      nl_offset = True, nl_adapt = (HomoeostasisLIFPopulation.frozen_th p = False),
      nl_up = HomoeostasisLIFPopulation.theta_plus p,
      nl_dn = fexp (- rnd (HomoeostasisLIFPopulation.dt p / HomoeostasisLIFPopulation.tau_theta p))\<rparr>"

section \<open>The input statement\<close>

lemma add_input_eq:
  "length r = length v0 \<Longrightarrow> length xin = length v0 \<Longrightarrow>
   add_input v0 r xin = Inr (map2 (+) v0 (map2 (*) (le_zero r) xin))"
  by (simp add: add_input_def tensor_mul_def tensor_iadd_def le_zero_def)

section \<open>Each population, neuron by neuron\<close>

text \<open>
  On an input of the population's size, one call of \<open>forward\<close> changes each neuron as
  \<open>neuron_step\<close> says, keeps the invariant, and leaves the hyperparameters alone.
\<close>

subsection \<open>IFPopulation\<close>

lemma IFPopulation_forward_neuron:
  assumes "IFPopulation_wf p" "length xin = IFPopulation.neurons p" "i < IFPopulation.neurons p"
  shows "IFPopulation_neuron (fst (IFPopulation_forward p xin)) i = IFPopulation_law p (IFPopulation_neuron p i) (xin ! i)"
  using assms
  by (auto simp add: IFPopulation_forward_def IFPopulation_wf_def add_input_eq Let_def masked_fill_def
      le_zero_def 
      IFPopulation_neuron_def IFPopulation_law_def neuron_step_def neuron_potential_def
      split: option.splits)

lemma IFPopulation_forward_s:
  assumes "IFPopulation_wf p" "length xin = IFPopulation.neurons p" "i < IFPopulation.neurons p"
  shows "IFPopulation.s (fst (IFPopulation_forward p xin)) ! i
         = neuron_spike (1)
             (IFPopulation.rest p) (IFPopulation.v_th p) (IFPopulation_neuron p i) (xin ! i)"
  using assms
  by (auto simp add: IFPopulation_forward_def IFPopulation_wf_def add_input_eq Let_def masked_fill_def
      le_zero_def 
      IFPopulation_neuron_def neuron_spike_def neuron_potential_def
      split: option.splits)

lemma IFPopulation_forward_wf:
  assumes "IFPopulation_wf p" "length xin = IFPopulation.neurons p"
  shows "IFPopulation_wf (fst (IFPopulation_forward p xin))"
  using assms
  by (auto simp add: IFPopulation_forward_def IFPopulation_wf_def add_input_eq Let_def masked_fill_def
      le_zero_def 
      split: option.splits)

lemma IFPopulation_forward_neurons:
  "IFPopulation.neurons (fst (IFPopulation_forward p xin)) = IFPopulation.neurons p"
  by (auto simp add: IFPopulation_forward_def Let_def 
      split: option.splits sum.splits)

subsection \<open>HomoeostasisLIFPopulation\<close>





subsection \<open>LIFPopulation2\<close>





subsection \<open>LIFPopulation\<close>





subsection \<open>DiehlAndCookPopulation\<close>





section \<open>Counting calls\<close>

lemma window_inside:
  assumes "0 < (dt0::real)" "k < nat \<lceil>tau_ref0 / dt0\<rceil>"
  shows "real k * dt0 < tau_ref0"
proof -
  have "int k < \<lceil>tau_ref0 / dt0\<rceil>" using assms(2) by linarith
  then have "real_of_int (int k) < tau_ref0 / dt0" by (simp only: less_ceiling_iff)
  then have "real k < tau_ref0 / dt0" by simp
  then show ?thesis using assms(1) by (simp add: pos_less_divide_eq)
qed

lemma window_end:
  assumes "0 < (dt0::real)"
  shows "tau_ref0 - real (nat \<lceil>tau_ref0 / dt0\<rceil>) * dt0 \<le> 0"
proof -
  have "tau_ref0 / dt0 \<le> real_of_int \<lceil>tau_ref0 / dt0\<rceil>" by (rule le_of_int_ceiling)
  also have "\<dots> \<le> real (nat \<lceil>tau_ref0 / dt0\<rceil>)" by simp
  finally have "tau_ref0 / dt0 \<le> real (nat \<lceil>tau_ref0 / dt0\<rceil>)" .
  then have "tau_ref0 \<le> real (nat \<lceil>tau_ref0 / dt0\<rceil>) * dt0"
    using assms by (simp add: pos_divide_le_eq)
  then show ?thesis by simp
qed


section \<open>The adaptive threshold\<close>



section \<open>The recurrence of the leaky populations\<close>














section \<open>Inputs of another size, and the spike vector\<close>

lemma add_input_bad:
  "length r = length v0 \<Longrightarrow> length xin \<noteq> length v0 \<Longrightarrow> length xin \<noteq> 1 \<Longrightarrow>
   add_input v0 r xin = Inl RuntimeError"
  by (auto simp add: add_input_def tensor_mul_def tensor_iadd_def le_zero_def)

lemma add_input_bcast:
  "length r = length v0 \<Longrightarrow> length xin = 1 \<Longrightarrow>
   add_input v0 r xin = add_input v0 r (replicate (length v0) (hd xin))"
  apply (cases "length v0 = 1")
   apply (cases xin; simp)
  apply (simp add: add_input_def tensor_mul_def tensor_iadd_def le_zero_def)
  apply (rule nth_equalityI; simp)
  done

lemma tensor_assign_bcast:
  "length xin = 1 \<Longrightarrow>
   tensor_assign self xin = tensor_assign self (replicate (length self) (hd xin))"
  apply (cases "length self = 1")
   apply (cases xin; simp)
  apply (simp add: tensor_assign_def map_replicate_const)
  done

lemma InputPopulation_forward_bad:
  "InputPopulation_wf p \<and> length xin \<noteq> InputPopulation.neurons p \<and> length xin \<noteq> 1 \<longrightarrow>
     InputPopulation_forward p xin = (p, Inl RuntimeError)"
  by (simp add: InputPopulation_forward_def InputPopulation_wf_def tensor_assign_def)

lemma InputPopulation_forward_bcast:
  "InputPopulation_wf p \<and> length xin = 1 \<longrightarrow>
     InputPopulation_forward p xin
     = InputPopulation_forward p (replicate (InputPopulation.neurons p) (hd xin))"
proof (intro impI, elim conjE)
  assume wf: "InputPopulation_wf p" and len: "length xin = 1"
  have n: "InputPopulation.neurons p = length (InputPopulation.s p)"
    using wf by (simp add: InputPopulation_wf_def)
  show "InputPopulation_forward p xin
     = InputPopulation_forward p (replicate (InputPopulation.neurons p) (hd xin))"
    unfolding InputPopulation_forward_def n tensor_assign_bcast [OF len, symmetric] ..
qed

lemma InputPopulation_forward_copy:
  "InputPopulation_wf p \<and> length xin = InputPopulation.neurons p \<longrightarrow>
     InputPopulation.s (fst (InputPopulation_forward p xin)) = xin
     \<and> snd (InputPopulation_forward p xin) = Inr xin"
  by (auto simp add: InputPopulation_forward_def InputPopulation_wf_def tensor_assign_def
      InputPopulation_trace_def Let_def split: option.splits)

lemma IFPopulation_forward_bad:
  "IFPopulation_wf p \<and> length xin \<noteq> IFPopulation.neurons p \<and> length xin \<noteq> 1 \<longrightarrow>
     IFPopulation_forward p xin = (p, Inl RuntimeError)"
  by (simp add: IFPopulation_forward_def IFPopulation_wf_def add_input_bad Let_def)

lemma IFPopulation_forward_bcast:
  "IFPopulation_wf p \<and> length xin = 1 \<longrightarrow>
     IFPopulation_forward p xin = IFPopulation_forward p (replicate (IFPopulation.neurons p) (hd xin))"
proof (intro impI, elim conjE)
  assume wf: "IFPopulation_wf p" and len: "length xin = 1"
  have n: "IFPopulation.neurons p = length (IFPopulation.v p)"
    and r: "length (IFPopulation.refrac p) = length (IFPopulation.v p)"
    using wf by (simp_all add: IFPopulation_wf_def)
  have "add_input (IFPopulation.v p) (IFPopulation.refrac p) xin
        = add_input (IFPopulation.v p) (IFPopulation.refrac p) (replicate (IFPopulation.neurons p) (hd xin))"
    unfolding n by (rule add_input_bcast [OF r len])
  then show "IFPopulation_forward p xin = IFPopulation_forward p (replicate (IFPopulation.neurons p) (hd xin))"
    by (simp add: IFPopulation_forward_def Let_def)
qed

lemma IFPopulation_spikes_01:
  "set (IFPopulation.s p) \<subseteq> {0, 1} \<longrightarrow> set (IFPopulation.s (fst (IFPopulation_forward p xin))) \<subseteq> {0, 1}"
  by (auto simp add: IFPopulation_forward_def Let_def 
      split: sum.splits option.splits if_splits)

lemma LIFPopulation_forward_bad:
  "LIFPopulation_wf p \<and> length xin \<noteq> LIFPopulation.neurons p \<and> length xin \<noteq> 1 \<longrightarrow>
     LIFPopulation_forward p xin = (p\<lparr>LIFPopulation.v :=
            map (\<lambda>u. exp (- LIFPopulation.dt p / LIFPopulation.tau_rc p) * (u - LIFPopulation.rest p) + LIFPopulation.rest p)
                (LIFPopulation.v p)\<rparr>, Inl RuntimeError)"
  by (simp add: LIFPopulation_forward_def LIFPopulation_wf_def add_input_bad Let_def)

lemma LIFPopulation_forward_bcast:
  "LIFPopulation_wf p \<and> length xin = 1 \<longrightarrow>
     LIFPopulation_forward p xin = LIFPopulation_forward p (replicate (LIFPopulation.neurons p) (hd xin))"
proof (intro impI, elim conjE)
  assume wf: "LIFPopulation_wf p" and len: "length xin = 1"
  have n: "LIFPopulation.neurons p = length (map (\<lambda>u. exp (- LIFPopulation.dt p / LIFPopulation.tau_rc p) * (u - LIFPopulation.rest p) + LIFPopulation.rest p) (LIFPopulation.v p))"
    and r: "length (LIFPopulation.refrac p) = length (map (\<lambda>u. exp (- LIFPopulation.dt p / LIFPopulation.tau_rc p) * (u - LIFPopulation.rest p) + LIFPopulation.rest p) (LIFPopulation.v p))"
    using wf by (simp_all add: LIFPopulation_wf_def)
  have "add_input (map (\<lambda>u. exp (- LIFPopulation.dt p / LIFPopulation.tau_rc p) * (u - LIFPopulation.rest p) + LIFPopulation.rest p) (LIFPopulation.v p)) (LIFPopulation.refrac p) xin
        = add_input (map (\<lambda>u. exp (- LIFPopulation.dt p / LIFPopulation.tau_rc p) * (u - LIFPopulation.rest p) + LIFPopulation.rest p) (LIFPopulation.v p)) (LIFPopulation.refrac p) (replicate (LIFPopulation.neurons p) (hd xin))"
    unfolding n by (rule add_input_bcast [OF r len])
  then show "LIFPopulation_forward p xin = LIFPopulation_forward p (replicate (LIFPopulation.neurons p) (hd xin))"
    by (simp add: LIFPopulation_forward_def Let_def)
qed

lemma LIFPopulation_spikes_01:
  "set (LIFPopulation.s p) \<subseteq> {0, 1} \<longrightarrow> set (LIFPopulation.s (fst (LIFPopulation_forward p xin))) \<subseteq> {0, 1}"
  by (auto simp add: LIFPopulation_forward_def Let_def 
      split: sum.splits option.splits if_splits)

lemma LIFPopulation2_forward_bad:
  "LIFPopulation2_wf p \<and> length xin \<noteq> LIFPopulation2.neurons p \<and> length xin \<noteq> 1 \<longrightarrow>
     LIFPopulation2_forward p xin = (p\<lparr>LIFPopulation2.v :=
            map (\<lambda>u. exp (- LIFPopulation2.dt p / LIFPopulation2.tau_rc p) * (u - LIFPopulation2.rest p) + LIFPopulation2.rest p)
                (LIFPopulation2.v p)\<rparr>, Inl RuntimeError)"
  by (simp add: LIFPopulation2_forward_def LIFPopulation2_wf_def add_input_bad Let_def)

lemma LIFPopulation2_forward_bcast:
  "LIFPopulation2_wf p \<and> length xin = 1 \<longrightarrow>
     LIFPopulation2_forward p xin = LIFPopulation2_forward p (replicate (LIFPopulation2.neurons p) (hd xin))"
proof (intro impI, elim conjE)
  assume wf: "LIFPopulation2_wf p" and len: "length xin = 1"
  have n: "LIFPopulation2.neurons p = length (map (\<lambda>u. exp (- LIFPopulation2.dt p / LIFPopulation2.tau_rc p) * (u - LIFPopulation2.rest p) + LIFPopulation2.rest p) (LIFPopulation2.v p))"
    and r: "length (LIFPopulation2.refrac p) = length (map (\<lambda>u. exp (- LIFPopulation2.dt p / LIFPopulation2.tau_rc p) * (u - LIFPopulation2.rest p) + LIFPopulation2.rest p) (LIFPopulation2.v p))"
    using wf by (simp_all add: LIFPopulation2_wf_def)
  have "add_input (map (\<lambda>u. exp (- LIFPopulation2.dt p / LIFPopulation2.tau_rc p) * (u - LIFPopulation2.rest p) + LIFPopulation2.rest p) (LIFPopulation2.v p)) (LIFPopulation2.refrac p) xin
        = add_input (map (\<lambda>u. exp (- LIFPopulation2.dt p / LIFPopulation2.tau_rc p) * (u - LIFPopulation2.rest p) + LIFPopulation2.rest p) (LIFPopulation2.v p)) (LIFPopulation2.refrac p) (replicate (LIFPopulation2.neurons p) (hd xin))"
    unfolding n by (rule add_input_bcast [OF r len])
  then show "LIFPopulation2_forward p xin = LIFPopulation2_forward p (replicate (LIFPopulation2.neurons p) (hd xin))"
    by (simp add: LIFPopulation2_forward_def Let_def)
qed

lemma LIFPopulation2_spikes_01:
  "set (LIFPopulation2.s p) \<subseteq> {0, 1} \<longrightarrow> set (LIFPopulation2.s (fst (LIFPopulation2_forward p xin))) \<subseteq> {0, 1}"
  by (auto simp add: LIFPopulation2_forward_def Let_def gt_zero_def
      split: sum.splits option.splits if_splits)

lemma HomoeostasisLIFPopulation_forward_bad:
  "HomoeostasisLIFPopulation_wf p \<and> length xin \<noteq> HomoeostasisLIFPopulation.neurons p \<and> length xin \<noteq> 1 \<longrightarrow>
     HomoeostasisLIFPopulation_forward p xin = (p\<lparr>HomoeostasisLIFPopulation.v :=
            map (\<lambda>u. exp (- HomoeostasisLIFPopulation.dt p / HomoeostasisLIFPopulation.tau_rc p) * (u - HomoeostasisLIFPopulation.rest p) + HomoeostasisLIFPopulation.rest p)
                (HomoeostasisLIFPopulation.v p)\<rparr>, Inl RuntimeError)"
  by (simp add: HomoeostasisLIFPopulation_forward_def HomoeostasisLIFPopulation_wf_def add_input_bad Let_def)

lemma HomoeostasisLIFPopulation_forward_bcast:
  "HomoeostasisLIFPopulation_wf p \<and> length xin = 1 \<longrightarrow>
     HomoeostasisLIFPopulation_forward p xin = HomoeostasisLIFPopulation_forward p (replicate (HomoeostasisLIFPopulation.neurons p) (hd xin))"
proof (intro impI, elim conjE)
  assume wf: "HomoeostasisLIFPopulation_wf p" and len: "length xin = 1"
  have n: "HomoeostasisLIFPopulation.neurons p = length (map (\<lambda>u. exp (- HomoeostasisLIFPopulation.dt p / HomoeostasisLIFPopulation.tau_rc p) * (u - HomoeostasisLIFPopulation.rest p) + HomoeostasisLIFPopulation.rest p) (HomoeostasisLIFPopulation.v p))"
    and r: "length (HomoeostasisLIFPopulation.refrac p) = length (map (\<lambda>u. exp (- HomoeostasisLIFPopulation.dt p / HomoeostasisLIFPopulation.tau_rc p) * (u - HomoeostasisLIFPopulation.rest p) + HomoeostasisLIFPopulation.rest p) (HomoeostasisLIFPopulation.v p))"
    using wf by (simp_all add: HomoeostasisLIFPopulation_wf_def)
  have "add_input (map (\<lambda>u. exp (- HomoeostasisLIFPopulation.dt p / HomoeostasisLIFPopulation.tau_rc p) * (u - HomoeostasisLIFPopulation.rest p) + HomoeostasisLIFPopulation.rest p) (HomoeostasisLIFPopulation.v p)) (HomoeostasisLIFPopulation.refrac p) xin
        = add_input (map (\<lambda>u. exp (- HomoeostasisLIFPopulation.dt p / HomoeostasisLIFPopulation.tau_rc p) * (u - HomoeostasisLIFPopulation.rest p) + HomoeostasisLIFPopulation.rest p) (HomoeostasisLIFPopulation.v p)) (HomoeostasisLIFPopulation.refrac p) (replicate (HomoeostasisLIFPopulation.neurons p) (hd xin))"
    unfolding n by (rule add_input_bcast [OF r len])
  then show "HomoeostasisLIFPopulation_forward p xin = HomoeostasisLIFPopulation_forward p (replicate (HomoeostasisLIFPopulation.neurons p) (hd xin))"
    by (simp add: HomoeostasisLIFPopulation_forward_def Let_def)
qed

lemma HomoeostasisLIFPopulation_spikes_01:
  "set (HomoeostasisLIFPopulation.s p) \<subseteq> {0, 1} \<longrightarrow> set (HomoeostasisLIFPopulation.s (fst (HomoeostasisLIFPopulation_forward p xin))) \<subseteq> {0, 1}"
  by (auto simp add: HomoeostasisLIFPopulation_forward_def Let_def HomoeostasisLIFPopulation_after_spikes_def
      split: sum.splits option.splits if_splits)

lemma DiehlAndCookPopulation_forward_bad:
  "DiehlAndCookPopulation_wf p \<and> length xin \<noteq> DiehlAndCookPopulation.neurons p \<and> length xin \<noteq> 1 \<longrightarrow>
     DiehlAndCookPopulation_forward p xin = (p\<lparr>DiehlAndCookPopulation.v :=
            map (\<lambda>u. exp (- DiehlAndCookPopulation.dt p / DiehlAndCookPopulation.tau_rc p) * (u - DiehlAndCookPopulation.rest p) + DiehlAndCookPopulation.rest p)
                (DiehlAndCookPopulation.v p)\<rparr>, Inl RuntimeError)"
  by (simp add: DiehlAndCookPopulation_forward_def DiehlAndCookPopulation_wf_def add_input_bad Let_def)

lemma DiehlAndCookPopulation_forward_bcast:
  "DiehlAndCookPopulation_wf p \<and> length xin = 1 \<longrightarrow>
     DiehlAndCookPopulation_forward p xin = DiehlAndCookPopulation_forward p (replicate (DiehlAndCookPopulation.neurons p) (hd xin))"
proof (intro impI, elim conjE)
  assume wf: "DiehlAndCookPopulation_wf p" and len: "length xin = 1"
  have n: "DiehlAndCookPopulation.neurons p = length (map (\<lambda>u. exp (- DiehlAndCookPopulation.dt p / DiehlAndCookPopulation.tau_rc p) * (u - DiehlAndCookPopulation.rest p) + DiehlAndCookPopulation.rest p) (DiehlAndCookPopulation.v p))"
    and r: "length (DiehlAndCookPopulation.refrac p) = length (map (\<lambda>u. exp (- DiehlAndCookPopulation.dt p / DiehlAndCookPopulation.tau_rc p) * (u - DiehlAndCookPopulation.rest p) + DiehlAndCookPopulation.rest p) (DiehlAndCookPopulation.v p))"
    using wf by (simp_all add: DiehlAndCookPopulation_wf_def)
  have "add_input (map (\<lambda>u. exp (- DiehlAndCookPopulation.dt p / DiehlAndCookPopulation.tau_rc p) * (u - DiehlAndCookPopulation.rest p) + DiehlAndCookPopulation.rest p) (DiehlAndCookPopulation.v p)) (DiehlAndCookPopulation.refrac p) xin
        = add_input (map (\<lambda>u. exp (- DiehlAndCookPopulation.dt p / DiehlAndCookPopulation.tau_rc p) * (u - DiehlAndCookPopulation.rest p) + DiehlAndCookPopulation.rest p) (DiehlAndCookPopulation.v p)) (DiehlAndCookPopulation.refrac p) (replicate (DiehlAndCookPopulation.neurons p) (hd xin))"
    unfolding n by (rule add_input_bcast [OF r len])
  then show "DiehlAndCookPopulation_forward p xin = DiehlAndCookPopulation_forward p (replicate (DiehlAndCookPopulation.neurons p) (hd xin))"
    by (simp add: DiehlAndCookPopulation_forward_def Let_def)
qed

lemma DiehlAndCookPopulation_spikes_01:
  "set (DiehlAndCookPopulation.s p) \<subseteq> {0, 1} \<longrightarrow> set (DiehlAndCookPopulation.s (fst (DiehlAndCookPopulation_forward p xin))) \<subseteq> {0, 1}"
  by (auto simp add: DiehlAndCookPopulation_forward_def Let_def DiehlAndCookPopulation_trace_def
      split: sum.splits option.splits if_splits)

section \<open>LIFPopulation and DiehlAndCookPopulation side by side\<close>

lemma run_snd_Cons:
  "snd (run f p (xin # xs))
   = (case snd (f p xin) of
        Inl e \<Rightarrow> Inl e
      | Inr out \<Rightarrow>
          (case snd (run f (fst (f p xin)) xs) of
             Inl e \<Rightarrow> Inl e
           | Inr outs \<Rightarrow> Inr (out # outs)))"
  by (simp split: prod.splits sum.splits)

lemma same_membrane_step:
  assumes "same_membrane l d" "DiehlAndCookPopulation.x d \<noteq> None"
    "DiehlAndCookPopulation.tau_tr d \<noteq> None" "DiehlAndCookPopulation.scale_tr d \<noteq> None"
  shows "snd (LIFPopulation_forward l xin) = snd (DiehlAndCookPopulation_forward d xin)
       \<and> same_membrane (fst (LIFPopulation_forward l xin)) (fst (DiehlAndCookPopulation_forward d xin))
       \<and> DiehlAndCookPopulation.x (fst (DiehlAndCookPopulation_forward d xin)) \<noteq> None
       \<and> DiehlAndCookPopulation.tau_tr (fst (DiehlAndCookPopulation_forward d xin)) \<noteq> None
       \<and> DiehlAndCookPopulation.scale_tr (fst (DiehlAndCookPopulation_forward d xin)) \<noteq> None"
  using assms
  by (auto simp add: same_membrane_def LIFPopulation_forward_def DiehlAndCookPopulation_forward_def
      DiehlAndCookPopulation_trace_def Let_def split: sum.splits option.splits)

lemma same_membrane_run:
  assumes "same_membrane l d" "DiehlAndCookPopulation.x d \<noteq> None"
    "DiehlAndCookPopulation.tau_tr d \<noteq> None" "DiehlAndCookPopulation.scale_tr d \<noteq> None"
  shows "snd (run LIFPopulation_forward l xs) = snd (run DiehlAndCookPopulation_forward d xs)"
  using assms
proof (induction xs arbitrary: l d)
  case Nil
  then show ?case by simp
next
  case (Cons xin xs)
  note step = same_membrane_step [OF Cons.prems, of xin]
  have "snd (run LIFPopulation_forward (fst (LIFPopulation_forward l xin)) xs)
        = snd (run DiehlAndCookPopulation_forward (fst (DiehlAndCookPopulation_forward d xin)) xs)"
    using step by (intro Cons.IH) simp_all
  then show ?case using step by (simp only: run_snd_Cons)
qed

lemma same_membrane_init:
  "DiehlAndCookPopulation_init n dt0 tau_rc0 v_th0 theta0 rest0 tau_ref0 tr tau_tr0 scale_tr0 = Inr d
   \<Longrightarrow> same_membrane (LIFPopulation_init n dt0 tau_rc0 v_th0 theta0 rest0 tau_ref0) d
       \<and> DiehlAndCookPopulation.x d \<noteq> None
       \<and> DiehlAndCookPopulation.tau_tr d \<noteq> None \<and> DiehlAndCookPopulation.scale_tr d \<noteq> None"
  by (auto simp add: DiehlAndCookPopulation_init_def DiehlAndCookPopulation_reset_def
      LIFPopulation_init_def same_membrane_def Let_def split: if_splits)

section \<open>The rounded model, neuron by neuron\<close>

lemma fl32_zero: "fl32 0 = 0"
  by (simp add: fl32_def)

lemma round_even_of_int: "round_even (of_int m) = m"
  by (simp add: round_even_def)

lemma fl32_expo:
  assumes "z \<noteq> 0" "2 powr of_int e \<le> \<bar>z\<bar>" "\<bar>z\<bar> < 2 powr of_int (e + 1)" "- 126 \<le> e"
  shows "fl32 z = of_int (round_even (z / 2 powr of_int (e - 23))) * 2 powr of_int (e - 23)"
proof -
  have "\<lfloor>log 2 \<bar>z\<bar>\<rfloor> = e"
    using assms(1,2,3) by (subst floor_log_eq_powr_iff) (simp_all add: add.commute)
  then show ?thesis using assms(1,4) by (simp add: fl32_def Let_def max_def)
qed

lemma fl32_small:
  assumes "2 ^ 23 \<le> \<bar>z\<bar> * 2 ^ k" "\<bar>z\<bar> * 2 ^ k < 2 ^ 24" "k \<le> 149"
  shows "fl32 z = of_int (round_even (z * 2 ^ k)) / 2 ^ k"
proof -
  have z0: "z \<noteq> 0" using assms(1) by auto
  have p: "(2::real) powr of_int (int 23 - int k) = 2 ^ 23 / 2 ^ k"
    by (simp add: powr_diff powr_realpow)
  have p1: "(2::real) powr of_int (int 23 - int k + 1) = 2 ^ 24 / 2 ^ k"
    by (simp add: powr_diff powr_add powr_realpow)
  have q: "(2::real) powr of_int (int 23 - int k - 23) = 1 / 2 ^ k"
    by (simp add: powr_minus powr_realpow divide_simps)
  have "fl32 z = of_int (round_even (z / 2 powr of_int (int 23 - int k - 23)))
                  * 2 powr of_int (int 23 - int k - 23)"
  proof (rule fl32_expo [OF z0])
    show "2 powr of_int (int 23 - int k) \<le> \<bar>z\<bar>"
      unfolding p using assms(1) by (simp add: divide_simps)
    show "\<bar>z\<bar> < 2 powr of_int (int 23 - int k + 1)"
      unfolding p1 using assms(2) by (simp add: divide_simps)
    show "- 126 \<le> int 23 - int k" using assms(3) by simp
  qed
  then show ?thesis unfolding q by simp
qed

lemma fl32_large:
  assumes "2 ^ 23 \<le> \<bar>z\<bar> / 2 ^ j" "\<bar>z\<bar> / 2 ^ j < 2 ^ 24"
  shows "fl32 z = of_int (round_even (z / 2 ^ j)) * 2 ^ j"
proof -
  have z0: "z \<noteq> 0" using assms(1) by auto
  have p: "(2::real) powr of_int (int 23 + int j) = 2 ^ 23 * 2 ^ j"
    by (simp add: powr_add powr_realpow)
  have p1: "(2::real) powr of_int (int 23 + int j + 1) = 2 ^ 24 * 2 ^ j"
    by (simp add: powr_add powr_realpow)
  have q: "(2::real) powr of_int (int 23 + int j - 23) = 2 ^ j"
    by (simp add: powr_realpow)
  have "fl32 z = of_int (round_even (z / 2 powr of_int (int 23 + int j - 23)))
                  * 2 powr of_int (int 23 + int j - 23)"
  proof (rule fl32_expo [OF z0])
    show "2 powr of_int (int 23 + int j) \<le> \<bar>z\<bar>"
      unfolding p using assms(1) by (simp add: divide_simps)
    show "\<bar>z\<bar> < 2 powr of_int (int 23 + int j + 1)"
      unfolding p1 using assms(2) by (simp add: divide_simps)
    show "- 126 \<le> int 23 + int j" by simp
  qed
  then show ?thesis unfolding q by simp
qed

lemma add_input_rnd_eq:
  "length r = length v0 \<Longrightarrow> length xin = length v0 \<Longrightarrow>
   add_input_rnd rnd v0 r xin
   = Inr (map rnd (map2 (+) v0 (map rnd (map2 (*) (le_zero r) xin))))"
  by (simp add: add_input_rnd_def tensor_mul_def tensor_iadd_def le_zero_def)

lemma add_input_rnd_exact: "add_input_rnd (\<lambda>y. y) v0 r xin = add_input v0 r xin"
  by (simp add: add_input_rnd_def add_input_def split: sum.splits)

subsection \<open>IFPopulation\<close>

lemma IFPopulation_forward_rnd_exact:
  "IFPopulation_forward_rnd (\<lambda>y. y) p xin = IFPopulation_forward p xin"
  by (auto simp add: IFPopulation_forward_rnd_def IFPopulation_forward_def add_input_rnd_exact
        Let_def split: sum.splits option.splits)

lemma IFPopulation_forward_rnd_neuron:
  assumes "IFPopulation_wf p" "length xin = IFPopulation.neurons p" "i < IFPopulation.neurons p"
  shows "IFPopulation_neuron (fst (IFPopulation_forward_rnd rnd p xin)) i
         = neuron_step_rnd rnd (IFPopulation_law_rnd p) (IFPopulation_neuron p i) (xin ! i)"
  using assms
  by (auto simp add: IFPopulation_forward_rnd_def IFPopulation_wf_def add_input_rnd_eq Let_def masked_fill_def
      le_zero_def 
      IFPopulation_neuron_def IFPopulation_law_rnd_def neuron_step_rnd_def potential_rnd_def
      threshold_rnd_def adapt_rnd_def split: option.splits)

lemma IFPopulation_forward_rnd_s:
  assumes "IFPopulation_wf p" "length xin = IFPopulation.neurons p" "i < IFPopulation.neurons p"
  shows "IFPopulation.s (fst (IFPopulation_forward_rnd rnd p xin)) ! i
         = neuron_spike_rnd rnd (IFPopulation_law_rnd p) (IFPopulation_neuron p i) (xin ! i)"
  using assms
  by (auto simp add: IFPopulation_forward_rnd_def IFPopulation_wf_def add_input_rnd_eq Let_def masked_fill_def
      le_zero_def 
      IFPopulation_neuron_def IFPopulation_law_rnd_def neuron_spike_rnd_def potential_rnd_def
      threshold_rnd_def split: option.splits)

lemma IFPopulation_forward_rnd_wf:
  assumes "IFPopulation_wf p" "length xin = IFPopulation.neurons p"
  shows "IFPopulation_wf (fst (IFPopulation_forward_rnd rnd p xin))"
  using assms
  by (auto simp add: IFPopulation_forward_rnd_def IFPopulation_wf_def add_input_rnd_eq Let_def masked_fill_def
      le_zero_def 
      split: option.splits)

lemma IFPopulation_forward_rnd_law:
  "IFPopulation_law_rnd (fst (IFPopulation_forward_rnd rnd p xin)) = IFPopulation_law_rnd p"
  by (auto simp add: IFPopulation_forward_rnd_def Let_def 
      IFPopulation_law_rnd_def split: option.splits sum.splits)

lemma IFPopulation_forward_rnd_neurons:
  "IFPopulation.neurons (fst (IFPopulation_forward_rnd rnd p xin)) = IFPopulation.neurons p"
  by (auto simp add: IFPopulation_forward_rnd_def Let_def 
      split: option.splits sum.splits)

lemma IFPopulation_steps_rnd_neuron:
  assumes "IFPopulation_wf p" "\<forall>xin \<in> set xs. length xin = IFPopulation.neurons p"
    "i < IFPopulation.neurons p"
  shows "IFPopulation_neuron (steps (IFPopulation_forward_rnd rnd) p xs) i
         = foldl (neuron_step_rnd rnd (IFPopulation_law_rnd p)) (IFPopulation_neuron p i) (map (\<lambda>xin. xin ! i) xs)
         \<and> IFPopulation_wf (steps (IFPopulation_forward_rnd rnd) p xs)
         \<and> IFPopulation_law_rnd (steps (IFPopulation_forward_rnd rnd) p xs) = IFPopulation_law_rnd p
         \<and> IFPopulation.neurons (steps (IFPopulation_forward_rnd rnd) p xs) = IFPopulation.neurons p"
  using assms
proof (induction xs arbitrary: p)
  case Nil
  then show ?case by (simp add: steps_def)
next
  case (Cons xin xs)
  let ?q = "fst (IFPopulation_forward_rnd rnd p xin)"
  have len: "length xin = IFPopulation.neurons p" using Cons.prems(2) by simp
  have wq: "IFPopulation_wf ?q" using Cons.prems(1) len by (rule IFPopulation_forward_rnd_wf)
  have nq: "IFPopulation.neurons ?q = IFPopulation.neurons p" by (rule IFPopulation_forward_rnd_neurons)
  have lq: "IFPopulation_law_rnd ?q = IFPopulation_law_rnd p" by (rule IFPopulation_forward_rnd_law)
  have vq: "IFPopulation_neuron ?q i = neuron_step_rnd rnd (IFPopulation_law_rnd p) (IFPopulation_neuron p i) (xin ! i)"
    using Cons.prems(1) len Cons.prems(3) by (rule IFPopulation_forward_rnd_neuron)
  have ih: "IFPopulation_neuron (steps (IFPopulation_forward_rnd rnd) ?q xs) i
         = foldl (neuron_step_rnd rnd (IFPopulation_law_rnd ?q)) (IFPopulation_neuron ?q i) (map (\<lambda>xin. xin ! i) xs)
         \<and> IFPopulation_wf (steps (IFPopulation_forward_rnd rnd) ?q xs)
         \<and> IFPopulation_law_rnd (steps (IFPopulation_forward_rnd rnd) ?q xs) = IFPopulation_law_rnd ?q
         \<and> IFPopulation.neurons (steps (IFPopulation_forward_rnd rnd) ?q xs) = IFPopulation.neurons ?q"
    using Cons.IH [of ?q] wq nq Cons.prems(2,3) by simp
  have st: "steps (IFPopulation_forward_rnd rnd) p (xin # xs) = steps (IFPopulation_forward_rnd rnd) ?q xs"
    by (simp add: steps_def)
  show ?case unfolding st using ih by (simp add: lq nq vq)
qed

subsection \<open>LIFPopulation2\<close>

lemma LIFPopulation2_forward_rnd_exact:
  "LIFPopulation2_forward_rnd (\<lambda>y. y) exp p xin = LIFPopulation2_forward p xin"
  by (auto simp add: LIFPopulation2_forward_rnd_def LIFPopulation2_forward_def add_input_rnd_exact
        Let_def split: sum.splits option.splits)

lemma LIFPopulation2_forward_rnd_neuron:
  assumes "LIFPopulation2_wf p" "length xin = LIFPopulation2.neurons p" "i < LIFPopulation2.neurons p"
  shows "LIFPopulation2_neuron (fst (LIFPopulation2_forward_rnd rnd fexp p xin)) i
         = neuron_step_rnd rnd (LIFPopulation2_law_rnd rnd fexp p) (LIFPopulation2_neuron p i) (xin ! i)"
  using assms
  by (auto simp add: LIFPopulation2_forward_rnd_def LIFPopulation2_wf_def add_input_rnd_eq Let_def masked_fill_def
      le_zero_def gt_zero_def
      LIFPopulation2_neuron_def LIFPopulation2_law_rnd_def neuron_step_rnd_def potential_rnd_def
      threshold_rnd_def adapt_rnd_def split: option.splits)

lemma LIFPopulation2_forward_rnd_s:
  assumes "LIFPopulation2_wf p" "length xin = LIFPopulation2.neurons p" "i < LIFPopulation2.neurons p"
  shows "LIFPopulation2.s (fst (LIFPopulation2_forward_rnd rnd fexp p xin)) ! i
         = neuron_spike_rnd rnd (LIFPopulation2_law_rnd rnd fexp p) (LIFPopulation2_neuron p i) (xin ! i)"
  using assms
  by (auto simp add: LIFPopulation2_forward_rnd_def LIFPopulation2_wf_def add_input_rnd_eq Let_def masked_fill_def
      le_zero_def gt_zero_def
      LIFPopulation2_neuron_def LIFPopulation2_law_rnd_def neuron_spike_rnd_def potential_rnd_def
      threshold_rnd_def split: option.splits)

lemma LIFPopulation2_forward_rnd_wf:
  assumes "LIFPopulation2_wf p" "length xin = LIFPopulation2.neurons p"
  shows "LIFPopulation2_wf (fst (LIFPopulation2_forward_rnd rnd fexp p xin))"
  using assms
  by (auto simp add: LIFPopulation2_forward_rnd_def LIFPopulation2_wf_def add_input_rnd_eq Let_def masked_fill_def
      le_zero_def gt_zero_def
      split: option.splits)

lemma LIFPopulation2_forward_rnd_law:
  "LIFPopulation2_law_rnd rnd fexp (fst (LIFPopulation2_forward_rnd rnd fexp p xin)) = LIFPopulation2_law_rnd rnd fexp p"
  by (auto simp add: LIFPopulation2_forward_rnd_def Let_def gt_zero_def
      LIFPopulation2_law_rnd_def split: option.splits sum.splits)

lemma LIFPopulation2_forward_rnd_neurons:
  "LIFPopulation2.neurons (fst (LIFPopulation2_forward_rnd rnd fexp p xin)) = LIFPopulation2.neurons p"
  by (auto simp add: LIFPopulation2_forward_rnd_def Let_def gt_zero_def
      split: option.splits sum.splits)

lemma LIFPopulation2_steps_rnd_neuron:
  assumes "LIFPopulation2_wf p" "\<forall>xin \<in> set xs. length xin = LIFPopulation2.neurons p"
    "i < LIFPopulation2.neurons p"
  shows "LIFPopulation2_neuron (steps (LIFPopulation2_forward_rnd rnd fexp) p xs) i
         = foldl (neuron_step_rnd rnd (LIFPopulation2_law_rnd rnd fexp p)) (LIFPopulation2_neuron p i) (map (\<lambda>xin. xin ! i) xs)
         \<and> LIFPopulation2_wf (steps (LIFPopulation2_forward_rnd rnd fexp) p xs)
         \<and> LIFPopulation2_law_rnd rnd fexp (steps (LIFPopulation2_forward_rnd rnd fexp) p xs) = LIFPopulation2_law_rnd rnd fexp p
         \<and> LIFPopulation2.neurons (steps (LIFPopulation2_forward_rnd rnd fexp) p xs) = LIFPopulation2.neurons p"
  using assms
proof (induction xs arbitrary: p)
  case Nil
  then show ?case by (simp add: steps_def)
next
  case (Cons xin xs)
  let ?q = "fst (LIFPopulation2_forward_rnd rnd fexp p xin)"
  have len: "length xin = LIFPopulation2.neurons p" using Cons.prems(2) by simp
  have wq: "LIFPopulation2_wf ?q" using Cons.prems(1) len by (rule LIFPopulation2_forward_rnd_wf)
  have nq: "LIFPopulation2.neurons ?q = LIFPopulation2.neurons p" by (rule LIFPopulation2_forward_rnd_neurons)
  have lq: "LIFPopulation2_law_rnd rnd fexp ?q = LIFPopulation2_law_rnd rnd fexp p" by (rule LIFPopulation2_forward_rnd_law)
  have vq: "LIFPopulation2_neuron ?q i = neuron_step_rnd rnd (LIFPopulation2_law_rnd rnd fexp p) (LIFPopulation2_neuron p i) (xin ! i)"
    using Cons.prems(1) len Cons.prems(3) by (rule LIFPopulation2_forward_rnd_neuron)
  have ih: "LIFPopulation2_neuron (steps (LIFPopulation2_forward_rnd rnd fexp) ?q xs) i
         = foldl (neuron_step_rnd rnd (LIFPopulation2_law_rnd rnd fexp ?q)) (LIFPopulation2_neuron ?q i) (map (\<lambda>xin. xin ! i) xs)
         \<and> LIFPopulation2_wf (steps (LIFPopulation2_forward_rnd rnd fexp) ?q xs)
         \<and> LIFPopulation2_law_rnd rnd fexp (steps (LIFPopulation2_forward_rnd rnd fexp) ?q xs) = LIFPopulation2_law_rnd rnd fexp ?q
         \<and> LIFPopulation2.neurons (steps (LIFPopulation2_forward_rnd rnd fexp) ?q xs) = LIFPopulation2.neurons ?q"
    using Cons.IH [of ?q] wq nq Cons.prems(2,3) by simp
  have st: "steps (LIFPopulation2_forward_rnd rnd fexp) p (xin # xs) = steps (LIFPopulation2_forward_rnd rnd fexp) ?q xs"
    by (simp add: steps_def)
  show ?case unfolding st using ih by (simp add: lq nq vq)
qed

subsection \<open>LIFPopulation\<close>

lemma LIFPopulation_forward_rnd_exact:
  "LIFPopulation_forward_rnd (\<lambda>y. y) exp p xin = LIFPopulation_forward p xin"
  by (auto simp add: LIFPopulation_forward_rnd_def LIFPopulation_forward_def add_input_rnd_exact
        Let_def split: sum.splits option.splits)

lemma LIFPopulation_forward_rnd_neuron:
  assumes "LIFPopulation_wf p" "length xin = LIFPopulation.neurons p" "i < LIFPopulation.neurons p"
  shows "LIFPopulation_neuron (fst (LIFPopulation_forward_rnd rnd fexp p xin)) i
         = neuron_step_rnd rnd (LIFPopulation_law_rnd rnd fexp p) (LIFPopulation_neuron p i) (xin ! i)"
  using assms
  by (auto simp add: LIFPopulation_forward_rnd_def LIFPopulation_wf_def add_input_rnd_eq Let_def masked_fill_def
      le_zero_def 
      LIFPopulation_neuron_def LIFPopulation_law_rnd_def neuron_step_rnd_def potential_rnd_def
      threshold_rnd_def adapt_rnd_def split: option.splits)

lemma LIFPopulation_forward_rnd_s:
  assumes "LIFPopulation_wf p" "length xin = LIFPopulation.neurons p" "i < LIFPopulation.neurons p"
  shows "LIFPopulation.s (fst (LIFPopulation_forward_rnd rnd fexp p xin)) ! i
         = neuron_spike_rnd rnd (LIFPopulation_law_rnd rnd fexp p) (LIFPopulation_neuron p i) (xin ! i)"
  using assms
  by (auto simp add: LIFPopulation_forward_rnd_def LIFPopulation_wf_def add_input_rnd_eq Let_def masked_fill_def
      le_zero_def 
      LIFPopulation_neuron_def LIFPopulation_law_rnd_def neuron_spike_rnd_def potential_rnd_def
      threshold_rnd_def split: option.splits)

lemma LIFPopulation_forward_rnd_wf:
  assumes "LIFPopulation_wf p" "length xin = LIFPopulation.neurons p"
  shows "LIFPopulation_wf (fst (LIFPopulation_forward_rnd rnd fexp p xin))"
  using assms
  by (auto simp add: LIFPopulation_forward_rnd_def LIFPopulation_wf_def add_input_rnd_eq Let_def masked_fill_def
      le_zero_def 
      split: option.splits)

lemma LIFPopulation_forward_rnd_law:
  "LIFPopulation_law_rnd rnd fexp (fst (LIFPopulation_forward_rnd rnd fexp p xin)) = LIFPopulation_law_rnd rnd fexp p"
  by (auto simp add: LIFPopulation_forward_rnd_def Let_def 
      LIFPopulation_law_rnd_def split: option.splits sum.splits)

lemma LIFPopulation_forward_rnd_neurons:
  "LIFPopulation.neurons (fst (LIFPopulation_forward_rnd rnd fexp p xin)) = LIFPopulation.neurons p"
  by (auto simp add: LIFPopulation_forward_rnd_def Let_def 
      split: option.splits sum.splits)

lemma LIFPopulation_steps_rnd_neuron:
  assumes "LIFPopulation_wf p" "\<forall>xin \<in> set xs. length xin = LIFPopulation.neurons p"
    "i < LIFPopulation.neurons p"
  shows "LIFPopulation_neuron (steps (LIFPopulation_forward_rnd rnd fexp) p xs) i
         = foldl (neuron_step_rnd rnd (LIFPopulation_law_rnd rnd fexp p)) (LIFPopulation_neuron p i) (map (\<lambda>xin. xin ! i) xs)
         \<and> LIFPopulation_wf (steps (LIFPopulation_forward_rnd rnd fexp) p xs)
         \<and> LIFPopulation_law_rnd rnd fexp (steps (LIFPopulation_forward_rnd rnd fexp) p xs) = LIFPopulation_law_rnd rnd fexp p
         \<and> LIFPopulation.neurons (steps (LIFPopulation_forward_rnd rnd fexp) p xs) = LIFPopulation.neurons p"
  using assms
proof (induction xs arbitrary: p)
  case Nil
  then show ?case by (simp add: steps_def)
next
  case (Cons xin xs)
  let ?q = "fst (LIFPopulation_forward_rnd rnd fexp p xin)"
  have len: "length xin = LIFPopulation.neurons p" using Cons.prems(2) by simp
  have wq: "LIFPopulation_wf ?q" using Cons.prems(1) len by (rule LIFPopulation_forward_rnd_wf)
  have nq: "LIFPopulation.neurons ?q = LIFPopulation.neurons p" by (rule LIFPopulation_forward_rnd_neurons)
  have lq: "LIFPopulation_law_rnd rnd fexp ?q = LIFPopulation_law_rnd rnd fexp p" by (rule LIFPopulation_forward_rnd_law)
  have vq: "LIFPopulation_neuron ?q i = neuron_step_rnd rnd (LIFPopulation_law_rnd rnd fexp p) (LIFPopulation_neuron p i) (xin ! i)"
    using Cons.prems(1) len Cons.prems(3) by (rule LIFPopulation_forward_rnd_neuron)
  have ih: "LIFPopulation_neuron (steps (LIFPopulation_forward_rnd rnd fexp) ?q xs) i
         = foldl (neuron_step_rnd rnd (LIFPopulation_law_rnd rnd fexp ?q)) (LIFPopulation_neuron ?q i) (map (\<lambda>xin. xin ! i) xs)
         \<and> LIFPopulation_wf (steps (LIFPopulation_forward_rnd rnd fexp) ?q xs)
         \<and> LIFPopulation_law_rnd rnd fexp (steps (LIFPopulation_forward_rnd rnd fexp) ?q xs) = LIFPopulation_law_rnd rnd fexp ?q
         \<and> LIFPopulation.neurons (steps (LIFPopulation_forward_rnd rnd fexp) ?q xs) = LIFPopulation.neurons ?q"
    using Cons.IH [of ?q] wq nq Cons.prems(2,3) by simp
  have st: "steps (LIFPopulation_forward_rnd rnd fexp) p (xin # xs) = steps (LIFPopulation_forward_rnd rnd fexp) ?q xs"
    by (simp add: steps_def)
  show ?case unfolding st using ih by (simp add: lq nq vq)
qed

subsection \<open>DiehlAndCookPopulation\<close>

lemma DiehlAndCookPopulation_forward_rnd_exact:
  "DiehlAndCookPopulation_forward_rnd (\<lambda>y. y) exp p xin = DiehlAndCookPopulation_forward p xin"
  by (auto simp add: DiehlAndCookPopulation_forward_rnd_def DiehlAndCookPopulation_forward_def add_input_rnd_exact
      DiehlAndCookPopulation_trace_rnd_def DiehlAndCookPopulation_trace_def Let_def split: sum.splits option.splits)

lemma DiehlAndCookPopulation_forward_rnd_neuron:
  assumes "DiehlAndCookPopulation_wf p" "length xin = DiehlAndCookPopulation.neurons p" "i < DiehlAndCookPopulation.neurons p"
  shows "DiehlAndCookPopulation_neuron (fst (DiehlAndCookPopulation_forward_rnd rnd fexp p xin)) i
         = neuron_step_rnd rnd (DiehlAndCookPopulation_law_rnd rnd fexp p) (DiehlAndCookPopulation_neuron p i) (xin ! i)"
  using assms
  by (auto simp add: DiehlAndCookPopulation_forward_rnd_def DiehlAndCookPopulation_wf_def add_input_rnd_eq Let_def masked_fill_def
      le_zero_def DiehlAndCookPopulation_trace_rnd_def
      DiehlAndCookPopulation_neuron_def DiehlAndCookPopulation_law_rnd_def neuron_step_rnd_def potential_rnd_def
      threshold_rnd_def adapt_rnd_def split: option.splits)

lemma DiehlAndCookPopulation_forward_rnd_s:
  assumes "DiehlAndCookPopulation_wf p" "length xin = DiehlAndCookPopulation.neurons p" "i < DiehlAndCookPopulation.neurons p"
  shows "DiehlAndCookPopulation.s (fst (DiehlAndCookPopulation_forward_rnd rnd fexp p xin)) ! i
         = neuron_spike_rnd rnd (DiehlAndCookPopulation_law_rnd rnd fexp p) (DiehlAndCookPopulation_neuron p i) (xin ! i)"
  using assms
  by (auto simp add: DiehlAndCookPopulation_forward_rnd_def DiehlAndCookPopulation_wf_def add_input_rnd_eq Let_def masked_fill_def
      le_zero_def DiehlAndCookPopulation_trace_rnd_def
      DiehlAndCookPopulation_neuron_def DiehlAndCookPopulation_law_rnd_def neuron_spike_rnd_def potential_rnd_def
      threshold_rnd_def split: option.splits)

lemma DiehlAndCookPopulation_forward_rnd_wf:
  assumes "DiehlAndCookPopulation_wf p" "length xin = DiehlAndCookPopulation.neurons p"
  shows "DiehlAndCookPopulation_wf (fst (DiehlAndCookPopulation_forward_rnd rnd fexp p xin))"
  using assms
  by (auto simp add: DiehlAndCookPopulation_forward_rnd_def DiehlAndCookPopulation_wf_def add_input_rnd_eq Let_def masked_fill_def
      le_zero_def DiehlAndCookPopulation_trace_rnd_def
      split: option.splits)

lemma DiehlAndCookPopulation_forward_rnd_law:
  "DiehlAndCookPopulation_law_rnd rnd fexp (fst (DiehlAndCookPopulation_forward_rnd rnd fexp p xin)) = DiehlAndCookPopulation_law_rnd rnd fexp p"
  by (auto simp add: DiehlAndCookPopulation_forward_rnd_def Let_def DiehlAndCookPopulation_trace_rnd_def
      DiehlAndCookPopulation_law_rnd_def split: option.splits sum.splits)

lemma DiehlAndCookPopulation_forward_rnd_neurons:
  "DiehlAndCookPopulation.neurons (fst (DiehlAndCookPopulation_forward_rnd rnd fexp p xin)) = DiehlAndCookPopulation.neurons p"
  by (auto simp add: DiehlAndCookPopulation_forward_rnd_def Let_def DiehlAndCookPopulation_trace_rnd_def
      split: option.splits sum.splits)

lemma DiehlAndCookPopulation_steps_rnd_neuron:
  assumes "DiehlAndCookPopulation_wf p" "\<forall>xin \<in> set xs. length xin = DiehlAndCookPopulation.neurons p"
    "i < DiehlAndCookPopulation.neurons p"
  shows "DiehlAndCookPopulation_neuron (steps (DiehlAndCookPopulation_forward_rnd rnd fexp) p xs) i
         = foldl (neuron_step_rnd rnd (DiehlAndCookPopulation_law_rnd rnd fexp p)) (DiehlAndCookPopulation_neuron p i) (map (\<lambda>xin. xin ! i) xs)
         \<and> DiehlAndCookPopulation_wf (steps (DiehlAndCookPopulation_forward_rnd rnd fexp) p xs)
         \<and> DiehlAndCookPopulation_law_rnd rnd fexp (steps (DiehlAndCookPopulation_forward_rnd rnd fexp) p xs) = DiehlAndCookPopulation_law_rnd rnd fexp p
         \<and> DiehlAndCookPopulation.neurons (steps (DiehlAndCookPopulation_forward_rnd rnd fexp) p xs) = DiehlAndCookPopulation.neurons p"
  using assms
proof (induction xs arbitrary: p)
  case Nil
  then show ?case by (simp add: steps_def)
next
  case (Cons xin xs)
  let ?q = "fst (DiehlAndCookPopulation_forward_rnd rnd fexp p xin)"
  have len: "length xin = DiehlAndCookPopulation.neurons p" using Cons.prems(2) by simp
  have wq: "DiehlAndCookPopulation_wf ?q" using Cons.prems(1) len by (rule DiehlAndCookPopulation_forward_rnd_wf)
  have nq: "DiehlAndCookPopulation.neurons ?q = DiehlAndCookPopulation.neurons p" by (rule DiehlAndCookPopulation_forward_rnd_neurons)
  have lq: "DiehlAndCookPopulation_law_rnd rnd fexp ?q = DiehlAndCookPopulation_law_rnd rnd fexp p" by (rule DiehlAndCookPopulation_forward_rnd_law)
  have vq: "DiehlAndCookPopulation_neuron ?q i = neuron_step_rnd rnd (DiehlAndCookPopulation_law_rnd rnd fexp p) (DiehlAndCookPopulation_neuron p i) (xin ! i)"
    using Cons.prems(1) len Cons.prems(3) by (rule DiehlAndCookPopulation_forward_rnd_neuron)
  have ih: "DiehlAndCookPopulation_neuron (steps (DiehlAndCookPopulation_forward_rnd rnd fexp) ?q xs) i
         = foldl (neuron_step_rnd rnd (DiehlAndCookPopulation_law_rnd rnd fexp ?q)) (DiehlAndCookPopulation_neuron ?q i) (map (\<lambda>xin. xin ! i) xs)
         \<and> DiehlAndCookPopulation_wf (steps (DiehlAndCookPopulation_forward_rnd rnd fexp) ?q xs)
         \<and> DiehlAndCookPopulation_law_rnd rnd fexp (steps (DiehlAndCookPopulation_forward_rnd rnd fexp) ?q xs) = DiehlAndCookPopulation_law_rnd rnd fexp ?q
         \<and> DiehlAndCookPopulation.neurons (steps (DiehlAndCookPopulation_forward_rnd rnd fexp) ?q xs) = DiehlAndCookPopulation.neurons ?q"
    using Cons.IH [of ?q] wq nq Cons.prems(2,3) by simp
  have st: "steps (DiehlAndCookPopulation_forward_rnd rnd fexp) p (xin # xs) = steps (DiehlAndCookPopulation_forward_rnd rnd fexp) ?q xs"
    by (simp add: steps_def)
  show ?case unfolding st using ih by (simp add: lq nq vq)
qed

subsection \<open>HomoeostasisLIFPopulation\<close>

lemma HomoeostasisLIFPopulation_forward_rnd_exact:
  "HomoeostasisLIFPopulation_forward_rnd (\<lambda>y. y) exp p xin = HomoeostasisLIFPopulation_forward p xin"
  by (auto simp add: HomoeostasisLIFPopulation_forward_rnd_def HomoeostasisLIFPopulation_forward_def add_input_rnd_exact
      HomoeostasisLIFPopulation_after_spikes_rnd_def   HomoeostasisLIFPopulation_after_spikes_def   Let_def split: sum.splits option.splits)

lemma HomoeostasisLIFPopulation_forward_rnd_neuron:
  assumes "HomoeostasisLIFPopulation_wf p" "length xin = HomoeostasisLIFPopulation.neurons p" "i < HomoeostasisLIFPopulation.neurons p"
  shows "HomoeostasisLIFPopulation_neuron (fst (HomoeostasisLIFPopulation_forward_rnd rnd fexp p xin)) i
         = neuron_step_rnd rnd (HomoeostasisLIFPopulation_law_rnd rnd fexp p) (HomoeostasisLIFPopulation_neuron p i) (xin ! i)"
  using assms
  by (auto simp add: HomoeostasisLIFPopulation_forward_rnd_def HomoeostasisLIFPopulation_wf_def add_input_rnd_eq Let_def masked_fill_def
      le_zero_def HomoeostasisLIFPopulation_after_spikes_rnd_def gt_zero_def lt_one_def
      HomoeostasisLIFPopulation_neuron_def HomoeostasisLIFPopulation_law_rnd_def neuron_step_rnd_def potential_rnd_def
      threshold_rnd_def adapt_rnd_def split: option.splits)

lemma HomoeostasisLIFPopulation_forward_rnd_s:
  assumes "HomoeostasisLIFPopulation_wf p" "length xin = HomoeostasisLIFPopulation.neurons p" "i < HomoeostasisLIFPopulation.neurons p"
  shows "HomoeostasisLIFPopulation.s (fst (HomoeostasisLIFPopulation_forward_rnd rnd fexp p xin)) ! i
         = neuron_spike_rnd rnd (HomoeostasisLIFPopulation_law_rnd rnd fexp p) (HomoeostasisLIFPopulation_neuron p i) (xin ! i)"
  using assms
  by (auto simp add: HomoeostasisLIFPopulation_forward_rnd_def HomoeostasisLIFPopulation_wf_def add_input_rnd_eq Let_def masked_fill_def
      le_zero_def HomoeostasisLIFPopulation_after_spikes_rnd_def gt_zero_def lt_one_def
      HomoeostasisLIFPopulation_neuron_def HomoeostasisLIFPopulation_law_rnd_def neuron_spike_rnd_def potential_rnd_def
      threshold_rnd_def split: option.splits)

lemma HomoeostasisLIFPopulation_forward_rnd_wf:
  assumes "HomoeostasisLIFPopulation_wf p" "length xin = HomoeostasisLIFPopulation.neurons p"
  shows "HomoeostasisLIFPopulation_wf (fst (HomoeostasisLIFPopulation_forward_rnd rnd fexp p xin))"
  using assms
  by (auto simp add: HomoeostasisLIFPopulation_forward_rnd_def HomoeostasisLIFPopulation_wf_def add_input_rnd_eq Let_def masked_fill_def
      le_zero_def HomoeostasisLIFPopulation_after_spikes_rnd_def gt_zero_def lt_one_def
      split: option.splits)

lemma HomoeostasisLIFPopulation_forward_rnd_law:
  "HomoeostasisLIFPopulation_law_rnd rnd fexp (fst (HomoeostasisLIFPopulation_forward_rnd rnd fexp p xin)) = HomoeostasisLIFPopulation_law_rnd rnd fexp p"
  by (auto simp add: HomoeostasisLIFPopulation_forward_rnd_def Let_def HomoeostasisLIFPopulation_after_spikes_rnd_def gt_zero_def lt_one_def
      HomoeostasisLIFPopulation_law_rnd_def split: option.splits sum.splits)

lemma HomoeostasisLIFPopulation_forward_rnd_neurons:
  "HomoeostasisLIFPopulation.neurons (fst (HomoeostasisLIFPopulation_forward_rnd rnd fexp p xin)) = HomoeostasisLIFPopulation.neurons p"
  by (auto simp add: HomoeostasisLIFPopulation_forward_rnd_def Let_def HomoeostasisLIFPopulation_after_spikes_rnd_def gt_zero_def lt_one_def
      split: option.splits sum.splits)

lemma HomoeostasisLIFPopulation_steps_rnd_neuron:
  assumes "HomoeostasisLIFPopulation_wf p" "\<forall>xin \<in> set xs. length xin = HomoeostasisLIFPopulation.neurons p"
    "i < HomoeostasisLIFPopulation.neurons p"
  shows "HomoeostasisLIFPopulation_neuron (steps (HomoeostasisLIFPopulation_forward_rnd rnd fexp) p xs) i
         = foldl (neuron_step_rnd rnd (HomoeostasisLIFPopulation_law_rnd rnd fexp p)) (HomoeostasisLIFPopulation_neuron p i) (map (\<lambda>xin. xin ! i) xs)
         \<and> HomoeostasisLIFPopulation_wf (steps (HomoeostasisLIFPopulation_forward_rnd rnd fexp) p xs)
         \<and> HomoeostasisLIFPopulation_law_rnd rnd fexp (steps (HomoeostasisLIFPopulation_forward_rnd rnd fexp) p xs) = HomoeostasisLIFPopulation_law_rnd rnd fexp p
         \<and> HomoeostasisLIFPopulation.neurons (steps (HomoeostasisLIFPopulation_forward_rnd rnd fexp) p xs) = HomoeostasisLIFPopulation.neurons p"
  using assms
proof (induction xs arbitrary: p)
  case Nil
  then show ?case by (simp add: steps_def)
next
  case (Cons xin xs)
  let ?q = "fst (HomoeostasisLIFPopulation_forward_rnd rnd fexp p xin)"
  have len: "length xin = HomoeostasisLIFPopulation.neurons p" using Cons.prems(2) by simp
  have wq: "HomoeostasisLIFPopulation_wf ?q" using Cons.prems(1) len by (rule HomoeostasisLIFPopulation_forward_rnd_wf)
  have nq: "HomoeostasisLIFPopulation.neurons ?q = HomoeostasisLIFPopulation.neurons p" by (rule HomoeostasisLIFPopulation_forward_rnd_neurons)
  have lq: "HomoeostasisLIFPopulation_law_rnd rnd fexp ?q = HomoeostasisLIFPopulation_law_rnd rnd fexp p" by (rule HomoeostasisLIFPopulation_forward_rnd_law)
  have vq: "HomoeostasisLIFPopulation_neuron ?q i = neuron_step_rnd rnd (HomoeostasisLIFPopulation_law_rnd rnd fexp p) (HomoeostasisLIFPopulation_neuron p i) (xin ! i)"
    using Cons.prems(1) len Cons.prems(3) by (rule HomoeostasisLIFPopulation_forward_rnd_neuron)
  have ih: "HomoeostasisLIFPopulation_neuron (steps (HomoeostasisLIFPopulation_forward_rnd rnd fexp) ?q xs) i
         = foldl (neuron_step_rnd rnd (HomoeostasisLIFPopulation_law_rnd rnd fexp ?q)) (HomoeostasisLIFPopulation_neuron ?q i) (map (\<lambda>xin. xin ! i) xs)
         \<and> HomoeostasisLIFPopulation_wf (steps (HomoeostasisLIFPopulation_forward_rnd rnd fexp) ?q xs)
         \<and> HomoeostasisLIFPopulation_law_rnd rnd fexp (steps (HomoeostasisLIFPopulation_forward_rnd rnd fexp) ?q xs) = HomoeostasisLIFPopulation_law_rnd rnd fexp ?q
         \<and> HomoeostasisLIFPopulation.neurons (steps (HomoeostasisLIFPopulation_forward_rnd rnd fexp) ?q xs) = HomoeostasisLIFPopulation.neurons ?q"
    using Cons.IH [of ?q] wq nq Cons.prems(2,3) by simp
  have st: "steps (HomoeostasisLIFPopulation_forward_rnd rnd fexp) p (xin # xs) = steps (HomoeostasisLIFPopulation_forward_rnd rnd fexp) ?q xs"
    by (simp add: steps_def)
  show ?case unfolding st using ih by (simp add: lq nq vq)
qed

section \<open>Holding a neuron at rest, in rounded arithmetic\<close>

lemma neuron_step_rnd_spike:
  "neuron_spike_rnd rnd L n xi = 1 \<Longrightarrow>
   neuron_step_rnd rnd L n xi = (nl_rest L, nl_tau_ref L, adapt_rnd rnd L True (snd (snd n)))"
  by (cases n) (simp add: neuron_spike_rnd_def neuron_step_rnd_def Let_def split: if_splits)

lemma potential_rnd_held:
  "rnd 0 = 0 \<Longrightarrow> rnd (nl_rest L) = nl_rest L \<Longrightarrow> 0 < r \<Longrightarrow>
   potential_rnd rnd L (nl_rest L) r xi = nl_rest L"
  by (simp add: potential_rnd_def)

lemma potential_rnd_resume:
  "rnd 0 = 0 \<Longrightarrow> rnd (nl_rest L) = nl_rest L \<Longrightarrow> r \<le> 0 \<Longrightarrow>
   potential_rnd rnd L (nl_rest L) r xi = rnd (nl_rest L + rnd xi)"
  by (simp add: potential_rnd_def)

lemma neuron_step_rnd_held:
  assumes "rnd 0 = 0" "rnd (nl_rest L) = nl_rest L" "0 < r"
    "nl_rest L < threshold_rnd rnd L th"
  shows "neuron_step_rnd rnd L (nl_rest L, r, th) xi
         = (nl_rest L, rnd (r - nl_dt L), adapt_rnd rnd L False th)"
  using assms by (simp add: neuron_step_rnd_def potential_rnd_held Let_def)

lemma neuron_step_rnd_resume:
  assumes "rnd 0 = 0" "rnd (nl_rest L) = nl_rest L" "r \<le> 0"
  shows "fst (neuron_step_rnd rnd L (nl_rest L, r, th) xi)
         = (if threshold_rnd rnd L th \<le> rnd (nl_rest L + rnd xi)
            then nl_rest L else rnd (nl_rest L + rnd xi))"
  using assms by (simp add: neuron_step_rnd_def potential_rnd_resume Let_def)

lemma neuron_hold_rnd:
  assumes z: "rnd 0 = 0" and rr: "rnd (nl_rest L) = nl_rest L"
    and pos: "\<forall>k < length xs. 0 < countdown rnd (nl_dt L) k r"
    and thr: "\<forall>k < length xs. nl_rest L < threshold_rnd rnd L (theta_idle rnd L k th)"
  shows "foldl (neuron_step_rnd rnd L) (nl_rest L, r, th) xs
         = (nl_rest L, countdown rnd (nl_dt L) (length xs) r, theta_idle rnd L (length xs) th)"
  using pos thr
proof (induction xs arbitrary: r th)
  case Nil
  then show ?case by simp
next
  case (Cons xi xs)
  have r0: "0 < r" using Cons.prems(1) by fastforce
  have t0: "nl_rest L < threshold_rnd rnd L th" using Cons.prems(2) by fastforce
  have p: "\<forall>k < length xs. 0 < countdown rnd (nl_dt L) k (rnd (r - nl_dt L))"
  proof (intro allI impI)
    fix k assume "k < length xs"
    then have "0 < countdown rnd (nl_dt L) (Suc k) r" using Cons.prems(1) by auto
    then show "0 < countdown rnd (nl_dt L) k (rnd (r - nl_dt L))" by simp
  qed
  have t: "\<forall>k < length xs.
             nl_rest L < threshold_rnd rnd L (theta_idle rnd L k (adapt_rnd rnd L False th))"
  proof (intro allI impI)
    fix k assume "k < length xs"
    then have "nl_rest L < threshold_rnd rnd L (theta_idle rnd L (Suc k) th)"
      using Cons.prems(2) by auto
    then show "nl_rest L < threshold_rnd rnd L (theta_idle rnd L k (adapt_rnd rnd L False th))"
      by simp
  qed
  show ?case
    using Cons.IH [OF p t] by (simp add: neuron_step_rnd_held [OF z rr r0 t0])
qed

lemma theta_idle_fixed: "nl_adapt L = False \<Longrightarrow> theta_idle rnd L k th = th"
  by (induction k arbitrary: th) (simp_all add: adapt_rnd_def)

lemma countdown_exact_window:
  assumes dt: "0 < dt0" and ex: "\<forall>k \<le> n. countdown rnd dt0 k r = r - real k * dt0"
  shows "((\<forall>k < n. 0 < countdown rnd dt0 k r) \<longleftrightarrow> n \<le> nat \<lceil>r / dt0\<rceil>)
       \<and> (n = nat \<lceil>r / dt0\<rceil> \<longrightarrow> countdown rnd dt0 n r \<le> 0)"
proof (intro conjI iffI impI)
  assume le: "n \<le> nat \<lceil>r / dt0\<rceil>"
  show "\<forall>k < n. 0 < countdown rnd dt0 k r"
  proof (intro allI impI)
    fix k assume k: "k < n"
    then have "real k * dt0 < r" using window_inside [OF dt, of k r] le by simp
    then show "0 < countdown rnd dt0 k r" using ex k by simp
  qed
next
  assume pos: "\<forall>k < n. 0 < countdown rnd dt0 k r"
  show "n \<le> nat \<lceil>r / dt0\<rceil>"
  proof (cases n)
    case 0
    then show ?thesis by simp
  next
    case (Suc m)
    then have "0 < countdown rnd dt0 m r" using pos by simp
    then have "real m * dt0 < r" using ex Suc by simp
    then have "real m < r / dt0" using dt by (simp add: pos_less_divide_eq)
    then have "int m < \<lceil>r / dt0\<rceil>" by (simp add: less_ceiling_iff)
    then show ?thesis using Suc by linarith
  qed
next
  assume n: "n = nat \<lceil>r / dt0\<rceil>"
  have "r - real (nat \<lceil>r / dt0\<rceil>) * dt0 \<le> 0" by (rule window_end [OF dt])
  then show "countdown rnd dt0 n r \<le> 0" using ex n by simp
qed

lemma IFPopulation_refractory_rnd:
  "IFPopulation_wf p0 \<and> length x0 = IFPopulation.neurons p0 \<and> i < IFPopulation.neurons p0
      \<and> rnd 0 = 0 \<and> rnd (IFPopulation.rest p0) = IFPopulation.rest p0
      \<and> IFPopulation.s (fst (IFPopulation_forward_rnd rnd p0 x0)) ! i = 1
      \<and> (\<forall>xin \<in> set xs. length xin = IFPopulation.neurons p0)
      \<and> (\<forall>k < length xs. 0 < countdown rnd (IFPopulation.dt p0) k (IFPopulation.tau_ref p0))
      \<and> IFPopulation.rest p0 < IFPopulation.v_th p0 \<longrightarrow>
   IFPopulation.v (steps (IFPopulation_forward_rnd rnd) (fst (IFPopulation_forward_rnd rnd p0 x0)) xs) ! i = IFPopulation.rest p0
      \<and> IFPopulation.refrac (steps (IFPopulation_forward_rnd rnd) (fst (IFPopulation_forward_rnd rnd p0 x0)) xs) ! i
          = countdown rnd (IFPopulation.dt p0) (length xs) (IFPopulation.tau_ref p0)
      \<and> (countdown rnd (IFPopulation.dt p0) (length xs) (IFPopulation.tau_ref p0) \<le> 0
           \<and> length xin = IFPopulation.neurons p0 \<longrightarrow>
           IFPopulation.v (fst (IFPopulation_forward_rnd rnd (steps (IFPopulation_forward_rnd rnd) (fst (IFPopulation_forward_rnd rnd p0 x0)) xs) xin)) ! i
           = (if IFPopulation.v_th p0 \<le> rnd (IFPopulation.rest p0 + rnd (xin ! i))
              then IFPopulation.rest p0 else rnd (IFPopulation.rest p0 + rnd (xin ! i))))"
proof (intro impI, elim conjE)
  let ?p1 = "fst (IFPopulation_forward_rnd rnd p0 x0)"
  let ?q = "steps (IFPopulation_forward_rnd rnd) ?p1 xs"
  let ?L = "IFPopulation_law_rnd p0"
  assume wf: "IFPopulation_wf p0" and len0: "length x0 = IFPopulation.neurons p0"
    and i: "i < IFPopulation.neurons p0" and z: "rnd 0 = 0"
    and rr: "rnd (IFPopulation.rest p0) = IFPopulation.rest p0"
    and spike: "IFPopulation.s ?p1 ! i = 1"
    and lens: "\<forall>xin \<in> set xs. length xin = IFPopulation.neurons p0"
    and pos: "\<forall>k < length xs. 0 < countdown rnd (IFPopulation.dt p0) k (IFPopulation.tau_ref p0)"
    and below: "IFPopulation.rest p0 < IFPopulation.v_th p0"
  have lf: "nl_rest ?L = IFPopulation.rest p0" "nl_dt ?L = IFPopulation.dt p0"
    "nl_tau_ref ?L = IFPopulation.tau_ref p0"
    by (simp_all add: IFPopulation_law_rnd_def)
  have rr': "rnd (nl_rest ?L) = nl_rest ?L" using rr by (simp add: lf)
  have w1: "IFPopulation_wf ?p1" by (rule IFPopulation_forward_rnd_wf [OF wf len0])
  have n1: "IFPopulation.neurons ?p1 = IFPopulation.neurons p0" by (rule IFPopulation_forward_rnd_neurons)
  have l1: "IFPopulation_law_rnd ?p1 = ?L" by (rule IFPopulation_forward_rnd_law)
  have sp: "neuron_spike_rnd rnd ?L (IFPopulation_neuron p0 i) (x0 ! i) = 1"
    using spike IFPopulation_forward_rnd_s [OF wf len0 i] by simp
  have start: "IFPopulation_neuron ?p1 i = (nl_rest ?L, nl_tau_ref ?L, snd (snd (IFPopulation_neuron ?p1 i)))"
    using IFPopulation_forward_rnd_neuron [OF wf len0 i] neuron_step_rnd_spike [OF sp] by simp
  have th1: "snd (snd (IFPopulation_neuron ?p1 i)) = 0"
    by (simp add: IFPopulation_neuron_def)
  have st: "IFPopulation_neuron ?q i
              = foldl (neuron_step_rnd rnd ?L) (IFPopulation_neuron ?p1 i) (map (\<lambda>xin. xin ! i) xs)
            \<and> IFPopulation_wf ?q \<and> IFPopulation_law_rnd ?q = ?L
            \<and> IFPopulation.neurons ?q = IFPopulation.neurons p0"
    using IFPopulation_steps_rnd_neuron [of ?p1 xs i] w1 n1 l1 lens i by simp
  have thr: "\<forall>k < length (map (\<lambda>xin. xin ! i) xs).
               nl_rest ?L < threshold_rnd rnd ?L (theta_idle rnd ?L k (0))"
    using below by (simp add: threshold_rnd_def IFPopulation_law_rnd_def theta_idle_fixed)
  have pos': "\<forall>k < length (map (\<lambda>xin. xin ! i) xs). 0 < countdown rnd (nl_dt ?L) k (nl_tau_ref ?L)"
    using pos by (simp add: lf)
  have win: "IFPopulation_neuron ?q i
             = (nl_rest ?L, countdown rnd (nl_dt ?L) (length xs) (nl_tau_ref ?L),
                theta_idle rnd ?L (length xs) (0))"
    using st start th1 neuron_hold_rnd [OF z rr' pos' thr] by simp
  have a: "IFPopulation.v ?q ! i = IFPopulation.rest p0"
    and b: "IFPopulation.refrac ?q ! i = countdown rnd (IFPopulation.dt p0) (length xs) (IFPopulation.tau_ref p0)"
    using win by (simp_all add: IFPopulation_neuron_def lf)
  have c: "IFPopulation.v (fst (IFPopulation_forward_rnd rnd ?q xin)) ! i
           = (if IFPopulation.v_th p0 \<le> rnd (IFPopulation.rest p0 + rnd (xin ! i))
              then IFPopulation.rest p0 else rnd (IFPopulation.rest p0 + rnd (xin ! i)))"
    if r: "countdown rnd (IFPopulation.dt p0) (length xs) (IFPopulation.tau_ref p0) \<le> 0"
      and lx: "length xin = IFPopulation.neurons p0"
  proof -
    have wq: "IFPopulation_wf ?q" and nq: "IFPopulation.neurons ?q = IFPopulation.neurons p0"
      and lq: "IFPopulation_law_rnd ?q = ?L"
      using st by simp_all
    have r': "countdown rnd (nl_dt ?L) (length xs) (nl_tau_ref ?L) \<le> 0"
      using r by (simp add: lf)
    have thq: "threshold_rnd rnd ?L (snd (snd (IFPopulation_neuron ?q i)))
               = IFPopulation.v_th p0"
      by (simp add: threshold_rnd_def IFPopulation_law_rnd_def IFPopulation_neuron_def)
    have "IFPopulation_neuron (fst (IFPopulation_forward_rnd rnd ?q xin)) i
          = neuron_step_rnd rnd ?L (IFPopulation_neuron ?q i) (xin ! i)"
      using IFPopulation_forward_rnd_neuron [of ?q xin i] wq nq lq lx i by simp
    also have "IFPopulation_neuron ?q i
               = (nl_rest ?L, countdown rnd (nl_dt ?L) (length xs) (nl_tau_ref ?L),
                  snd (snd (IFPopulation_neuron ?q i)))"
      using win by simp
    finally have "fst (IFPopulation_neuron (fst (IFPopulation_forward_rnd rnd ?q xin)) i)
          = (if threshold_rnd rnd ?L (snd (snd (IFPopulation_neuron ?q i))) \<le> rnd (nl_rest ?L + rnd (xin ! i))
             then nl_rest ?L else rnd (nl_rest ?L + rnd (xin ! i)))"
      using neuron_step_rnd_resume [OF z rr' r'] by simp
    then show ?thesis unfolding thq by (simp add: IFPopulation_neuron_def lf)
  qed
  show "IFPopulation.v (steps (IFPopulation_forward_rnd rnd) (fst (IFPopulation_forward_rnd rnd p0 x0)) xs) ! i = IFPopulation.rest p0
      \<and> IFPopulation.refrac (steps (IFPopulation_forward_rnd rnd) (fst (IFPopulation_forward_rnd rnd p0 x0)) xs) ! i
          = countdown rnd (IFPopulation.dt p0) (length xs) (IFPopulation.tau_ref p0)
      \<and> (countdown rnd (IFPopulation.dt p0) (length xs) (IFPopulation.tau_ref p0) \<le> 0
           \<and> length xin = IFPopulation.neurons p0 \<longrightarrow>
           IFPopulation.v (fst (IFPopulation_forward_rnd rnd (steps (IFPopulation_forward_rnd rnd) (fst (IFPopulation_forward_rnd rnd p0 x0)) xs) xin)) ! i
           = (if IFPopulation.v_th p0 \<le> rnd (IFPopulation.rest p0 + rnd (xin ! i))
              then IFPopulation.rest p0 else rnd (IFPopulation.rest p0 + rnd (xin ! i))))"
    using a b c by blast
qed

lemma LIFPopulation2_refractory_rnd:
  "LIFPopulation2_wf p0 \<and> length x0 = LIFPopulation2.neurons p0 \<and> i < LIFPopulation2.neurons p0
      \<and> rnd 0 = 0 \<and> rnd (LIFPopulation2.rest p0) = LIFPopulation2.rest p0
      \<and> LIFPopulation2.s (fst (LIFPopulation2_forward_rnd rnd fexp p0 x0)) ! i = 1
      \<and> (\<forall>xin \<in> set xs. length xin = LIFPopulation2.neurons p0)
      \<and> (\<forall>k < length xs. 0 < countdown rnd (LIFPopulation2.dt p0) k (LIFPopulation2.tau_ref p0))
      \<and> LIFPopulation2.rest p0 < LIFPopulation2.v_th p0 \<longrightarrow>
   LIFPopulation2.v (steps (LIFPopulation2_forward_rnd rnd fexp) (fst (LIFPopulation2_forward_rnd rnd fexp p0 x0)) xs) ! i = LIFPopulation2.rest p0
      \<and> LIFPopulation2.refrac (steps (LIFPopulation2_forward_rnd rnd fexp) (fst (LIFPopulation2_forward_rnd rnd fexp p0 x0)) xs) ! i
          = countdown rnd (LIFPopulation2.dt p0) (length xs) (LIFPopulation2.tau_ref p0)
      \<and> (countdown rnd (LIFPopulation2.dt p0) (length xs) (LIFPopulation2.tau_ref p0) \<le> 0
           \<and> length xin = LIFPopulation2.neurons p0 \<longrightarrow>
           LIFPopulation2.v (fst (LIFPopulation2_forward_rnd rnd fexp (steps (LIFPopulation2_forward_rnd rnd fexp) (fst (LIFPopulation2_forward_rnd rnd fexp p0 x0)) xs) xin)) ! i
           = (if LIFPopulation2.v_th p0 \<le> rnd (LIFPopulation2.rest p0 + rnd (xin ! i))
              then LIFPopulation2.rest p0 else rnd (LIFPopulation2.rest p0 + rnd (xin ! i))))"
proof (intro impI, elim conjE)
  let ?p1 = "fst (LIFPopulation2_forward_rnd rnd fexp p0 x0)"
  let ?q = "steps (LIFPopulation2_forward_rnd rnd fexp) ?p1 xs"
  let ?L = "LIFPopulation2_law_rnd rnd fexp p0"
  assume wf: "LIFPopulation2_wf p0" and len0: "length x0 = LIFPopulation2.neurons p0"
    and i: "i < LIFPopulation2.neurons p0" and z: "rnd 0 = 0"
    and rr: "rnd (LIFPopulation2.rest p0) = LIFPopulation2.rest p0"
    and spike: "LIFPopulation2.s ?p1 ! i = 1"
    and lens: "\<forall>xin \<in> set xs. length xin = LIFPopulation2.neurons p0"
    and pos: "\<forall>k < length xs. 0 < countdown rnd (LIFPopulation2.dt p0) k (LIFPopulation2.tau_ref p0)"
    and below: "LIFPopulation2.rest p0 < LIFPopulation2.v_th p0"
  have lf: "nl_rest ?L = LIFPopulation2.rest p0" "nl_dt ?L = LIFPopulation2.dt p0"
    "nl_tau_ref ?L = LIFPopulation2.tau_ref p0"
    by (simp_all add: LIFPopulation2_law_rnd_def)
  have rr': "rnd (nl_rest ?L) = nl_rest ?L" using rr by (simp add: lf)
  have w1: "LIFPopulation2_wf ?p1" by (rule LIFPopulation2_forward_rnd_wf [OF wf len0])
  have n1: "LIFPopulation2.neurons ?p1 = LIFPopulation2.neurons p0" by (rule LIFPopulation2_forward_rnd_neurons)
  have l1: "LIFPopulation2_law_rnd rnd fexp ?p1 = ?L" by (rule LIFPopulation2_forward_rnd_law)
  have sp: "neuron_spike_rnd rnd ?L (LIFPopulation2_neuron p0 i) (x0 ! i) = 1"
    using spike LIFPopulation2_forward_rnd_s [OF wf len0 i] by simp
  have start: "LIFPopulation2_neuron ?p1 i = (nl_rest ?L, nl_tau_ref ?L, snd (snd (LIFPopulation2_neuron ?p1 i)))"
    using LIFPopulation2_forward_rnd_neuron [OF wf len0 i] neuron_step_rnd_spike [OF sp] by simp
  have th1: "snd (snd (LIFPopulation2_neuron ?p1 i)) = 0"
    by (simp add: LIFPopulation2_neuron_def)
  have st: "LIFPopulation2_neuron ?q i
              = foldl (neuron_step_rnd rnd ?L) (LIFPopulation2_neuron ?p1 i) (map (\<lambda>xin. xin ! i) xs)
            \<and> LIFPopulation2_wf ?q \<and> LIFPopulation2_law_rnd rnd fexp ?q = ?L
            \<and> LIFPopulation2.neurons ?q = LIFPopulation2.neurons p0"
    using LIFPopulation2_steps_rnd_neuron [of ?p1 xs i] w1 n1 l1 lens i by simp
  have thr: "\<forall>k < length (map (\<lambda>xin. xin ! i) xs).
               nl_rest ?L < threshold_rnd rnd ?L (theta_idle rnd ?L k (0))"
    using below by (simp add: threshold_rnd_def LIFPopulation2_law_rnd_def theta_idle_fixed)
  have pos': "\<forall>k < length (map (\<lambda>xin. xin ! i) xs). 0 < countdown rnd (nl_dt ?L) k (nl_tau_ref ?L)"
    using pos by (simp add: lf)
  have win: "LIFPopulation2_neuron ?q i
             = (nl_rest ?L, countdown rnd (nl_dt ?L) (length xs) (nl_tau_ref ?L),
                theta_idle rnd ?L (length xs) (0))"
    using st start th1 neuron_hold_rnd [OF z rr' pos' thr] by simp
  have a: "LIFPopulation2.v ?q ! i = LIFPopulation2.rest p0"
    and b: "LIFPopulation2.refrac ?q ! i = countdown rnd (LIFPopulation2.dt p0) (length xs) (LIFPopulation2.tau_ref p0)"
    using win by (simp_all add: LIFPopulation2_neuron_def lf)
  have c: "LIFPopulation2.v (fst (LIFPopulation2_forward_rnd rnd fexp ?q xin)) ! i
           = (if LIFPopulation2.v_th p0 \<le> rnd (LIFPopulation2.rest p0 + rnd (xin ! i))
              then LIFPopulation2.rest p0 else rnd (LIFPopulation2.rest p0 + rnd (xin ! i)))"
    if r: "countdown rnd (LIFPopulation2.dt p0) (length xs) (LIFPopulation2.tau_ref p0) \<le> 0"
      and lx: "length xin = LIFPopulation2.neurons p0"
  proof -
    have wq: "LIFPopulation2_wf ?q" and nq: "LIFPopulation2.neurons ?q = LIFPopulation2.neurons p0"
      and lq: "LIFPopulation2_law_rnd rnd fexp ?q = ?L"
      using st by simp_all
    have r': "countdown rnd (nl_dt ?L) (length xs) (nl_tau_ref ?L) \<le> 0"
      using r by (simp add: lf)
    have thq: "threshold_rnd rnd ?L (snd (snd (LIFPopulation2_neuron ?q i)))
               = LIFPopulation2.v_th p0"
      by (simp add: threshold_rnd_def LIFPopulation2_law_rnd_def LIFPopulation2_neuron_def)
    have "LIFPopulation2_neuron (fst (LIFPopulation2_forward_rnd rnd fexp ?q xin)) i
          = neuron_step_rnd rnd ?L (LIFPopulation2_neuron ?q i) (xin ! i)"
      using LIFPopulation2_forward_rnd_neuron [of ?q xin i] wq nq lq lx i by simp
    also have "LIFPopulation2_neuron ?q i
               = (nl_rest ?L, countdown rnd (nl_dt ?L) (length xs) (nl_tau_ref ?L),
                  snd (snd (LIFPopulation2_neuron ?q i)))"
      using win by simp
    finally have "fst (LIFPopulation2_neuron (fst (LIFPopulation2_forward_rnd rnd fexp ?q xin)) i)
          = (if threshold_rnd rnd ?L (snd (snd (LIFPopulation2_neuron ?q i))) \<le> rnd (nl_rest ?L + rnd (xin ! i))
             then nl_rest ?L else rnd (nl_rest ?L + rnd (xin ! i)))"
      using neuron_step_rnd_resume [OF z rr' r'] by simp
    then show ?thesis unfolding thq by (simp add: LIFPopulation2_neuron_def lf)
  qed
  show "LIFPopulation2.v (steps (LIFPopulation2_forward_rnd rnd fexp) (fst (LIFPopulation2_forward_rnd rnd fexp p0 x0)) xs) ! i = LIFPopulation2.rest p0
      \<and> LIFPopulation2.refrac (steps (LIFPopulation2_forward_rnd rnd fexp) (fst (LIFPopulation2_forward_rnd rnd fexp p0 x0)) xs) ! i
          = countdown rnd (LIFPopulation2.dt p0) (length xs) (LIFPopulation2.tau_ref p0)
      \<and> (countdown rnd (LIFPopulation2.dt p0) (length xs) (LIFPopulation2.tau_ref p0) \<le> 0
           \<and> length xin = LIFPopulation2.neurons p0 \<longrightarrow>
           LIFPopulation2.v (fst (LIFPopulation2_forward_rnd rnd fexp (steps (LIFPopulation2_forward_rnd rnd fexp) (fst (LIFPopulation2_forward_rnd rnd fexp p0 x0)) xs) xin)) ! i
           = (if LIFPopulation2.v_th p0 \<le> rnd (LIFPopulation2.rest p0 + rnd (xin ! i))
              then LIFPopulation2.rest p0 else rnd (LIFPopulation2.rest p0 + rnd (xin ! i))))"
    using a b c by blast
qed

lemma LIFPopulation_refractory_rnd:
  "LIFPopulation_wf p0 \<and> length x0 = LIFPopulation.neurons p0 \<and> i < LIFPopulation.neurons p0
      \<and> rnd 0 = 0 \<and> rnd (LIFPopulation.rest p0) = LIFPopulation.rest p0
      \<and> LIFPopulation.s (fst (LIFPopulation_forward_rnd rnd fexp p0 x0)) ! i = 1
      \<and> (\<forall>xin \<in> set xs. length xin = LIFPopulation.neurons p0)
      \<and> (\<forall>k < length xs. 0 < countdown rnd (LIFPopulation.dt p0) k (LIFPopulation.tau_ref p0))
      \<and> LIFPopulation.rest p0 < rnd (LIFPopulation.v_th p0 + LIFPopulation.theta p0) \<longrightarrow>
   LIFPopulation.v (steps (LIFPopulation_forward_rnd rnd fexp) (fst (LIFPopulation_forward_rnd rnd fexp p0 x0)) xs) ! i = LIFPopulation.rest p0
      \<and> LIFPopulation.refrac (steps (LIFPopulation_forward_rnd rnd fexp) (fst (LIFPopulation_forward_rnd rnd fexp p0 x0)) xs) ! i
          = countdown rnd (LIFPopulation.dt p0) (length xs) (LIFPopulation.tau_ref p0)
      \<and> (countdown rnd (LIFPopulation.dt p0) (length xs) (LIFPopulation.tau_ref p0) \<le> 0
           \<and> length xin = LIFPopulation.neurons p0 \<longrightarrow>
           LIFPopulation.v (fst (LIFPopulation_forward_rnd rnd fexp (steps (LIFPopulation_forward_rnd rnd fexp) (fst (LIFPopulation_forward_rnd rnd fexp p0 x0)) xs) xin)) ! i
           = (if rnd (LIFPopulation.v_th p0 + LIFPopulation.theta p0) \<le> rnd (LIFPopulation.rest p0 + rnd (xin ! i))
              then LIFPopulation.rest p0 else rnd (LIFPopulation.rest p0 + rnd (xin ! i))))"
proof (intro impI, elim conjE)
  let ?p1 = "fst (LIFPopulation_forward_rnd rnd fexp p0 x0)"
  let ?q = "steps (LIFPopulation_forward_rnd rnd fexp) ?p1 xs"
  let ?L = "LIFPopulation_law_rnd rnd fexp p0"
  assume wf: "LIFPopulation_wf p0" and len0: "length x0 = LIFPopulation.neurons p0"
    and i: "i < LIFPopulation.neurons p0" and z: "rnd 0 = 0"
    and rr: "rnd (LIFPopulation.rest p0) = LIFPopulation.rest p0"
    and spike: "LIFPopulation.s ?p1 ! i = 1"
    and lens: "\<forall>xin \<in> set xs. length xin = LIFPopulation.neurons p0"
    and pos: "\<forall>k < length xs. 0 < countdown rnd (LIFPopulation.dt p0) k (LIFPopulation.tau_ref p0)"
    and below: "LIFPopulation.rest p0 < rnd (LIFPopulation.v_th p0 + LIFPopulation.theta p0)"
  have lf: "nl_rest ?L = LIFPopulation.rest p0" "nl_dt ?L = LIFPopulation.dt p0"
    "nl_tau_ref ?L = LIFPopulation.tau_ref p0"
    by (simp_all add: LIFPopulation_law_rnd_def)
  have rr': "rnd (nl_rest ?L) = nl_rest ?L" using rr by (simp add: lf)
  have w1: "LIFPopulation_wf ?p1" by (rule LIFPopulation_forward_rnd_wf [OF wf len0])
  have n1: "LIFPopulation.neurons ?p1 = LIFPopulation.neurons p0" by (rule LIFPopulation_forward_rnd_neurons)
  have l1: "LIFPopulation_law_rnd rnd fexp ?p1 = ?L" by (rule LIFPopulation_forward_rnd_law)
  have sp: "neuron_spike_rnd rnd ?L (LIFPopulation_neuron p0 i) (x0 ! i) = 1"
    using spike LIFPopulation_forward_rnd_s [OF wf len0 i] by simp
  have start: "LIFPopulation_neuron ?p1 i = (nl_rest ?L, nl_tau_ref ?L, snd (snd (LIFPopulation_neuron ?p1 i)))"
    using LIFPopulation_forward_rnd_neuron [OF wf len0 i] neuron_step_rnd_spike [OF sp] by simp
  have th1: "snd (snd (LIFPopulation_neuron ?p1 i)) = LIFPopulation.theta p0"
    by (simp add: LIFPopulation_neuron_def LIFPopulation_forward_rnd_def Let_def  split: sum.splits option.splits)
  have st: "LIFPopulation_neuron ?q i
              = foldl (neuron_step_rnd rnd ?L) (LIFPopulation_neuron ?p1 i) (map (\<lambda>xin. xin ! i) xs)
            \<and> LIFPopulation_wf ?q \<and> LIFPopulation_law_rnd rnd fexp ?q = ?L
            \<and> LIFPopulation.neurons ?q = LIFPopulation.neurons p0"
    using LIFPopulation_steps_rnd_neuron [of ?p1 xs i] w1 n1 l1 lens i by simp
  have thr: "\<forall>k < length (map (\<lambda>xin. xin ! i) xs).
               nl_rest ?L < threshold_rnd rnd ?L (theta_idle rnd ?L k (LIFPopulation.theta p0))"
    using below by (simp add: threshold_rnd_def LIFPopulation_law_rnd_def theta_idle_fixed)
  have pos': "\<forall>k < length (map (\<lambda>xin. xin ! i) xs). 0 < countdown rnd (nl_dt ?L) k (nl_tau_ref ?L)"
    using pos by (simp add: lf)
  have win: "LIFPopulation_neuron ?q i
             = (nl_rest ?L, countdown rnd (nl_dt ?L) (length xs) (nl_tau_ref ?L),
                theta_idle rnd ?L (length xs) (LIFPopulation.theta p0))"
    using st start th1 neuron_hold_rnd [OF z rr' pos' thr] by simp
  have a: "LIFPopulation.v ?q ! i = LIFPopulation.rest p0"
    and b: "LIFPopulation.refrac ?q ! i = countdown rnd (LIFPopulation.dt p0) (length xs) (LIFPopulation.tau_ref p0)"
    using win by (simp_all add: LIFPopulation_neuron_def lf)
  have c: "LIFPopulation.v (fst (LIFPopulation_forward_rnd rnd fexp ?q xin)) ! i
           = (if rnd (LIFPopulation.v_th p0 + LIFPopulation.theta p0) \<le> rnd (LIFPopulation.rest p0 + rnd (xin ! i))
              then LIFPopulation.rest p0 else rnd (LIFPopulation.rest p0 + rnd (xin ! i)))"
    if r: "countdown rnd (LIFPopulation.dt p0) (length xs) (LIFPopulation.tau_ref p0) \<le> 0"
      and lx: "length xin = LIFPopulation.neurons p0"
  proof -
    have wq: "LIFPopulation_wf ?q" and nq: "LIFPopulation.neurons ?q = LIFPopulation.neurons p0"
      and lq: "LIFPopulation_law_rnd rnd fexp ?q = ?L"
      using st by simp_all
    have r': "countdown rnd (nl_dt ?L) (length xs) (nl_tau_ref ?L) \<le> 0"
      using r by (simp add: lf)
    have thq: "threshold_rnd rnd ?L (snd (snd (LIFPopulation_neuron ?q i)))
               = rnd (LIFPopulation.v_th p0 + LIFPopulation.theta p0)"
      using win th1 by (simp add: threshold_rnd_def LIFPopulation_law_rnd_def theta_idle_fixed)
    have "LIFPopulation_neuron (fst (LIFPopulation_forward_rnd rnd fexp ?q xin)) i
          = neuron_step_rnd rnd ?L (LIFPopulation_neuron ?q i) (xin ! i)"
      using LIFPopulation_forward_rnd_neuron [of ?q xin i] wq nq lq lx i by simp
    also have "LIFPopulation_neuron ?q i
               = (nl_rest ?L, countdown rnd (nl_dt ?L) (length xs) (nl_tau_ref ?L),
                  snd (snd (LIFPopulation_neuron ?q i)))"
      using win by simp
    finally have "fst (LIFPopulation_neuron (fst (LIFPopulation_forward_rnd rnd fexp ?q xin)) i)
          = (if threshold_rnd rnd ?L (snd (snd (LIFPopulation_neuron ?q i))) \<le> rnd (nl_rest ?L + rnd (xin ! i))
             then nl_rest ?L else rnd (nl_rest ?L + rnd (xin ! i)))"
      using neuron_step_rnd_resume [OF z rr' r'] by simp
    then show ?thesis unfolding thq by (simp add: LIFPopulation_neuron_def lf)
  qed
  show "LIFPopulation.v (steps (LIFPopulation_forward_rnd rnd fexp) (fst (LIFPopulation_forward_rnd rnd fexp p0 x0)) xs) ! i = LIFPopulation.rest p0
      \<and> LIFPopulation.refrac (steps (LIFPopulation_forward_rnd rnd fexp) (fst (LIFPopulation_forward_rnd rnd fexp p0 x0)) xs) ! i
          = countdown rnd (LIFPopulation.dt p0) (length xs) (LIFPopulation.tau_ref p0)
      \<and> (countdown rnd (LIFPopulation.dt p0) (length xs) (LIFPopulation.tau_ref p0) \<le> 0
           \<and> length xin = LIFPopulation.neurons p0 \<longrightarrow>
           LIFPopulation.v (fst (LIFPopulation_forward_rnd rnd fexp (steps (LIFPopulation_forward_rnd rnd fexp) (fst (LIFPopulation_forward_rnd rnd fexp p0 x0)) xs) xin)) ! i
           = (if rnd (LIFPopulation.v_th p0 + LIFPopulation.theta p0) \<le> rnd (LIFPopulation.rest p0 + rnd (xin ! i))
              then LIFPopulation.rest p0 else rnd (LIFPopulation.rest p0 + rnd (xin ! i))))"
    using a b c by blast
qed

lemma DiehlAndCookPopulation_refractory_rnd:
  "DiehlAndCookPopulation_wf p0 \<and> length x0 = DiehlAndCookPopulation.neurons p0 \<and> i < DiehlAndCookPopulation.neurons p0
      \<and> rnd 0 = 0 \<and> rnd (DiehlAndCookPopulation.rest p0) = DiehlAndCookPopulation.rest p0
      \<and> DiehlAndCookPopulation.s (fst (DiehlAndCookPopulation_forward_rnd rnd fexp p0 x0)) ! i = 1
      \<and> (\<forall>xin \<in> set xs. length xin = DiehlAndCookPopulation.neurons p0)
      \<and> (\<forall>k < length xs. 0 < countdown rnd (DiehlAndCookPopulation.dt p0) k (DiehlAndCookPopulation.tau_ref p0))
      \<and> DiehlAndCookPopulation.rest p0 < rnd (DiehlAndCookPopulation.v_th p0 + DiehlAndCookPopulation.theta p0) \<longrightarrow>
   DiehlAndCookPopulation.v (steps (DiehlAndCookPopulation_forward_rnd rnd fexp) (fst (DiehlAndCookPopulation_forward_rnd rnd fexp p0 x0)) xs) ! i = DiehlAndCookPopulation.rest p0
      \<and> DiehlAndCookPopulation.refrac (steps (DiehlAndCookPopulation_forward_rnd rnd fexp) (fst (DiehlAndCookPopulation_forward_rnd rnd fexp p0 x0)) xs) ! i
          = countdown rnd (DiehlAndCookPopulation.dt p0) (length xs) (DiehlAndCookPopulation.tau_ref p0)
      \<and> (countdown rnd (DiehlAndCookPopulation.dt p0) (length xs) (DiehlAndCookPopulation.tau_ref p0) \<le> 0
           \<and> length xin = DiehlAndCookPopulation.neurons p0 \<longrightarrow>
           DiehlAndCookPopulation.v (fst (DiehlAndCookPopulation_forward_rnd rnd fexp (steps (DiehlAndCookPopulation_forward_rnd rnd fexp) (fst (DiehlAndCookPopulation_forward_rnd rnd fexp p0 x0)) xs) xin)) ! i
           = (if rnd (DiehlAndCookPopulation.v_th p0 + DiehlAndCookPopulation.theta p0) \<le> rnd (DiehlAndCookPopulation.rest p0 + rnd (xin ! i))
              then DiehlAndCookPopulation.rest p0 else rnd (DiehlAndCookPopulation.rest p0 + rnd (xin ! i))))"
proof (intro impI, elim conjE)
  let ?p1 = "fst (DiehlAndCookPopulation_forward_rnd rnd fexp p0 x0)"
  let ?q = "steps (DiehlAndCookPopulation_forward_rnd rnd fexp) ?p1 xs"
  let ?L = "DiehlAndCookPopulation_law_rnd rnd fexp p0"
  assume wf: "DiehlAndCookPopulation_wf p0" and len0: "length x0 = DiehlAndCookPopulation.neurons p0"
    and i: "i < DiehlAndCookPopulation.neurons p0" and z: "rnd 0 = 0"
    and rr: "rnd (DiehlAndCookPopulation.rest p0) = DiehlAndCookPopulation.rest p0"
    and spike: "DiehlAndCookPopulation.s ?p1 ! i = 1"
    and lens: "\<forall>xin \<in> set xs. length xin = DiehlAndCookPopulation.neurons p0"
    and pos: "\<forall>k < length xs. 0 < countdown rnd (DiehlAndCookPopulation.dt p0) k (DiehlAndCookPopulation.tau_ref p0)"
    and below: "DiehlAndCookPopulation.rest p0 < rnd (DiehlAndCookPopulation.v_th p0 + DiehlAndCookPopulation.theta p0)"
  have lf: "nl_rest ?L = DiehlAndCookPopulation.rest p0" "nl_dt ?L = DiehlAndCookPopulation.dt p0"
    "nl_tau_ref ?L = DiehlAndCookPopulation.tau_ref p0"
    by (simp_all add: DiehlAndCookPopulation_law_rnd_def)
  have rr': "rnd (nl_rest ?L) = nl_rest ?L" using rr by (simp add: lf)
  have w1: "DiehlAndCookPopulation_wf ?p1" by (rule DiehlAndCookPopulation_forward_rnd_wf [OF wf len0])
  have n1: "DiehlAndCookPopulation.neurons ?p1 = DiehlAndCookPopulation.neurons p0" by (rule DiehlAndCookPopulation_forward_rnd_neurons)
  have l1: "DiehlAndCookPopulation_law_rnd rnd fexp ?p1 = ?L" by (rule DiehlAndCookPopulation_forward_rnd_law)
  have sp: "neuron_spike_rnd rnd ?L (DiehlAndCookPopulation_neuron p0 i) (x0 ! i) = 1"
    using spike DiehlAndCookPopulation_forward_rnd_s [OF wf len0 i] by simp
  have start: "DiehlAndCookPopulation_neuron ?p1 i = (nl_rest ?L, nl_tau_ref ?L, snd (snd (DiehlAndCookPopulation_neuron ?p1 i)))"
    using DiehlAndCookPopulation_forward_rnd_neuron [OF wf len0 i] neuron_step_rnd_spike [OF sp] by simp
  have th1: "snd (snd (DiehlAndCookPopulation_neuron ?p1 i)) = DiehlAndCookPopulation.theta p0"
    by (simp add: DiehlAndCookPopulation_neuron_def DiehlAndCookPopulation_forward_rnd_def Let_def DiehlAndCookPopulation_trace_rnd_def split: sum.splits option.splits)
  have st: "DiehlAndCookPopulation_neuron ?q i
              = foldl (neuron_step_rnd rnd ?L) (DiehlAndCookPopulation_neuron ?p1 i) (map (\<lambda>xin. xin ! i) xs)
            \<and> DiehlAndCookPopulation_wf ?q \<and> DiehlAndCookPopulation_law_rnd rnd fexp ?q = ?L
            \<and> DiehlAndCookPopulation.neurons ?q = DiehlAndCookPopulation.neurons p0"
    using DiehlAndCookPopulation_steps_rnd_neuron [of ?p1 xs i] w1 n1 l1 lens i by simp
  have thr: "\<forall>k < length (map (\<lambda>xin. xin ! i) xs).
               nl_rest ?L < threshold_rnd rnd ?L (theta_idle rnd ?L k (DiehlAndCookPopulation.theta p0))"
    using below by (simp add: threshold_rnd_def DiehlAndCookPopulation_law_rnd_def theta_idle_fixed)
  have pos': "\<forall>k < length (map (\<lambda>xin. xin ! i) xs). 0 < countdown rnd (nl_dt ?L) k (nl_tau_ref ?L)"
    using pos by (simp add: lf)
  have win: "DiehlAndCookPopulation_neuron ?q i
             = (nl_rest ?L, countdown rnd (nl_dt ?L) (length xs) (nl_tau_ref ?L),
                theta_idle rnd ?L (length xs) (DiehlAndCookPopulation.theta p0))"
    using st start th1 neuron_hold_rnd [OF z rr' pos' thr] by simp
  have a: "DiehlAndCookPopulation.v ?q ! i = DiehlAndCookPopulation.rest p0"
    and b: "DiehlAndCookPopulation.refrac ?q ! i = countdown rnd (DiehlAndCookPopulation.dt p0) (length xs) (DiehlAndCookPopulation.tau_ref p0)"
    using win by (simp_all add: DiehlAndCookPopulation_neuron_def lf)
  have c: "DiehlAndCookPopulation.v (fst (DiehlAndCookPopulation_forward_rnd rnd fexp ?q xin)) ! i
           = (if rnd (DiehlAndCookPopulation.v_th p0 + DiehlAndCookPopulation.theta p0) \<le> rnd (DiehlAndCookPopulation.rest p0 + rnd (xin ! i))
              then DiehlAndCookPopulation.rest p0 else rnd (DiehlAndCookPopulation.rest p0 + rnd (xin ! i)))"
    if r: "countdown rnd (DiehlAndCookPopulation.dt p0) (length xs) (DiehlAndCookPopulation.tau_ref p0) \<le> 0"
      and lx: "length xin = DiehlAndCookPopulation.neurons p0"
  proof -
    have wq: "DiehlAndCookPopulation_wf ?q" and nq: "DiehlAndCookPopulation.neurons ?q = DiehlAndCookPopulation.neurons p0"
      and lq: "DiehlAndCookPopulation_law_rnd rnd fexp ?q = ?L"
      using st by simp_all
    have r': "countdown rnd (nl_dt ?L) (length xs) (nl_tau_ref ?L) \<le> 0"
      using r by (simp add: lf)
    have thq: "threshold_rnd rnd ?L (snd (snd (DiehlAndCookPopulation_neuron ?q i)))
               = rnd (DiehlAndCookPopulation.v_th p0 + DiehlAndCookPopulation.theta p0)"
      using win th1 by (simp add: threshold_rnd_def DiehlAndCookPopulation_law_rnd_def theta_idle_fixed)
    have "DiehlAndCookPopulation_neuron (fst (DiehlAndCookPopulation_forward_rnd rnd fexp ?q xin)) i
          = neuron_step_rnd rnd ?L (DiehlAndCookPopulation_neuron ?q i) (xin ! i)"
      using DiehlAndCookPopulation_forward_rnd_neuron [of ?q xin i] wq nq lq lx i by simp
    also have "DiehlAndCookPopulation_neuron ?q i
               = (nl_rest ?L, countdown rnd (nl_dt ?L) (length xs) (nl_tau_ref ?L),
                  snd (snd (DiehlAndCookPopulation_neuron ?q i)))"
      using win by simp
    finally have "fst (DiehlAndCookPopulation_neuron (fst (DiehlAndCookPopulation_forward_rnd rnd fexp ?q xin)) i)
          = (if threshold_rnd rnd ?L (snd (snd (DiehlAndCookPopulation_neuron ?q i))) \<le> rnd (nl_rest ?L + rnd (xin ! i))
             then nl_rest ?L else rnd (nl_rest ?L + rnd (xin ! i)))"
      using neuron_step_rnd_resume [OF z rr' r'] by simp
    then show ?thesis unfolding thq by (simp add: DiehlAndCookPopulation_neuron_def lf)
  qed
  show "DiehlAndCookPopulation.v (steps (DiehlAndCookPopulation_forward_rnd rnd fexp) (fst (DiehlAndCookPopulation_forward_rnd rnd fexp p0 x0)) xs) ! i = DiehlAndCookPopulation.rest p0
      \<and> DiehlAndCookPopulation.refrac (steps (DiehlAndCookPopulation_forward_rnd rnd fexp) (fst (DiehlAndCookPopulation_forward_rnd rnd fexp p0 x0)) xs) ! i
          = countdown rnd (DiehlAndCookPopulation.dt p0) (length xs) (DiehlAndCookPopulation.tau_ref p0)
      \<and> (countdown rnd (DiehlAndCookPopulation.dt p0) (length xs) (DiehlAndCookPopulation.tau_ref p0) \<le> 0
           \<and> length xin = DiehlAndCookPopulation.neurons p0 \<longrightarrow>
           DiehlAndCookPopulation.v (fst (DiehlAndCookPopulation_forward_rnd rnd fexp (steps (DiehlAndCookPopulation_forward_rnd rnd fexp) (fst (DiehlAndCookPopulation_forward_rnd rnd fexp p0 x0)) xs) xin)) ! i
           = (if rnd (DiehlAndCookPopulation.v_th p0 + DiehlAndCookPopulation.theta p0) \<le> rnd (DiehlAndCookPopulation.rest p0 + rnd (xin ! i))
              then DiehlAndCookPopulation.rest p0 else rnd (DiehlAndCookPopulation.rest p0 + rnd (xin ! i))))"
    using a b c by blast
qed

lemma HomoeostasisLIFPopulation_refractory_rnd:
  "HomoeostasisLIFPopulation_wf p0 \<and> length x0 = HomoeostasisLIFPopulation.neurons p0 \<and> i < HomoeostasisLIFPopulation.neurons p0
      \<and> rnd 0 = 0 \<and> rnd (HomoeostasisLIFPopulation.rest p0) = HomoeostasisLIFPopulation.rest p0
      \<and> HomoeostasisLIFPopulation.s (fst (HomoeostasisLIFPopulation_forward_rnd rnd fexp p0 x0)) ! i = 1
      \<and> (\<forall>xin \<in> set xs. length xin = HomoeostasisLIFPopulation.neurons p0)
      \<and> (\<forall>k < length xs. 0 < countdown rnd (HomoeostasisLIFPopulation.dt p0) k (HomoeostasisLIFPopulation.tau_ref p0))
      \<and> (\<forall>k < length xs. HomoeostasisLIFPopulation.rest p0
            < rnd (HomoeostasisLIFPopulation.v_th p0 + theta_idle rnd (HomoeostasisLIFPopulation_law_rnd rnd fexp p0) k (HomoeostasisLIFPopulation.theta (fst (HomoeostasisLIFPopulation_forward_rnd rnd fexp p0 x0)) ! i))) \<longrightarrow>
   HomoeostasisLIFPopulation.v (steps (HomoeostasisLIFPopulation_forward_rnd rnd fexp) (fst (HomoeostasisLIFPopulation_forward_rnd rnd fexp p0 x0)) xs) ! i = HomoeostasisLIFPopulation.rest p0
      \<and> HomoeostasisLIFPopulation.refrac (steps (HomoeostasisLIFPopulation_forward_rnd rnd fexp) (fst (HomoeostasisLIFPopulation_forward_rnd rnd fexp p0 x0)) xs) ! i
          = countdown rnd (HomoeostasisLIFPopulation.dt p0) (length xs) (HomoeostasisLIFPopulation.tau_ref p0)
      \<and> (countdown rnd (HomoeostasisLIFPopulation.dt p0) (length xs) (HomoeostasisLIFPopulation.tau_ref p0) \<le> 0
           \<and> length xin = HomoeostasisLIFPopulation.neurons p0 \<longrightarrow>
           HomoeostasisLIFPopulation.v (fst (HomoeostasisLIFPopulation_forward_rnd rnd fexp (steps (HomoeostasisLIFPopulation_forward_rnd rnd fexp) (fst (HomoeostasisLIFPopulation_forward_rnd rnd fexp p0 x0)) xs) xin)) ! i
           = (if rnd (HomoeostasisLIFPopulation.v_th p0 + HomoeostasisLIFPopulation.theta (steps (HomoeostasisLIFPopulation_forward_rnd rnd fexp) (fst (HomoeostasisLIFPopulation_forward_rnd rnd fexp p0 x0)) xs) ! i) \<le> rnd (HomoeostasisLIFPopulation.rest p0 + rnd (xin ! i))
              then HomoeostasisLIFPopulation.rest p0 else rnd (HomoeostasisLIFPopulation.rest p0 + rnd (xin ! i))))"
proof (intro impI, elim conjE)
  let ?p1 = "fst (HomoeostasisLIFPopulation_forward_rnd rnd fexp p0 x0)"
  let ?q = "steps (HomoeostasisLIFPopulation_forward_rnd rnd fexp) ?p1 xs"
  let ?L = "HomoeostasisLIFPopulation_law_rnd rnd fexp p0"
  assume wf: "HomoeostasisLIFPopulation_wf p0" and len0: "length x0 = HomoeostasisLIFPopulation.neurons p0"
    and i: "i < HomoeostasisLIFPopulation.neurons p0" and z: "rnd 0 = 0"
    and rr: "rnd (HomoeostasisLIFPopulation.rest p0) = HomoeostasisLIFPopulation.rest p0"
    and spike: "HomoeostasisLIFPopulation.s ?p1 ! i = 1"
    and lens: "\<forall>xin \<in> set xs. length xin = HomoeostasisLIFPopulation.neurons p0"
    and pos: "\<forall>k < length xs. 0 < countdown rnd (HomoeostasisLIFPopulation.dt p0) k (HomoeostasisLIFPopulation.tau_ref p0)"
    and below: "\<forall>k < length xs. HomoeostasisLIFPopulation.rest p0 < rnd (HomoeostasisLIFPopulation.v_th p0 + theta_idle rnd ?L k (HomoeostasisLIFPopulation.theta ?p1 ! i))"
  have lf: "nl_rest ?L = HomoeostasisLIFPopulation.rest p0" "nl_dt ?L = HomoeostasisLIFPopulation.dt p0"
    "nl_tau_ref ?L = HomoeostasisLIFPopulation.tau_ref p0"
    by (simp_all add: HomoeostasisLIFPopulation_law_rnd_def)
  have rr': "rnd (nl_rest ?L) = nl_rest ?L" using rr by (simp add: lf)
  have w1: "HomoeostasisLIFPopulation_wf ?p1" by (rule HomoeostasisLIFPopulation_forward_rnd_wf [OF wf len0])
  have n1: "HomoeostasisLIFPopulation.neurons ?p1 = HomoeostasisLIFPopulation.neurons p0" by (rule HomoeostasisLIFPopulation_forward_rnd_neurons)
  have l1: "HomoeostasisLIFPopulation_law_rnd rnd fexp ?p1 = ?L" by (rule HomoeostasisLIFPopulation_forward_rnd_law)
  have sp: "neuron_spike_rnd rnd ?L (HomoeostasisLIFPopulation_neuron p0 i) (x0 ! i) = 1"
    using spike HomoeostasisLIFPopulation_forward_rnd_s [OF wf len0 i] by simp
  have start: "HomoeostasisLIFPopulation_neuron ?p1 i = (nl_rest ?L, nl_tau_ref ?L, snd (snd (HomoeostasisLIFPopulation_neuron ?p1 i)))"
    using HomoeostasisLIFPopulation_forward_rnd_neuron [OF wf len0 i] neuron_step_rnd_spike [OF sp] by simp
  have th1: "snd (snd (HomoeostasisLIFPopulation_neuron ?p1 i)) = HomoeostasisLIFPopulation.theta ?p1 ! i"
    by (simp add: HomoeostasisLIFPopulation_neuron_def)
  have st: "HomoeostasisLIFPopulation_neuron ?q i
              = foldl (neuron_step_rnd rnd ?L) (HomoeostasisLIFPopulation_neuron ?p1 i) (map (\<lambda>xin. xin ! i) xs)
            \<and> HomoeostasisLIFPopulation_wf ?q \<and> HomoeostasisLIFPopulation_law_rnd rnd fexp ?q = ?L
            \<and> HomoeostasisLIFPopulation.neurons ?q = HomoeostasisLIFPopulation.neurons p0"
    using HomoeostasisLIFPopulation_steps_rnd_neuron [of ?p1 xs i] w1 n1 l1 lens i by simp
  have thr: "\<forall>k < length (map (\<lambda>xin. xin ! i) xs).
               nl_rest ?L < threshold_rnd rnd ?L (theta_idle rnd ?L k (HomoeostasisLIFPopulation.theta ?p1 ! i))"
    using below by (simp add: threshold_rnd_def HomoeostasisLIFPopulation_law_rnd_def)
  have pos': "\<forall>k < length (map (\<lambda>xin. xin ! i) xs). 0 < countdown rnd (nl_dt ?L) k (nl_tau_ref ?L)"
    using pos by (simp add: lf)
  have win: "HomoeostasisLIFPopulation_neuron ?q i
             = (nl_rest ?L, countdown rnd (nl_dt ?L) (length xs) (nl_tau_ref ?L),
                theta_idle rnd ?L (length xs) (HomoeostasisLIFPopulation.theta ?p1 ! i))"
    using st start th1 neuron_hold_rnd [OF z rr' pos' thr] by simp
  have a: "HomoeostasisLIFPopulation.v ?q ! i = HomoeostasisLIFPopulation.rest p0"
    and b: "HomoeostasisLIFPopulation.refrac ?q ! i = countdown rnd (HomoeostasisLIFPopulation.dt p0) (length xs) (HomoeostasisLIFPopulation.tau_ref p0)"
    using win by (simp_all add: HomoeostasisLIFPopulation_neuron_def lf)
  have c: "HomoeostasisLIFPopulation.v (fst (HomoeostasisLIFPopulation_forward_rnd rnd fexp ?q xin)) ! i
           = (if rnd (HomoeostasisLIFPopulation.v_th p0 + HomoeostasisLIFPopulation.theta ?q ! i) \<le> rnd (HomoeostasisLIFPopulation.rest p0 + rnd (xin ! i))
              then HomoeostasisLIFPopulation.rest p0 else rnd (HomoeostasisLIFPopulation.rest p0 + rnd (xin ! i)))"
    if r: "countdown rnd (HomoeostasisLIFPopulation.dt p0) (length xs) (HomoeostasisLIFPopulation.tau_ref p0) \<le> 0"
      and lx: "length xin = HomoeostasisLIFPopulation.neurons p0"
  proof -
    have wq: "HomoeostasisLIFPopulation_wf ?q" and nq: "HomoeostasisLIFPopulation.neurons ?q = HomoeostasisLIFPopulation.neurons p0"
      and lq: "HomoeostasisLIFPopulation_law_rnd rnd fexp ?q = ?L"
      using st by simp_all
    have r': "countdown rnd (nl_dt ?L) (length xs) (nl_tau_ref ?L) \<le> 0"
      using r by (simp add: lf)
    have thq: "threshold_rnd rnd ?L (snd (snd (HomoeostasisLIFPopulation_neuron ?q i)))
               = rnd (HomoeostasisLIFPopulation.v_th p0 + HomoeostasisLIFPopulation.theta ?q ! i)"
      by (simp add: threshold_rnd_def HomoeostasisLIFPopulation_law_rnd_def HomoeostasisLIFPopulation_neuron_def)
    have "HomoeostasisLIFPopulation_neuron (fst (HomoeostasisLIFPopulation_forward_rnd rnd fexp ?q xin)) i
          = neuron_step_rnd rnd ?L (HomoeostasisLIFPopulation_neuron ?q i) (xin ! i)"
      using HomoeostasisLIFPopulation_forward_rnd_neuron [of ?q xin i] wq nq lq lx i by simp
    also have "HomoeostasisLIFPopulation_neuron ?q i
               = (nl_rest ?L, countdown rnd (nl_dt ?L) (length xs) (nl_tau_ref ?L),
                  snd (snd (HomoeostasisLIFPopulation_neuron ?q i)))"
      using win by simp
    finally have "fst (HomoeostasisLIFPopulation_neuron (fst (HomoeostasisLIFPopulation_forward_rnd rnd fexp ?q xin)) i)
          = (if threshold_rnd rnd ?L (snd (snd (HomoeostasisLIFPopulation_neuron ?q i))) \<le> rnd (nl_rest ?L + rnd (xin ! i))
             then nl_rest ?L else rnd (nl_rest ?L + rnd (xin ! i)))"
      using neuron_step_rnd_resume [OF z rr' r'] by simp
    then show ?thesis unfolding thq by (simp add: HomoeostasisLIFPopulation_neuron_def lf)
  qed
  show "HomoeostasisLIFPopulation.v (steps (HomoeostasisLIFPopulation_forward_rnd rnd fexp) (fst (HomoeostasisLIFPopulation_forward_rnd rnd fexp p0 x0)) xs) ! i = HomoeostasisLIFPopulation.rest p0
      \<and> HomoeostasisLIFPopulation.refrac (steps (HomoeostasisLIFPopulation_forward_rnd rnd fexp) (fst (HomoeostasisLIFPopulation_forward_rnd rnd fexp p0 x0)) xs) ! i
          = countdown rnd (HomoeostasisLIFPopulation.dt p0) (length xs) (HomoeostasisLIFPopulation.tau_ref p0)
      \<and> (countdown rnd (HomoeostasisLIFPopulation.dt p0) (length xs) (HomoeostasisLIFPopulation.tau_ref p0) \<le> 0
           \<and> length xin = HomoeostasisLIFPopulation.neurons p0 \<longrightarrow>
           HomoeostasisLIFPopulation.v (fst (HomoeostasisLIFPopulation_forward_rnd rnd fexp (steps (HomoeostasisLIFPopulation_forward_rnd rnd fexp) (fst (HomoeostasisLIFPopulation_forward_rnd rnd fexp p0 x0)) xs) xin)) ! i
           = (if rnd (HomoeostasisLIFPopulation.v_th p0 + HomoeostasisLIFPopulation.theta (steps (HomoeostasisLIFPopulation_forward_rnd rnd fexp) (fst (HomoeostasisLIFPopulation_forward_rnd rnd fexp p0 x0)) xs) ! i) \<le> rnd (HomoeostasisLIFPopulation.rest p0 + rnd (xin ! i))
              then HomoeostasisLIFPopulation.rest p0 else rnd (HomoeostasisLIFPopulation.rest p0 + rnd (xin ! i))))"
    using a b c by blast
qed

section \<open>The order of float32 rounding\<close>

text \<open>
  \<open>fl32\<close> is odd and monotone, so a sum that is at least a float32 value \<open>t\<close> is
  rounded to at least \<open>t\<close>, and a sum of at most \<open>2 ^ 24 + 1\<close> to at most \<open>2 ^ 24\<close>:
  above \<open>2 ^ 24\<close> the float32 numbers are the even integers. A positive number of at most
  \<open>2 powr (- 150)\<close>, half the smallest subnormal, is rounded to 0.
\<close>

lemma round_even_bounds: "\<lfloor>y\<rfloor> \<le> round_even y" "round_even y \<le> \<lfloor>y\<rfloor> + 1"
  by (simp_all add: round_even_def Let_def)

lemma round_even_mono:
  assumes "y \<le> y'"
  shows "round_even y \<le> round_even y'"
proof (cases "\<lfloor>y\<rfloor> = \<lfloor>y'\<rfloor>")
  case True
  then show ?thesis using assms by (auto simp add: round_even_def Let_def)
next
  case False
  then have "\<lfloor>y\<rfloor> < \<lfloor>y'\<rfloor>" using floor_mono [OF assms] by simp
  then show ?thesis using round_even_bounds(2) [of y] round_even_bounds(1) [of y'] by linarith
qed

lemma round_even_le: "y \<le> of_int m \<Longrightarrow> round_even y \<le> m"
  using round_even_mono [of y "of_int m"] by (simp add: round_even_of_int)

lemma round_even_ge: "of_int m \<le> y \<Longrightarrow> m \<le> round_even y"
  using round_even_mono [of "of_int m" y] by (simp add: round_even_of_int)

lemma fl32_pos:
  assumes "0 < z"
  shows "fl32 z = of_int (round_even (z / 2 powr of_int (max \<lfloor>log 2 z\<rfloor> (- 126) - 23)))
                  * 2 powr of_int (max \<lfloor>log 2 z\<rfloor> (- 126) - 23)"
  using assms by (simp add: fl32_def Let_def)

lemma fl32_nonneg:
  assumes "0 \<le> z"
  shows "0 \<le> fl32 z"
proof (cases "z = 0")
  case True
  then show ?thesis by (simp add: fl32_zero)
next
  case False
  then have z: "0 < z" using assms by simp
  let ?q = "2 powr of_int (max \<lfloor>log 2 z\<rfloor> (- 126) - 23) :: real"
  have "of_int 0 \<le> z / ?q" using z by simp
  then have "0 \<le> round_even (z / ?q)" by (rule round_even_ge)
  then show ?thesis unfolding fl32_pos [OF z] by simp
qed

lemma powr_split_24: "(2::real) powr of_int (e + 1) = 2 ^ 24 * 2 powr of_int (e - 23)"
proof -
  have "(2::real) powr of_int (e + 1) = 2 powr (24 + of_int (e - 23))" by (simp add: add.commute)
  also have "\<dots> = 2 powr 24 * 2 powr of_int (e - 23)" by (rule powr_add)
  finally show ?thesis by simp
qed

lemma powr_split_23: "(2::real) powr of_int e = 2 ^ 23 * 2 powr of_int (e - 23)"
proof -
  have "(2::real) powr of_int e = 2 powr (23 + of_int (e - 23))" by simp
  also have "\<dots> = 2 powr 23 * 2 powr of_int (e - 23)" by (rule powr_add)
  finally show ?thesis by simp
qed

lemma fl32_upper:
  assumes z: "0 < z"
  shows "fl32 z \<le> 2 powr of_int (max \<lfloor>log 2 z\<rfloor> (- 126) + 1)"
proof -
  define e where "e = max \<lfloor>log 2 z\<rfloor> (- 126)"
  define q where "q = (2::real) powr of_int (e - 23)"
  have q0: "0 < q" by (simp add: q_def)
  have "log 2 z < of_int \<lfloor>log 2 z\<rfloor> + 1" by linarith
  moreover have "\<lfloor>log 2 z\<rfloor> \<le> e" unfolding e_def by simp
  then have "(of_int \<lfloor>log 2 z\<rfloor> :: real) \<le> of_int e" unfolding of_int_le_iff .
  ultimately have "log 2 z < of_int e + 1" by linarith
  then have "log 2 z < of_int (e + 1)" by simp
  then have "z < 2 powr of_int (e + 1)" using z by (simp add: less_powr_iff)
  then have "z < 2 ^ 24 * q" unfolding q_def powr_split_24 [of e] .
  then have "z / q \<le> of_int 16777216" using q0 by (simp add: pos_divide_le_eq)
  then have "round_even (z / q) \<le> 16777216" by (rule round_even_le)
  then have "(of_int (round_even (z / q)) :: real) \<le> of_int 16777216" unfolding of_int_le_iff .
  then have "of_int (round_even (z / q)) * q \<le> 2 ^ 24 * q" using q0 by simp
  moreover have "fl32 z = of_int (round_even (z / q)) * q"
    unfolding fl32_pos [OF z] q_def e_def ..
  moreover have "2 powr of_int (max \<lfloor>log 2 z\<rfloor> (- 126) + 1) = 2 ^ 24 * q"
    unfolding q_def e_def by (rule powr_split_24)
  ultimately show ?thesis by simp
qed

lemma fl32_lower:
  assumes z: "0 < z" and n: "- 126 \<le> \<lfloor>log 2 z\<rfloor>"
  shows "2 powr of_int \<lfloor>log 2 z\<rfloor> \<le> fl32 z"
proof -
  define e where "e = \<lfloor>log 2 z\<rfloor>"
  define q where "q = (2::real) powr of_int (e - 23)"
  have q0: "0 < q" by (simp add: q_def)
  have m: "max \<lfloor>log 2 z\<rfloor> (- 126) = e" using n by (simp add: e_def)
  have "of_int e \<le> log 2 z" unfolding e_def by simp
  then have "2 powr of_int e \<le> z" using z by (simp add: powr_le_iff)
  then have "2 ^ 23 * q \<le> z" unfolding q_def powr_split_23 [of e] .
  then have "of_int 8388608 \<le> z / q" using q0 by (simp add: pos_le_divide_eq)
  then have "8388608 \<le> round_even (z / q)" by (rule round_even_ge)
  then have "(of_int 8388608 :: real) \<le> of_int (round_even (z / q))" unfolding of_int_le_iff .
  then have "2 ^ 23 * q \<le> of_int (round_even (z / q)) * q" using q0 by simp
  moreover have "fl32 z = of_int (round_even (z / q)) * q"
    unfolding fl32_pos [OF z] m q_def ..
  moreover have "2 powr of_int \<lfloor>log 2 z\<rfloor> = 2 ^ 23 * q"
    unfolding q_def e_def by (rule powr_split_23)
  ultimately show ?thesis by simp
qed

lemma fl32_mono_pos:
  assumes z: "0 < z" and le: "z \<le> w"
  shows "fl32 z \<le> fl32 w"
proof -
  have w: "0 < w" using z le by simp
  define e1 where "e1 = max \<lfloor>log 2 z\<rfloor> (- 126)"
  define e2 where "e2 = max \<lfloor>log 2 w\<rfloor> (- 126)"
  have "log 2 z \<le> log 2 w" using z w le by simp
  then have fl: "\<lfloor>log 2 z\<rfloor> \<le> \<lfloor>log 2 w\<rfloor>" by (rule floor_mono)
  then have e12: "e1 \<le> e2" unfolding e1_def e2_def by simp
  show ?thesis
  proof (cases "e1 = e2")
    case True
    let ?q = "(2::real) powr of_int (e2 - 23)"
    have "z / ?q \<le> w / ?q" using le by (simp add: divide_right_mono)
    then have "round_even (z / ?q) \<le> round_even (w / ?q)" by (rule round_even_mono)
    then have "(of_int (round_even (z / ?q)) :: real) * ?q \<le> of_int (round_even (w / ?q)) * ?q"
      by (simp add: mult_right_mono)
    then show ?thesis
      unfolding fl32_pos [OF z] fl32_pos [OF w] e1_def [symmetric] e2_def [symmetric] True .
  next
    case False
    then have lt: "e1 + 1 \<le> e2" using e12 by simp
    then have "- 126 < e2" unfolding e1_def by linarith
    then have n: "- 126 \<le> \<lfloor>log 2 w\<rfloor>" and m: "e2 = \<lfloor>log 2 w\<rfloor>" unfolding e2_def by linarith+
    have "fl32 z \<le> 2 powr of_int (e1 + 1)" unfolding e1_def by (rule fl32_upper [OF z])
    also have "\<dots> \<le> 2 powr of_int e2" using lt by (simp add: powr_mono)
    also have "\<dots> \<le> fl32 w" unfolding m by (rule fl32_lower [OF w n])
    finally show ?thesis .
  qed
qed

lemma fl32_mono_nonneg:
  assumes "0 \<le> z" "z \<le> w"
  shows "fl32 z \<le> fl32 w"
proof (cases "z = 0")
  case True
  then show ?thesis using assms fl32_nonneg [of w] by (simp add: fl32_zero)
next
  case False
  then show ?thesis using assms by (simp add: fl32_mono_pos)
qed

lemma round_even_minus: "round_even (- y) = - round_even y"
proof (cases "y = of_int \<lfloor>y\<rfloor>")
  case True
  then have "- y = of_int (- \<lfloor>y\<rfloor>)" by simp
  then have "round_even (- y) = - \<lfloor>y\<rfloor>" by (simp only: round_even_of_int)
  moreover have "round_even y = \<lfloor>y\<rfloor>" using True round_even_of_int [of "\<lfloor>y\<rfloor>"] by simp
  ultimately show ?thesis by simp
next
  case False
  then have f: "\<lfloor>- y\<rfloor> = - \<lfloor>y\<rfloor> - 1" by (simp add: floor_minus ceiling_altdef)
  have d: "0 < y - of_int \<lfloor>y\<rfloor>" using False floor_correct [of y] by linarith
  show ?thesis unfolding round_even_def Let_def f using d by auto
qed

lemma fl32_minus: "fl32 (- z) = - fl32 z"
  by (simp add: fl32_def Let_def round_even_minus)

lemma fl32_mono:
  assumes "z \<le> w"
  shows "fl32 z \<le> fl32 w"
proof (cases "0 \<le> z")
  case True
  then show ?thesis using assms by (rule fl32_mono_nonneg)
next
  case z: False
  show ?thesis
  proof (cases "0 \<le> w")
    case True
    have "0 \<le> fl32 (- z)" using z by (intro fl32_nonneg) simp
    then have "fl32 z \<le> 0" using fl32_minus [of z] by simp
    then show ?thesis using fl32_nonneg [OF True] by simp
  next
    case False
    then have "fl32 (- w) \<le> fl32 (- z)" using assms by (intro fl32_mono_nonneg) simp_all
    then show ?thesis by (simp add: fl32_minus)
  qed
qed

lemma fl32_one: "fl32 1 = 1"
  by (subst fl32_small [where k = 23]; simp add: round_even_def)

lemma fl32_two_24: "fl32 16777216 = 16777216"
  by (subst fl32_large [where j = 1]; simp add: round_even_def)

lemma fl32_two_24_one: "fl32 16777217 = 16777216"
  by (subst fl32_large [where j = 1]; simp add: round_even_def)

lemma fl32_unit: "z \<le> 1 \<Longrightarrow> fl32 z \<le> 1"
  using fl32_mono [of z 1] by (simp add: fl32_one)

lemma fl32_cap: "z \<le> 16777217 \<Longrightarrow> fl32 z \<le> 16777216"
  using fl32_mono [of z 16777217] by (simp add: fl32_two_24_one)

lemma fl32_above: "fl32 t = t \<Longrightarrow> t \<le> z \<Longrightarrow> t \<le> fl32 z"
  using fl32_mono [of t z] by simp

lemma fl32_absorb: "0 \<le> y \<Longrightarrow> y \<le> 1 \<Longrightarrow> fl32 (16777216 + y) = 16777216"
  using fl32_cap [of "16777216 + y"] fl32_above [of 16777216 "16777216 + y"]
  by (simp add: fl32_two_24)

lemma round_even_half: "0 \<le> y \<Longrightarrow> y \<le> 1 / 2 \<Longrightarrow> round_even y = 0"
proof -
  assume a: "0 \<le> y" "y \<le> 1 / 2"
  then have "\<lfloor>y\<rfloor> = 0" by (intro floor_unique) simp_all
  then show ?thesis using a by (simp add: round_even_def)
qed

lemma fl32_tiny:
  assumes z: "0 < z" and le: "z \<le> 2 powr (- 150)"
  shows "fl32 z = 0"
proof -
  have "(2::real) powr (- 150) < 2 powr (- 126)" by (intro powr_less_mono) simp_all
  then have "z < 2 powr (- 126)" using le by (rule le_less_trans [rotated])
  then have "log 2 z < - 126" using z by (simp add: less_powr_iff)
  then have "\<lfloor>log 2 z\<rfloor> < - 126" by (simp add: floor_less_iff)
  then have m: "max \<lfloor>log 2 z\<rfloor> (- 126) = - 126" by simp
  have "(2::real) powr (- 150) = 2 powr (- 149 + - 1)" by simp
  also have "\<dots> = 2 powr (- 149) * 2 powr (- 1)" by (rule powr_add)
  also have "\<dots> = 2 powr (- 149) / 2" by (simp add: powr_minus_divide)
  finally have "z \<le> 2 powr (- 149) / 2" using le by simp
  then have "z / 2 powr (- 149) \<le> 1 / 2" by (simp add: pos_divide_le_eq)
  moreover have "0 \<le> z / 2 powr (- 149)" using z by simp
  ultimately have "round_even (z / 2 powr (- 149)) = 0" by (intro round_even_half)
  then show ?thesis unfolding fl32_pos [OF z] m by simp
qed

lemma exp_underflow:
  assumes "150 \<le> y"
  shows "fl32 (exp (- y)) = 0"
proof -
  have "2 \<le> exp (1::real)" using exp_ge_add_one_self [of "1::real"] by simp
  then have "(2::real) ^ 150 \<le> exp 1 ^ 150" by (intro power_mono) simp_all
  also have "\<dots> = exp (150::real)" using exp_of_nat_mult [of 150 "1::real"] by simp
  also have "\<dots> \<le> exp y" using assms by simp
  finally have "inverse (exp y) \<le> inverse ((2::real) ^ 150)" by (intro le_imp_inverse_le) simp_all
  moreover have "(2::real) powr (- 150) = inverse (2 ^ 150)"
    by (simp add: powr_minus powr_numeral)
  ultimately have "exp (- y) \<le> 2 powr (- 150)" by (simp add: exp_minus)
  then show ?thesis by (intro fl32_tiny) simp_all
qed

section \<open>The adaptive threshold in rounded arithmetic\<close>

lemma neuron_step_rnd_theta:
  "snd (snd (neuron_step_rnd rnd L n xi))
   = adapt_rnd rnd L (neuron_spike_rnd rnd L n xi = 1) (snd (snd n))"
  by (cases n) (simp add: neuron_step_rnd_def neuron_spike_rnd_def Let_def)

lemma adapt_fl32_above:
  assumes "fl32 th = th" "0 \<le> nl_up L" "0 \<le> nl_dn L"
  shows "th \<le> adapt_rnd fl32 L sp th"
proof (cases "nl_adapt L")
  case False
  then show ?thesis by (simp add: adapt_rnd_def)
next
  case True
  let ?a = "fl32 ((if sp then 1 else 0) * nl_up L)"
  let ?b = "fl32 ((if sp then 0 else 1) * nl_dn L)"
  have a: "0 \<le> ?a" using assms(2) by (intro fl32_nonneg) simp
  have b: "0 \<le> ?b" using assms(3) by (intro fl32_nonneg) simp
  have "th \<le> fl32 (th + ?a)" using assms(1) a by (intro fl32_above) simp_all
  then have "th \<le> fl32 (th + ?a) + ?b" using b by simp
  then have "th \<le> fl32 (fl32 (th + ?a) + ?b)" using assms(1) by (intro fl32_above)
  then show ?thesis using True by (simp add: adapt_rnd_def)
qed

lemma adapt_fl32_cap:
  assumes "th \<le> 16777216" "nl_up L \<le> 1" "nl_dn L \<le> 1"
  shows "adapt_rnd fl32 L sp th \<le> 16777216"
proof (cases "nl_adapt L")
  case False
  then show ?thesis using assms by (simp add: adapt_rnd_def)
next
  case True
  let ?a = "fl32 ((if sp then 1 else 0) * nl_up L)"
  let ?b = "fl32 ((if sp then 0 else 1) * nl_dn L)"
  have a1: "?a \<le> 1" using assms(2) by (intro fl32_unit) simp
  have b1: "?b \<le> 1" using assms(3) by (intro fl32_unit) simp
  have t1: "fl32 (th + ?a) \<le> 16777216" using assms(1) a1 by (intro fl32_cap) simp
  have u1: "fl32 (fl32 (th + ?a) + ?b) \<le> 16777216" using t1 b1 by (intro fl32_cap) simp
  show ?thesis using True u1 by (simp add: adapt_rnd_def)
qed

lemma adapt_fl32_stuck:
  assumes "0 \<le> nl_up L" "nl_up L \<le> 1" "0 \<le> nl_dn L" "nl_dn L \<le> 1"
  shows "adapt_rnd fl32 L sp 16777216 = 16777216"
  using adapt_fl32_cap [of 16777216 L sp] adapt_fl32_above [of 16777216 L sp] assms
  by (simp add: fl32_two_24)

lemma neuron_theta_cap:
  assumes "nl_up L \<le> 1" "nl_dn L \<le> 1"
  shows "snd (snd n) \<le> 16777216 \<Longrightarrow>
         snd (snd (foldl (neuron_step_rnd fl32 L) n xs)) \<le> 16777216"
proof (induction xs arbitrary: n)
  case Nil
  then show ?case by simp
next
  case (Cons xi xs)
  have "snd (snd (neuron_step_rnd fl32 L n xi)) \<le> 16777216"
    unfolding neuron_step_rnd_theta using Cons.prems assms by (intro adapt_fl32_cap)
  then show ?case using Cons.IH [of "neuron_step_rnd fl32 L n xi"] by simp
qed

lemma neuron_theta_stuck:
  assumes "0 \<le> nl_up L" "nl_up L \<le> 1" "0 \<le> nl_dn L" "nl_dn L \<le> 1"
  shows "snd (snd n) = 16777216 \<Longrightarrow>
         snd (snd (foldl (neuron_step_rnd fl32 L) n xs)) = 16777216"
proof (induction xs arbitrary: n)
  case Nil
  then show ?case by simp
next
  case (Cons xi xs)
  have "snd (snd (neuron_step_rnd fl32 L n xi)) = 16777216"
    unfolding neuron_step_rnd_theta Cons.prems using assms by (rule adapt_fl32_stuck)
  then show ?case using Cons.IH [of "neuron_step_rnd fl32 L n xi"] by simp
qed

lemma HomoeostasisLIFPopulation_theta_rnd:
  assumes "HomoeostasisLIFPopulation_wf p" "length xin = HomoeostasisLIFPopulation.neurons p"
    "i < HomoeostasisLIFPopulation.neurons p"
  shows "HomoeostasisLIFPopulation.theta (fst (HomoeostasisLIFPopulation_forward_rnd rnd fexp p xin)) ! i
         = adapt_rnd rnd (HomoeostasisLIFPopulation_law_rnd rnd fexp p)
             (HomoeostasisLIFPopulation.s (fst (HomoeostasisLIFPopulation_forward_rnd rnd fexp p xin)) ! i = 1)
             (HomoeostasisLIFPopulation.theta p ! i)"
proof -
  have "HomoeostasisLIFPopulation.theta (fst (HomoeostasisLIFPopulation_forward_rnd rnd fexp p xin)) ! i
        = snd (snd (HomoeostasisLIFPopulation_neuron (fst (HomoeostasisLIFPopulation_forward_rnd rnd fexp p xin)) i))"
    by (simp add: HomoeostasisLIFPopulation_neuron_def)
  also have "\<dots> = adapt_rnd rnd (HomoeostasisLIFPopulation_law_rnd rnd fexp p)
      (neuron_spike_rnd rnd (HomoeostasisLIFPopulation_law_rnd rnd fexp p) (HomoeostasisLIFPopulation_neuron p i) (xin ! i) = 1)
      (snd (snd (HomoeostasisLIFPopulation_neuron p i)))"
    unfolding HomoeostasisLIFPopulation_forward_rnd_neuron [OF assms] by (rule neuron_step_rnd_theta)
  finally show ?thesis
    unfolding HomoeostasisLIFPopulation_forward_rnd_s [OF assms]
    by (simp add: HomoeostasisLIFPopulation_neuron_def)
qed

lemma HomoeostasisLIFPopulation_theta_formula:
  "HomoeostasisLIFPopulation_wf p \<and> length xin = HomoeostasisLIFPopulation.neurons p
     \<and> i < HomoeostasisLIFPopulation.neurons p \<and> HomoeostasisLIFPopulation.frozen_th p = False \<longrightarrow>
   HomoeostasisLIFPopulation.theta (fst (HomoeostasisLIFPopulation_forward_rnd rnd fexp p xin)) ! i
   = rnd (rnd (HomoeostasisLIFPopulation.theta p ! i
               + rnd ((if 0 < HomoeostasisLIFPopulation.s (fst (HomoeostasisLIFPopulation_forward_rnd rnd fexp p xin)) ! i
                       then 1 else 0) * HomoeostasisLIFPopulation.theta_plus p))
          + rnd ((if HomoeostasisLIFPopulation.s (fst (HomoeostasisLIFPopulation_forward_rnd rnd fexp p xin)) ! i < 1
                  then 1 else 0)
                 * fexp (- rnd (HomoeostasisLIFPopulation.dt p / HomoeostasisLIFPopulation.tau_theta p))))"
proof (intro impI, elim conjE)
  assume a: "HomoeostasisLIFPopulation_wf p" "length xin = HomoeostasisLIFPopulation.neurons p"
    "i < HomoeostasisLIFPopulation.neurons p"
    and f: "HomoeostasisLIFPopulation.frozen_th p = False"
  let ?s = "HomoeostasisLIFPopulation.s (fst (HomoeostasisLIFPopulation_forward_rnd rnd fexp p xin)) ! i"
  have s: "?s = 1 \<or> ?s = 0"
    unfolding HomoeostasisLIFPopulation_forward_rnd_s [OF a]
    by (cases "HomoeostasisLIFPopulation_neuron p i") (simp add: neuron_spike_rnd_def)
  show "HomoeostasisLIFPopulation.theta (fst (HomoeostasisLIFPopulation_forward_rnd rnd fexp p xin)) ! i
   = rnd (rnd (HomoeostasisLIFPopulation.theta p ! i
               + rnd ((if 0 < ?s then 1 else 0) * HomoeostasisLIFPopulation.theta_plus p))
          + rnd ((if ?s < 1 then 1 else 0)
                 * fexp (- rnd (HomoeostasisLIFPopulation.dt p / HomoeostasisLIFPopulation.tau_theta p))))"
    unfolding HomoeostasisLIFPopulation_theta_rnd [OF a]
    using s f by (auto simp add: adapt_rnd_def HomoeostasisLIFPopulation_law_rnd_def)
qed

lemma HomoeostasisLIFPopulation_theta_above:
  "HomoeostasisLIFPopulation_wf p \<and> length xin = HomoeostasisLIFPopulation.neurons p
     \<and> i < HomoeostasisLIFPopulation.neurons p
     \<and> fl32 (HomoeostasisLIFPopulation.theta p ! i) = HomoeostasisLIFPopulation.theta p ! i
     \<and> 0 \<le> HomoeostasisLIFPopulation.theta_plus p
     \<and> 0 \<le> fexp (- fl32 (HomoeostasisLIFPopulation.dt p / HomoeostasisLIFPopulation.tau_theta p)) \<longrightarrow>
   HomoeostasisLIFPopulation.theta p ! i
   \<le> HomoeostasisLIFPopulation.theta (fst (HomoeostasisLIFPopulation_forward_rnd fl32 fexp p xin)) ! i"
proof (intro impI, elim conjE)
  assume a: "HomoeostasisLIFPopulation_wf p" "length xin = HomoeostasisLIFPopulation.neurons p"
    "i < HomoeostasisLIFPopulation.neurons p"
    and r: "fl32 (HomoeostasisLIFPopulation.theta p ! i) = HomoeostasisLIFPopulation.theta p ! i"
    and u: "0 \<le> HomoeostasisLIFPopulation.theta_plus p"
    and d: "0 \<le> fexp (- fl32 (HomoeostasisLIFPopulation.dt p / HomoeostasisLIFPopulation.tau_theta p))"
  have "0 \<le> nl_up (HomoeostasisLIFPopulation_law_rnd fl32 fexp p)"
    "0 \<le> nl_dn (HomoeostasisLIFPopulation_law_rnd fl32 fexp p)"
    using u d by (simp_all add: HomoeostasisLIFPopulation_law_rnd_def)
  then show "HomoeostasisLIFPopulation.theta p ! i
   \<le> HomoeostasisLIFPopulation.theta (fst (HomoeostasisLIFPopulation_forward_rnd fl32 fexp p xin)) ! i"
    unfolding HomoeostasisLIFPopulation_theta_rnd [OF a] using r by (intro adapt_fl32_above)
qed

lemma HomoeostasisLIFPopulation_theta_cap:
  "HomoeostasisLIFPopulation_wf p \<and> (\<forall>xin \<in> set xs. length xin = HomoeostasisLIFPopulation.neurons p)
     \<and> i < HomoeostasisLIFPopulation.neurons p
     \<and> HomoeostasisLIFPopulation.theta_plus p \<le> 1
     \<and> fexp (- fl32 (HomoeostasisLIFPopulation.dt p / HomoeostasisLIFPopulation.tau_theta p)) \<le> 1 \<longrightarrow>
   (HomoeostasisLIFPopulation.theta p ! i \<le> 16777216 \<longrightarrow>
      HomoeostasisLIFPopulation.theta (steps (HomoeostasisLIFPopulation_forward_rnd fl32 fexp) p xs) ! i \<le> 16777216)
   \<and> (0 \<le> HomoeostasisLIFPopulation.theta_plus p
        \<and> 0 \<le> fexp (- fl32 (HomoeostasisLIFPopulation.dt p / HomoeostasisLIFPopulation.tau_theta p))
        \<and> HomoeostasisLIFPopulation.theta p ! i = 16777216 \<longrightarrow>
      HomoeostasisLIFPopulation.theta (steps (HomoeostasisLIFPopulation_forward_rnd fl32 fexp) p xs) ! i = 16777216)"
proof (intro impI, elim conjE)
  assume a: "HomoeostasisLIFPopulation_wf p" "\<forall>xin \<in> set xs. length xin = HomoeostasisLIFPopulation.neurons p"
    "i < HomoeostasisLIFPopulation.neurons p"
    and u: "HomoeostasisLIFPopulation.theta_plus p \<le> 1"
    and d: "fexp (- fl32 (HomoeostasisLIFPopulation.dt p / HomoeostasisLIFPopulation.tau_theta p)) \<le> 1"
  let ?L = "HomoeostasisLIFPopulation_law_rnd fl32 fexp p"
  let ?n = "HomoeostasisLIFPopulation_neuron p i"
  have L: "nl_up ?L \<le> 1" "nl_dn ?L \<le> 1"
    using u d by (simp_all add: HomoeostasisLIFPopulation_law_rnd_def)
  have n: "snd (snd ?n) = HomoeostasisLIFPopulation.theta p ! i"
    by (simp add: HomoeostasisLIFPopulation_neuron_def)
  have q: "HomoeostasisLIFPopulation.theta (steps (HomoeostasisLIFPopulation_forward_rnd fl32 fexp) p xs) ! i
           = snd (snd (foldl (neuron_step_rnd fl32 ?L) ?n (map (\<lambda>xin. xin ! i) xs)))"
    using HomoeostasisLIFPopulation_steps_rnd_neuron [OF a, of fl32 fexp, THEN conjunct1, symmetric]
    by (simp add: HomoeostasisLIFPopulation_neuron_def)
  have c: "HomoeostasisLIFPopulation.theta p ! i \<le> 16777216 \<longrightarrow> HomoeostasisLIFPopulation.theta (steps (HomoeostasisLIFPopulation_forward_rnd fl32 fexp) p xs) ! i \<le> 16777216"
    unfolding q using neuron_theta_cap [OF L, of ?n] n by simp
  have s: "0 \<le> HomoeostasisLIFPopulation.theta_plus p
        \<and> 0 \<le> fexp (- fl32 (HomoeostasisLIFPopulation.dt p / HomoeostasisLIFPopulation.tau_theta p))
        \<and> HomoeostasisLIFPopulation.theta p ! i = 16777216 \<longrightarrow>
      HomoeostasisLIFPopulation.theta (steps (HomoeostasisLIFPopulation_forward_rnd fl32 fexp) p xs) ! i = 16777216"
  proof (intro impI, elim conjE)
    assume "0 \<le> HomoeostasisLIFPopulation.theta_plus p" "0 \<le> fexp (- fl32 (HomoeostasisLIFPopulation.dt p / HomoeostasisLIFPopulation.tau_theta p))"
      and t: "HomoeostasisLIFPopulation.theta p ! i = 16777216"
    then have "0 \<le> nl_up ?L" "0 \<le> nl_dn ?L" by (simp_all add: HomoeostasisLIFPopulation_law_rnd_def)
    then show "HomoeostasisLIFPopulation.theta (steps (HomoeostasisLIFPopulation_forward_rnd fl32 fexp) p xs) ! i = 16777216"
      unfolding q using neuron_theta_stuck [OF _ L(1) _ L(2), of ?n] n t by simp
  qed
  show "(HomoeostasisLIFPopulation.theta p ! i \<le> 16777216 \<longrightarrow>
      HomoeostasisLIFPopulation.theta (steps (HomoeostasisLIFPopulation_forward_rnd fl32 fexp) p xs) ! i \<le> 16777216)
   \<and> (0 \<le> HomoeostasisLIFPopulation.theta_plus p
        \<and> 0 \<le> fexp (- fl32 (HomoeostasisLIFPopulation.dt p / HomoeostasisLIFPopulation.tau_theta p))
        \<and> HomoeostasisLIFPopulation.theta p ! i = 16777216 \<longrightarrow>
      HomoeostasisLIFPopulation.theta (steps (HomoeostasisLIFPopulation_forward_rnd fl32 fexp) p xs) ! i = 16777216)"
    using c s by (rule conjI)
qed

section \<open>Values of float32 rounding\<close>

text \<open>The roundings met on the runs below, each computed from \<open>fl32\<close>.\<close>

lemma fl32_countdown_values:
  "fl32 (1 / 2) = 1 / 2"
  "fl32 (53687091 / 67108864) = 13421773 / 16777216"
  "fl32 (40265319 / 67108864) = 5033165 / 8388608"
  "fl32 (26843547 / 67108864) = 6710887 / 16777216"
  "fl32 (13421775 / 67108864) = 13421775 / 67108864"
  "fl32 (1 / 33554432) = 1 / 33554432"
  "fl32 (- (13421771 / 67108864)) = - (13421771 / 67108864)"
  "fl32 (- (13421773 / 67108864)) = - (13421773 / 67108864)"
  apply (subst fl32_small [where k = 24]; simp add: round_even_def)
  apply (subst fl32_small [where k = 24]; simp add: round_even_def)
  apply (subst fl32_small [where k = 24]; simp add: round_even_def)
  apply (subst fl32_small [where k = 25]; simp add: round_even_def)
  apply (subst fl32_small [where k = 26]; simp add: round_even_def)
  apply (subst fl32_small [where k = 48]; simp add: round_even_def)
  apply (subst fl32_small [where k = 26]; simp add: round_even_def)
  by (subst fl32_small [where k = 26]; simp add: round_even_def)

lemma fl32_hold_values:
  "fl32 (- 1) = - 1"
  "fl32 (- 2) = - 2"
  "fl32 (- 3) = - 3"
  "fl32 (2) = 2"
  "fl32 (3) = 3"
  "fl32 (20) = 20"
  "fl32 (- 45) = - 45"
  "fl32 (- 65) = - 65"
  "fl32 (- 62) = - 62"
  "fl32 (- 52) = - 52"
  "fl32 (1 / 4) = 1 / 4"
  "fl32 (- (207 / 4)) = - (207 / 4)"
  apply (subst fl32_small [where k = 23]; simp add: round_even_def)
  apply (subst fl32_small [where k = 22]; simp add: round_even_def)
  apply (subst fl32_small [where k = 22]; simp add: round_even_def)
  apply (subst fl32_small [where k = 22]; simp add: round_even_def)
  apply (subst fl32_small [where k = 22]; simp add: round_even_def)
  apply (subst fl32_small [where k = 19]; simp add: round_even_def)
  apply (subst fl32_small [where k = 18]; simp add: round_even_def)
  apply (subst fl32_small [where k = 17]; simp add: round_even_def)
  apply (subst fl32_small [where k = 18]; simp add: round_even_def)
  apply (subst fl32_small [where k = 18]; simp add: round_even_def)
  apply (subst fl32_small [where k = 25]; simp add: round_even_def)
  by (subst fl32_small [where k = 18]; simp add: round_even_def)

lemma fl32_theta_values:
  "fl32 (13421773 / 268435456) = 13421773 / 268435456"
  "fl32 (4503599640792269 / 268435456) = 16777216"
  "fl32 (16777164) = 16777164"
  "fl32 (29999935) = 29999936"
  "fl32 (30000000) = 30000000"
  "fl32 (1 / 10000000) = 14073749 / 140737488355328"
  "fl32 (- 65) = - 65"
  "fl32 (- 52) = - 52"
  "fl32 (- 1) = - 1"
  "fl32 (8589934592 / 8589935) = 16383999 / 16384"
  apply (subst fl32_small [where k = 28]; simp add: round_even_def)
  apply (subst fl32_large [where j = 1]; simp add: round_even_def)
  apply (subst fl32_small [where k = 0]; simp add: round_even_def)
  apply (subst fl32_large [where j = 1]; simp add: round_even_def)
  apply (subst fl32_large [where j = 1]; simp add: round_even_def)
  apply (subst fl32_small [where k = 47]; simp add: round_even_def)
  apply (subst fl32_small [where k = 17]; simp add: round_even_def)
  apply (subst fl32_small [where k = 18]; simp add: round_even_def)
  apply (subst fl32_small [where k = 23]; simp add: round_even_def)
  by (subst fl32_small [where k = 14]; simp add: round_even_def)

section \<open>Claims\<close>





text \<open>
  Claim C3. \<open>reset\<close> changes only the buffers listed for the variant and sets them to
  the value the constructor gave them: the trace to zeros for \<open>InputPopulation\<close>; \<open>v\<close> to
  \<open>rest\<close> for \<open>IFPopulation\<close> and \<open>LIFPopulation\<close>; \<open>v\<close> to \<open>rest\<close> and the spike count to
  zeros for \<open>LIFPopulation2\<close>; \<open>v\<close> to \<open>rest\<close> and, when spikes are counted, the spike
  count to zeros for \<open>HomoeostasisLIFPopulation\<close>; \<open>v\<close> to \<open>rest\<close> and the trace to zeros
  for \<open>DiehlAndCookPopulation\<close>. Every other field of the object is as before.
\<close>

theorem reset_restores:
  "(InputPopulation_wf pn \<longrightarrow>
      InputPopulation_reset pn
      = (pn\<lparr>InputPopulation.x := Some (replicate (InputPopulation.neurons pn) 0)\<rparr>, Inr ()))
   \<and> (IFPopulation_wf pf \<longrightarrow>
      IFPopulation_reset pf
      = pf\<lparr>IFPopulation.v := replicate (IFPopulation.neurons pf) (IFPopulation.rest pf)\<rparr>)
   \<and> (LIFPopulation_wf pl \<longrightarrow>
      LIFPopulation_reset pl
      = pl\<lparr>LIFPopulation.v := replicate (LIFPopulation.neurons pl) (LIFPopulation.rest pl)\<rparr>)
   \<and> (LIFPopulation2_wf p2 \<longrightarrow>
      LIFPopulation2_reset p2
      = p2\<lparr>LIFPopulation2.v := replicate (LIFPopulation2.neurons p2) (LIFPopulation2.rest p2),
             LIFPopulation2.spikecount := replicate (LIFPopulation2.neurons p2) 0\<rparr>)
   \<and> (HomoeostasisLIFPopulation_wf ph \<longrightarrow>
      HomoeostasisLIFPopulation_reset ph
      = (ph\<lparr>HomoeostasisLIFPopulation.v :=
               replicate (HomoeostasisLIFPopulation.neurons ph) (HomoeostasisLIFPopulation.rest ph),
             HomoeostasisLIFPopulation.spikecount :=
               (if HomoeostasisLIFPopulation.count_spike ph
                then Some (replicate (HomoeostasisLIFPopulation.neurons ph) 0)
                else HomoeostasisLIFPopulation.spikecount ph)\<rparr>, Inr ()))
   \<and> (DiehlAndCookPopulation_wf pd \<longrightarrow>
      DiehlAndCookPopulation_reset pd
      = (pd\<lparr>DiehlAndCookPopulation.v :=
               replicate (DiehlAndCookPopulation.neurons pd) (DiehlAndCookPopulation.rest pd),
             DiehlAndCookPopulation.x := Some (replicate (DiehlAndCookPopulation.neurons pd) 0)\<rparr>,
         Inr ()))
   \<and> (InputPopulation_init n dt0 tr tau_tr0 scale_tr0 cs = Inr qn \<longrightarrow>
      InputPopulation.x qn = Some (replicate n 0) \<and> InputPopulation.neurons qn = n)
   \<and> IFPopulation.v (IFPopulation_init n dt0 v_th0 rest0 tau_ref0 cs) = replicate n rest0
   \<and> LIFPopulation.v (LIFPopulation_init n dt0 tau_rc0 v_th0 theta0 rest0 tau_ref0)
       = replicate n rest0
   \<and> LIFPopulation2.v (LIFPopulation2_init n dt0 tau_rc0 v_th0 rest0 tau_ref0) = replicate n rest0
   \<and> LIFPopulation2.spikecount (LIFPopulation2_init n dt0 tau_rc0 v_th0 rest0 tau_ref0)
       = replicate n 0
   \<and> HomoeostasisLIFPopulation.v
        (HomoeostasisLIFPopulation_init n dt0 tau_rc0 v_th0 theta_plus0 tau_theta0 rest0 tau_ref0 fr cs)
       = replicate n rest0
   \<and> HomoeostasisLIFPopulation.spikecount
        (HomoeostasisLIFPopulation_init n dt0 tau_rc0 v_th0 theta_plus0 tau_theta0 rest0 tau_ref0 fr True)
       = Some (replicate n 0)
   \<and> (DiehlAndCookPopulation_init n dt0 tau_rc0 v_th0 theta0 rest0 tau_ref0 tr tau_tr0 scale_tr0
        = Inr qd \<longrightarrow>
      DiehlAndCookPopulation.v qd = replicate n rest0
      \<and> DiehlAndCookPopulation.x qd = Some (replicate n 0)
      \<and> DiehlAndCookPopulation.neurons qd = n)"
proof (intro conjI)
  show "InputPopulation_wf pn \<longrightarrow>
      InputPopulation_reset pn
      = (pn\<lparr>InputPopulation.x := Some (replicate (InputPopulation.neurons pn) 0)\<rparr>, Inr ())"
    by (auto simp add: InputPopulation_wf_def InputPopulation_reset_def map_replicate_const
        split: option.splits)
  show "IFPopulation_wf pf \<longrightarrow>
      IFPopulation_reset pf
      = pf\<lparr>IFPopulation.v := replicate (IFPopulation.neurons pf) (IFPopulation.rest pf)\<rparr>"
    by (auto simp add: IFPopulation_wf_def IFPopulation_reset_def map_replicate_const)
  show "LIFPopulation_wf pl \<longrightarrow>
      LIFPopulation_reset pl
      = pl\<lparr>LIFPopulation.v := replicate (LIFPopulation.neurons pl) (LIFPopulation.rest pl)\<rparr>"
    by (auto simp add: LIFPopulation_wf_def LIFPopulation_reset_def map_replicate_const)
  show "LIFPopulation2_wf p2 \<longrightarrow>
      LIFPopulation2_reset p2
      = p2\<lparr>LIFPopulation2.v := replicate (LIFPopulation2.neurons p2) (LIFPopulation2.rest p2),
             LIFPopulation2.spikecount := replicate (LIFPopulation2.neurons p2) 0\<rparr>"
    by (auto simp add: LIFPopulation2_wf_def LIFPopulation2_reset_def map_replicate_const Let_def)
  show "HomoeostasisLIFPopulation_wf ph \<longrightarrow>
      HomoeostasisLIFPopulation_reset ph
      = (ph\<lparr>HomoeostasisLIFPopulation.v :=
               replicate (HomoeostasisLIFPopulation.neurons ph) (HomoeostasisLIFPopulation.rest ph),
             HomoeostasisLIFPopulation.spikecount :=
               (if HomoeostasisLIFPopulation.count_spike ph
                then Some (replicate (HomoeostasisLIFPopulation.neurons ph) 0)
                else HomoeostasisLIFPopulation.spikecount ph)\<rparr>, Inr ())"
    by (auto simp add: HomoeostasisLIFPopulation_wf_def HomoeostasisLIFPopulation_reset_def
        map_replicate_const Let_def split: option.splits)
  show "DiehlAndCookPopulation_wf pd \<longrightarrow>
      DiehlAndCookPopulation_reset pd
      = (pd\<lparr>DiehlAndCookPopulation.v :=
               replicate (DiehlAndCookPopulation.neurons pd) (DiehlAndCookPopulation.rest pd),
             DiehlAndCookPopulation.x := Some (replicate (DiehlAndCookPopulation.neurons pd) 0)\<rparr>,
         Inr ())"
    by (auto simp add: DiehlAndCookPopulation_wf_def DiehlAndCookPopulation_reset_def
        map_replicate_const Let_def split: option.splits)
  show "InputPopulation_init n dt0 tr tau_tr0 scale_tr0 cs = Inr qn \<longrightarrow>
      InputPopulation.x qn = Some (replicate n 0) \<and> InputPopulation.neurons qn = n"
    by (auto simp add: InputPopulation_init_def InputPopulation_reset_def Let_def
        split: if_splits)
  show "DiehlAndCookPopulation_init n dt0 tau_rc0 v_th0 theta0 rest0 tau_ref0 tr tau_tr0 scale_tr0
        = Inr qd \<longrightarrow>
      DiehlAndCookPopulation.v qd = replicate n rest0
      \<and> DiehlAndCookPopulation.x qd = Some (replicate n 0)
      \<and> DiehlAndCookPopulation.neurons qd = n"
    by (auto simp add: DiehlAndCookPopulation_init_def DiehlAndCookPopulation_reset_def Let_def
        split: if_splits)
qed (simp_all add: IFPopulation_init_def LIFPopulation_init_def LIFPopulation2_init_def
      HomoeostasisLIFPopulation_init_def)

theorem reset_restores_witness:
  "InputPopulation_wf
     \<lparr>InputPopulation.neurons = 2, traces = True, count_spike = True, dt = 1, s = [1, 0],
      x = Some [1, 1 / 2], tau_tr = Some 20, scale_tr = Some 1, spikecount = Some [3, 4]\<rparr>
   \<and> InputPopulation_reset
     \<lparr>InputPopulation.neurons = 2, traces = True, count_spike = True, dt = 1, s = [1, 0],
      x = Some [1, 1 / 2], tau_tr = Some 20, scale_tr = Some 1, spikecount = Some [3, 4]\<rparr>
     = (\<lparr>InputPopulation.neurons = 2, traces = True, count_spike = True, dt = 1, s = [1, 0],
         x = Some [0, 0], tau_tr = Some 20, scale_tr = Some 1, spikecount = Some [3, 4]\<rparr>, Inr ())
   \<and> IFPopulation_wf
     \<lparr>IFPopulation.neurons = 2, dt = 1, v = [1 / 2, 0], v_th = 9 / 10, rest = 0,
      refrac = [- 1, 3], tau_ref = 3, s = [0, 1], count_spike = Some True,
      spikecount = Some [2, 5]\<rparr>
   \<and> IFPopulation_reset
     \<lparr>IFPopulation.neurons = 2, dt = 1, v = [1 / 2, 0], v_th = 9 / 10, rest = 0,
      refrac = [- 1, 3], tau_ref = 3, s = [0, 1], count_spike = Some True,
      spikecount = Some [2, 5]\<rparr>
     = \<lparr>IFPopulation.neurons = 2, dt = 1, v = [0, 0], v_th = 9 / 10, rest = 0,
        refrac = [- 1, 3], tau_ref = 3, s = [0, 1], count_spike = Some True,
        spikecount = Some [2, 5]\<rparr>
   \<and> LIFPopulation_wf
     \<lparr>LIFPopulation.neurons = 2, dt = 1, v = [- 60, - 65], tau_rc = 100, v_th = - 52,
      theta = 1 / 20, s = [0, 1], rest = - 65, refrac = [- 1, 5], tau_ref = 5\<rparr>
   \<and> LIFPopulation_reset
     \<lparr>LIFPopulation.neurons = 2, dt = 1, v = [- 60, - 65], tau_rc = 100, v_th = - 52,
      theta = 1 / 20, s = [0, 1], rest = - 65, refrac = [- 1, 5], tau_ref = 5\<rparr>
     = \<lparr>LIFPopulation.neurons = 2, dt = 1, v = [- 65, - 65], tau_rc = 100, v_th = - 52,
        theta = 1 / 20, s = [0, 1], rest = - 65, refrac = [- 1, 5], tau_ref = 5\<rparr>
   \<and> LIFPopulation2_wf
     \<lparr>LIFPopulation2.neurons = 2, dt = 1, v = [- 60, - 65], tau_rc = 100, v_th = - 52,
      s = [0, 1], rest = - 65, refrac = [- 1, 5], tau_ref = 5, spikecount = [2, 7]\<rparr>
   \<and> LIFPopulation2_reset
     \<lparr>LIFPopulation2.neurons = 2, dt = 1, v = [- 60, - 65], tau_rc = 100, v_th = - 52,
      s = [0, 1], rest = - 65, refrac = [- 1, 5], tau_ref = 5, spikecount = [2, 7]\<rparr>
     = \<lparr>LIFPopulation2.neurons = 2, dt = 1, v = [- 65, - 65], tau_rc = 100, v_th = - 52,
        s = [0, 1], rest = - 65, refrac = [- 1, 5], tau_ref = 5, spikecount = [0, 0]\<rparr>
   \<and> HomoeostasisLIFPopulation_wf
     \<lparr>HomoeostasisLIFPopulation.neurons = 2, dt = 1, v = [- 60, - 65], tau_rc = 100,
      v_th = - 52, s = [0, 1], rest = - 65, refrac = [- 1, 5], tau_ref = 5, threshold = - 52,
      theta_plus = 1 / 20, theta = [1, 3 / 2], tau_theta = 10000000, frozen_th = False,
      count_spike = True, spikecount = Some [2, 7]\<rparr>
   \<and> HomoeostasisLIFPopulation_reset
     \<lparr>HomoeostasisLIFPopulation.neurons = 2, dt = 1, v = [- 60, - 65], tau_rc = 100,
      v_th = - 52, s = [0, 1], rest = - 65, refrac = [- 1, 5], tau_ref = 5, threshold = - 52,
      theta_plus = 1 / 20, theta = [1, 3 / 2], tau_theta = 10000000, frozen_th = False,
      count_spike = True, spikecount = Some [2, 7]\<rparr>
     = (\<lparr>HomoeostasisLIFPopulation.neurons = 2, dt = 1, v = [- 65, - 65], tau_rc = 100,
         v_th = - 52, s = [0, 1], rest = - 65, refrac = [- 1, 5], tau_ref = 5, threshold = - 52,
         theta_plus = 1 / 20, theta = [1, 3 / 2], tau_theta = 10000000, frozen_th = False,
         count_spike = True, spikecount = Some [0, 0]\<rparr>, Inr ())
   \<and> DiehlAndCookPopulation_wf
     \<lparr>DiehlAndCookPopulation.neurons = 2, traces = True, dt = 1, v = [- 60, - 65],
      tau_rc = 100, v_th = - 52, theta = 1 / 20, s = [0, 1], rest = - 65,
      refrac = [- 1, 5], tau_ref = 5, x = Some [1 / 2, 1], tau_tr = Some 20, scale_tr = Some 1\<rparr>
   \<and> DiehlAndCookPopulation_reset
     \<lparr>DiehlAndCookPopulation.neurons = 2, traces = True, dt = 1, v = [- 60, - 65],
      tau_rc = 100, v_th = - 52, theta = 1 / 20, s = [0, 1], rest = - 65,
      refrac = [- 1, 5], tau_ref = 5, x = Some [1 / 2, 1], tau_tr = Some 20, scale_tr = Some 1\<rparr>
     = (\<lparr>DiehlAndCookPopulation.neurons = 2, traces = True, dt = 1, v = [- 65, - 65],
         tau_rc = 100, v_th = - 52, theta = 1 / 20, s = [0, 1], rest = - 65,
         refrac = [- 1, 5], tau_ref = 5, x = Some [0, 0], tau_tr = Some 20, scale_tr = Some 1\<rparr>,
        Inr ())
   \<and> InputPopulation_init 2 1 True 20 1 False
     = Inr \<lparr>InputPopulation.neurons = 2, traces = True, count_spike = False, dt = 1, s = [0, 0],
            x = Some [0, 0], tau_tr = Some 20, scale_tr = Some 1, spikecount = None\<rparr>
   \<and> DiehlAndCookPopulation_init 2 1 100 (- 52) (1 / 20) (- 65) 5 True 20 1
     = Inr \<lparr>DiehlAndCookPopulation.neurons = 2, traces = True, dt = 1, v = [- 65, - 65],
            tau_rc = 100, v_th = - 52, theta = 1 / 20, s = [0, 0], rest = - 65,
            refrac = [0, 0], tau_ref = 5, x = Some [0, 0], tau_tr = Some 20, scale_tr = Some 1\<rparr>"
proof -
  let ?pn = "\<lparr>InputPopulation.neurons = 2, traces = True, count_spike = True, dt = 1, s = [1, 0],
      x = Some [1, 1 / 2], tau_tr = Some 20, scale_tr = Some 1, spikecount = Some [3, 4]\<rparr>"
  let ?pf = "\<lparr>IFPopulation.neurons = 2, dt = 1, v = [1 / 2, 0], v_th = 9 / 10, rest = 0,
      refrac = [- 1, 3], tau_ref = 3, s = [0, 1], count_spike = Some True,
      spikecount = Some [2, 5]\<rparr>"
  let ?pl = "\<lparr>LIFPopulation.neurons = 2, dt = 1, v = [- 60, - 65], tau_rc = 100, v_th = - 52,
      theta = 1 / 20, s = [0, 1], rest = - 65, refrac = [- 1, 5], tau_ref = 5\<rparr>"
  let ?p2 = "\<lparr>LIFPopulation2.neurons = 2, dt = 1, v = [- 60, - 65], tau_rc = 100, v_th = - 52,
      s = [0, 1], rest = - 65, refrac = [- 1, 5], tau_ref = 5, spikecount = [2, 7]\<rparr>"
  let ?ph = "\<lparr>HomoeostasisLIFPopulation.neurons = 2, dt = 1, v = [- 60, - 65], tau_rc = 100,
      v_th = - 52, s = [0, 1], rest = - 65, refrac = [- 1, 5], tau_ref = 5, threshold = - 52,
      theta_plus = 1 / 20, theta = [1, 3 / 2], tau_theta = 10000000, frozen_th = False,
      count_spike = True, spikecount = Some [2, 7]\<rparr>"
  let ?pd = "\<lparr>DiehlAndCookPopulation.neurons = 2, traces = True, dt = 1, v = [- 60, - 65],
      tau_rc = 100, v_th = - 52, theta = 1 / 20, s = [0, 1], rest = - 65,
      refrac = [- 1, 5], tau_ref = 5, x = Some [1 / 2, 1], tau_tr = Some 20, scale_tr = Some 1\<rparr>"
  have wf: "InputPopulation_wf ?pn" "IFPopulation_wf ?pf" "LIFPopulation_wf ?pl"
    "LIFPopulation2_wf ?p2" "HomoeostasisLIFPopulation_wf ?ph" "DiehlAndCookPopulation_wf ?pd"
    by (simp_all add: InputPopulation_wf_def IFPopulation_wf_def LIFPopulation_wf_def
        LIFPopulation2_wf_def HomoeostasisLIFPopulation_wf_def DiehlAndCookPopulation_wf_def)
  have init: "InputPopulation_init 2 1 True 20 1 False
     = Inr \<lparr>InputPopulation.neurons = 2, traces = True, count_spike = False, dt = 1, s = [0, 0],
            x = Some [0, 0], tau_tr = Some 20, scale_tr = Some 1, spikecount = None\<rparr>"
    "DiehlAndCookPopulation_init 2 1 100 (- 52) (1 / 20) (- 65) 5 True 20 1
     = Inr \<lparr>DiehlAndCookPopulation.neurons = 2, traces = True, dt = 1, v = [- 65, - 65],
            tau_rc = 100, v_th = - 52, theta = 1 / 20, s = [0, 0], rest = - 65,
            refrac = [0, 0], tau_ref = 5, x = Some [0, 0], tau_tr = Some 20, scale_tr = Some 1\<rparr>"
    by (simp_all add: InputPopulation_init_def InputPopulation_reset_def
        DiehlAndCookPopulation_init_def DiehlAndCookPopulation_reset_def numeral_2_eq_2)
  show ?thesis
    using reset_restores [of ?pn ?pf ?pl ?p2 ?ph ?pd 2 1 True 20 1 False
        "\<lparr>InputPopulation.neurons = 2, traces = True, count_spike = False, dt = 1, s = [0, 0],
            x = Some [0, 0], tau_tr = Some 20, scale_tr = Some 1, spikecount = None\<rparr>"]
      wf init
    by (simp add: numeral_2_eq_2)
qed

text \<open>
  Claim C4, as stated, fails. \<^verbatim>\<open>IFPopulation(1, dt=0.2, tau_ref=1., count_spike=True)\<close> holds
  the float32 values \<open>dt = 13421773 / 67108864\<close> and \<open>v_th = 7549747 / 8388608\<close>. The neuron
  spikes on the input 1, and \<open>\<lceil>tau_ref / dt\<rceil> = 5\<close>. After five further calls the refractory
  counter is \<open>1 / 33554432\<close>, still positive: the five rounded subtractions of \<open>dt\<close> do not
  reach 0. So the sixth call ignores its input \<open>1 / 2\<close> as well and leaves \<open>v\<close> at rest, and the
  input is added again only by the seventh.
\<close>

theorem refractory_hold_counterexample:
  "IFPopulation.s (fst (IFPopulation_forward_rnd fl32
          \<lparr>IFPopulation.neurons = 1, dt = 13421773 / 67108864, v = [0], v_th = 7549747 / 8388608,
           rest = 0, refrac = [0], tau_ref = 1, s = [0], count_spike = Some True,
           spikecount = Some [0]\<rparr> [1])) = [1]
   \<and> nat \<lceil>(1 :: real) / (13421773 / 67108864)\<rceil> = 5
   \<and> IFPopulation.refrac (steps (IFPopulation_forward_rnd fl32)
        (fst (IFPopulation_forward_rnd fl32
          \<lparr>IFPopulation.neurons = 1, dt = 13421773 / 67108864, v = [0], v_th = 7549747 / 8388608,
           rest = 0, refrac = [0], tau_ref = 1, s = [0], count_spike = Some True,
           spikecount = Some [0]\<rparr> [1]))
        [[1 / 2], [1 / 2], [1 / 2], [1 / 2], [1 / 2]]) = [1 / 33554432]
   \<and> IFPopulation.v (steps (IFPopulation_forward_rnd fl32)
        (fst (IFPopulation_forward_rnd fl32
          \<lparr>IFPopulation.neurons = 1, dt = 13421773 / 67108864, v = [0], v_th = 7549747 / 8388608,
           rest = 0, refrac = [0], tau_ref = 1, s = [0], count_spike = Some True,
           spikecount = Some [0]\<rparr> [1]))
        [[1 / 2], [1 / 2], [1 / 2], [1 / 2], [1 / 2], [1 / 2]]) = [0]
   \<and> IFPopulation.v (steps (IFPopulation_forward_rnd fl32)
        (fst (IFPopulation_forward_rnd fl32
          \<lparr>IFPopulation.neurons = 1, dt = 13421773 / 67108864, v = [0], v_th = 7549747 / 8388608,
           rest = 0, refrac = [0], tau_ref = 1, s = [0], count_spike = Some True,
           spikecount = Some [0]\<rparr> [1]))
        [[1 / 2], [1 / 2], [1 / 2], [1 / 2], [1 / 2], [1 / 2], [1 / 2]]) = [1 / 2]"
  by (simp add: IFPopulation_forward_rnd_def add_input_rnd_def tensor_mul_def tensor_iadd_def
      le_zero_def masked_fill_def Let_def steps_def fl32_zero fl32_one fl32_countdown_values)

text \<open>
  Claim C4, amended. In each thresholded population, in rounded arithmetic with
  \<open>rnd 0 = 0\<close> and a representable \<open>rest\<close> below the threshold: after neuron \<open>i\<close> spikes, its
  refractory counter after \<open>k\<close> further calls is \<open>tau_ref\<close> with \<open>dt\<close> subtracted \<open>k\<close> times, each
  difference rounded (\<open>countdown\<close>). As long as every call so far found the counter
  positive, the potential is \<open>rest\<close> whatever the inputs (of the population's size); the
  first call that finds the counter at or below zero adds its input again, so that the
  potential is then the rounded \<open>rest + x ! i\<close>, or \<open>rest\<close> where that reaches the threshold.
  Where the subtractions are exact, the counter is positive for exactly the first
  \<open>\<lceil>tau_ref / dt\<rceil>\<close> calls.
\<close>

theorem refractory_hold:
  "(IFPopulation_wf pf \<and> length x0 = IFPopulation.neurons pf \<and> i < IFPopulation.neurons pf
      \<and> rnd 0 = 0 \<and> rnd (IFPopulation.rest pf) = IFPopulation.rest pf
      \<and> IFPopulation.s (fst (IFPopulation_forward_rnd rnd pf x0)) ! i = 1
      \<and> (\<forall>xin \<in> set xs. length xin = IFPopulation.neurons pf)
      \<and> (\<forall>k < length xs. 0 < countdown rnd (IFPopulation.dt pf) k (IFPopulation.tau_ref pf))
      \<and> IFPopulation.rest pf < IFPopulation.v_th pf \<longrightarrow>
      IFPopulation.v (steps (IFPopulation_forward_rnd rnd) (fst (IFPopulation_forward_rnd rnd pf x0)) xs) ! i = IFPopulation.rest pf
      \<and> IFPopulation.refrac (steps (IFPopulation_forward_rnd rnd) (fst (IFPopulation_forward_rnd rnd pf x0)) xs) ! i
          = countdown rnd (IFPopulation.dt pf) (length xs) (IFPopulation.tau_ref pf)
      \<and> (countdown rnd (IFPopulation.dt pf) (length xs) (IFPopulation.tau_ref pf) \<le> 0
           \<and> length xin = IFPopulation.neurons pf \<longrightarrow>
           IFPopulation.v (fst (IFPopulation_forward_rnd rnd (steps (IFPopulation_forward_rnd rnd) (fst (IFPopulation_forward_rnd rnd pf x0)) xs) xin)) ! i
           = (if IFPopulation.v_th pf \<le> rnd (IFPopulation.rest pf + rnd (xin ! i))
              then IFPopulation.rest pf else rnd (IFPopulation.rest pf + rnd (xin ! i)))))
   \<and> (LIFPopulation2_wf p2 \<and> length x0 = LIFPopulation2.neurons p2 \<and> i < LIFPopulation2.neurons p2
      \<and> rnd 0 = 0 \<and> rnd (LIFPopulation2.rest p2) = LIFPopulation2.rest p2
      \<and> LIFPopulation2.s (fst (LIFPopulation2_forward_rnd rnd fexp p2 x0)) ! i = 1
      \<and> (\<forall>xin \<in> set xs. length xin = LIFPopulation2.neurons p2)
      \<and> (\<forall>k < length xs. 0 < countdown rnd (LIFPopulation2.dt p2) k (LIFPopulation2.tau_ref p2))
      \<and> LIFPopulation2.rest p2 < LIFPopulation2.v_th p2 \<longrightarrow>
      LIFPopulation2.v (steps (LIFPopulation2_forward_rnd rnd fexp) (fst (LIFPopulation2_forward_rnd rnd fexp p2 x0)) xs) ! i = LIFPopulation2.rest p2
      \<and> LIFPopulation2.refrac (steps (LIFPopulation2_forward_rnd rnd fexp) (fst (LIFPopulation2_forward_rnd rnd fexp p2 x0)) xs) ! i
          = countdown rnd (LIFPopulation2.dt p2) (length xs) (LIFPopulation2.tau_ref p2)
      \<and> (countdown rnd (LIFPopulation2.dt p2) (length xs) (LIFPopulation2.tau_ref p2) \<le> 0
           \<and> length xin = LIFPopulation2.neurons p2 \<longrightarrow>
           LIFPopulation2.v (fst (LIFPopulation2_forward_rnd rnd fexp (steps (LIFPopulation2_forward_rnd rnd fexp) (fst (LIFPopulation2_forward_rnd rnd fexp p2 x0)) xs) xin)) ! i
           = (if LIFPopulation2.v_th p2 \<le> rnd (LIFPopulation2.rest p2 + rnd (xin ! i))
              then LIFPopulation2.rest p2 else rnd (LIFPopulation2.rest p2 + rnd (xin ! i)))))
   \<and> (LIFPopulation_wf pl \<and> length x0 = LIFPopulation.neurons pl \<and> i < LIFPopulation.neurons pl
      \<and> rnd 0 = 0 \<and> rnd (LIFPopulation.rest pl) = LIFPopulation.rest pl
      \<and> LIFPopulation.s (fst (LIFPopulation_forward_rnd rnd fexp pl x0)) ! i = 1
      \<and> (\<forall>xin \<in> set xs. length xin = LIFPopulation.neurons pl)
      \<and> (\<forall>k < length xs. 0 < countdown rnd (LIFPopulation.dt pl) k (LIFPopulation.tau_ref pl))
      \<and> LIFPopulation.rest pl < rnd (LIFPopulation.v_th pl + LIFPopulation.theta pl) \<longrightarrow>
      LIFPopulation.v (steps (LIFPopulation_forward_rnd rnd fexp) (fst (LIFPopulation_forward_rnd rnd fexp pl x0)) xs) ! i = LIFPopulation.rest pl
      \<and> LIFPopulation.refrac (steps (LIFPopulation_forward_rnd rnd fexp) (fst (LIFPopulation_forward_rnd rnd fexp pl x0)) xs) ! i
          = countdown rnd (LIFPopulation.dt pl) (length xs) (LIFPopulation.tau_ref pl)
      \<and> (countdown rnd (LIFPopulation.dt pl) (length xs) (LIFPopulation.tau_ref pl) \<le> 0
           \<and> length xin = LIFPopulation.neurons pl \<longrightarrow>
           LIFPopulation.v (fst (LIFPopulation_forward_rnd rnd fexp (steps (LIFPopulation_forward_rnd rnd fexp) (fst (LIFPopulation_forward_rnd rnd fexp pl x0)) xs) xin)) ! i
           = (if rnd (LIFPopulation.v_th pl + LIFPopulation.theta pl) \<le> rnd (LIFPopulation.rest pl + rnd (xin ! i))
              then LIFPopulation.rest pl else rnd (LIFPopulation.rest pl + rnd (xin ! i)))))
   \<and> (DiehlAndCookPopulation_wf pd \<and> length x0 = DiehlAndCookPopulation.neurons pd \<and> i < DiehlAndCookPopulation.neurons pd
      \<and> rnd 0 = 0 \<and> rnd (DiehlAndCookPopulation.rest pd) = DiehlAndCookPopulation.rest pd
      \<and> DiehlAndCookPopulation.s (fst (DiehlAndCookPopulation_forward_rnd rnd fexp pd x0)) ! i = 1
      \<and> (\<forall>xin \<in> set xs. length xin = DiehlAndCookPopulation.neurons pd)
      \<and> (\<forall>k < length xs. 0 < countdown rnd (DiehlAndCookPopulation.dt pd) k (DiehlAndCookPopulation.tau_ref pd))
      \<and> DiehlAndCookPopulation.rest pd < rnd (DiehlAndCookPopulation.v_th pd + DiehlAndCookPopulation.theta pd) \<longrightarrow>
      DiehlAndCookPopulation.v (steps (DiehlAndCookPopulation_forward_rnd rnd fexp) (fst (DiehlAndCookPopulation_forward_rnd rnd fexp pd x0)) xs) ! i = DiehlAndCookPopulation.rest pd
      \<and> DiehlAndCookPopulation.refrac (steps (DiehlAndCookPopulation_forward_rnd rnd fexp) (fst (DiehlAndCookPopulation_forward_rnd rnd fexp pd x0)) xs) ! i
          = countdown rnd (DiehlAndCookPopulation.dt pd) (length xs) (DiehlAndCookPopulation.tau_ref pd)
      \<and> (countdown rnd (DiehlAndCookPopulation.dt pd) (length xs) (DiehlAndCookPopulation.tau_ref pd) \<le> 0
           \<and> length xin = DiehlAndCookPopulation.neurons pd \<longrightarrow>
           DiehlAndCookPopulation.v (fst (DiehlAndCookPopulation_forward_rnd rnd fexp (steps (DiehlAndCookPopulation_forward_rnd rnd fexp) (fst (DiehlAndCookPopulation_forward_rnd rnd fexp pd x0)) xs) xin)) ! i
           = (if rnd (DiehlAndCookPopulation.v_th pd + DiehlAndCookPopulation.theta pd) \<le> rnd (DiehlAndCookPopulation.rest pd + rnd (xin ! i))
              then DiehlAndCookPopulation.rest pd else rnd (DiehlAndCookPopulation.rest pd + rnd (xin ! i)))))
   \<and> (HomoeostasisLIFPopulation_wf ph \<and> length x0 = HomoeostasisLIFPopulation.neurons ph \<and> i < HomoeostasisLIFPopulation.neurons ph
      \<and> rnd 0 = 0 \<and> rnd (HomoeostasisLIFPopulation.rest ph) = HomoeostasisLIFPopulation.rest ph
      \<and> HomoeostasisLIFPopulation.s (fst (HomoeostasisLIFPopulation_forward_rnd rnd fexp ph x0)) ! i = 1
      \<and> (\<forall>xin \<in> set xs. length xin = HomoeostasisLIFPopulation.neurons ph)
      \<and> (\<forall>k < length xs. 0 < countdown rnd (HomoeostasisLIFPopulation.dt ph) k (HomoeostasisLIFPopulation.tau_ref ph))
      \<and> (\<forall>k < length xs. HomoeostasisLIFPopulation.rest ph
            < rnd (HomoeostasisLIFPopulation.v_th ph + theta_idle rnd (HomoeostasisLIFPopulation_law_rnd rnd fexp ph) k (HomoeostasisLIFPopulation.theta (fst (HomoeostasisLIFPopulation_forward_rnd rnd fexp ph x0)) ! i))) \<longrightarrow>
      HomoeostasisLIFPopulation.v (steps (HomoeostasisLIFPopulation_forward_rnd rnd fexp) (fst (HomoeostasisLIFPopulation_forward_rnd rnd fexp ph x0)) xs) ! i = HomoeostasisLIFPopulation.rest ph
      \<and> HomoeostasisLIFPopulation.refrac (steps (HomoeostasisLIFPopulation_forward_rnd rnd fexp) (fst (HomoeostasisLIFPopulation_forward_rnd rnd fexp ph x0)) xs) ! i
          = countdown rnd (HomoeostasisLIFPopulation.dt ph) (length xs) (HomoeostasisLIFPopulation.tau_ref ph)
      \<and> (countdown rnd (HomoeostasisLIFPopulation.dt ph) (length xs) (HomoeostasisLIFPopulation.tau_ref ph) \<le> 0
           \<and> length xin = HomoeostasisLIFPopulation.neurons ph \<longrightarrow>
           HomoeostasisLIFPopulation.v (fst (HomoeostasisLIFPopulation_forward_rnd rnd fexp (steps (HomoeostasisLIFPopulation_forward_rnd rnd fexp) (fst (HomoeostasisLIFPopulation_forward_rnd rnd fexp ph x0)) xs) xin)) ! i
           = (if rnd (HomoeostasisLIFPopulation.v_th ph + HomoeostasisLIFPopulation.theta (steps (HomoeostasisLIFPopulation_forward_rnd rnd fexp) (fst (HomoeostasisLIFPopulation_forward_rnd rnd fexp ph x0)) xs) ! i) \<le> rnd (HomoeostasisLIFPopulation.rest ph + rnd (xin ! i))
              then HomoeostasisLIFPopulation.rest ph else rnd (HomoeostasisLIFPopulation.rest ph + rnd (xin ! i)))))
   \<and> (0 < dt0 \<and> (\<forall>k \<le> n. countdown rnd dt0 k r = r - real k * dt0) \<longrightarrow>
        ((\<forall>k < n. 0 < countdown rnd dt0 k r) \<longleftrightarrow> n \<le> nat \<lceil>r / dt0\<rceil>)
        \<and> (n = nat \<lceil>r / dt0\<rceil> \<longrightarrow> countdown rnd dt0 n r \<le> 0))"
proof -
  have e: "0 < dt0 \<and> (\<forall>k \<le> n. countdown rnd dt0 k r = r - real k * dt0) \<longrightarrow>
        ((\<forall>k < n. 0 < countdown rnd dt0 k r) \<longleftrightarrow> n \<le> nat \<lceil>r / dt0\<rceil>)
        \<and> (n = nat \<lceil>r / dt0\<rceil> \<longrightarrow> countdown rnd dt0 n r \<le> 0)"
    using countdown_exact_window [of dt0 n rnd r] by blast
  show ?thesis
    by (intro conjI)
      (rule IFPopulation_refractory_rnd,
       rule LIFPopulation2_refractory_rnd,
       rule LIFPopulation_refractory_rnd,
       rule DiehlAndCookPopulation_refractory_rnd,
       rule HomoeostasisLIFPopulation_refractory_rnd,
       rule e)
qed

theorem refractory_hold_witness:
  "IFPopulation_wf (IFPopulation_init 2 1 5 0 2 True)
   \<and> length ([20, 0] :: real list) = IFPopulation.neurons (IFPopulation_init 2 1 5 0 2 True)
   \<and> 0 < IFPopulation.neurons (IFPopulation_init 2 1 5 0 2 True)
   \<and> fl32 0 = 0
   \<and> fl32 (IFPopulation.rest (IFPopulation_init 2 1 5 0 2 True)) = IFPopulation.rest (IFPopulation_init 2 1 5 0 2 True)
   \<and> IFPopulation.s (fst (IFPopulation_forward_rnd fl32 (IFPopulation_init 2 1 5 0 2 True) ([20, 0] :: real list))) ! 0 = 1
   \<and> length ([7, 0] :: real list) = IFPopulation.neurons (IFPopulation_init 2 1 5 0 2 True)
   \<and> length ([9, 0] :: real list) = IFPopulation.neurons (IFPopulation_init 2 1 5 0 2 True)
   \<and> 0 < countdown fl32 (IFPopulation.dt (IFPopulation_init 2 1 5 0 2 True)) 0 (IFPopulation.tau_ref (IFPopulation_init 2 1 5 0 2 True))
   \<and> 0 < countdown fl32 (IFPopulation.dt (IFPopulation_init 2 1 5 0 2 True)) 1 (IFPopulation.tau_ref (IFPopulation_init 2 1 5 0 2 True))
   \<and> IFPopulation.rest (IFPopulation_init 2 1 5 0 2 True) < IFPopulation.v_th (IFPopulation_init 2 1 5 0 2 True)
   \<and> countdown fl32 (IFPopulation.dt (IFPopulation_init 2 1 5 0 2 True)) 2 (IFPopulation.tau_ref (IFPopulation_init 2 1 5 0 2 True)) \<le> 0
   \<and> length ([3, 0] :: real list) = IFPopulation.neurons (IFPopulation_init 2 1 5 0 2 True)
   \<and> IFPopulation.v (steps (IFPopulation_forward_rnd fl32) (fst (IFPopulation_forward_rnd fl32 (IFPopulation_init 2 1 5 0 2 True) ([20, 0] :: real list))) ([[7, 0], [9, 0]] :: real list list)) ! 0 = 0
   \<and> IFPopulation.refrac (steps (IFPopulation_forward_rnd fl32) (fst (IFPopulation_forward_rnd fl32 (IFPopulation_init 2 1 5 0 2 True) ([20, 0] :: real list))) ([[7, 0], [9, 0]] :: real list list)) ! 0 = 0
   \<and> IFPopulation.v (fst (IFPopulation_forward_rnd fl32 (steps (IFPopulation_forward_rnd fl32) (fst (IFPopulation_forward_rnd fl32 (IFPopulation_init 2 1 5 0 2 True) ([20, 0] :: real list))) ([[7, 0], [9, 0]] :: real list list)) ([3, 0] :: real list))) ! 0 = 3
   \<and> LIFPopulation2_wf (LIFPopulation2_init 2 1 100 (- 52) (- 65) 2)
   \<and> length ([20, 0] :: real list) = LIFPopulation2.neurons (LIFPopulation2_init 2 1 100 (- 52) (- 65) 2)
   \<and> 0 < LIFPopulation2.neurons (LIFPopulation2_init 2 1 100 (- 52) (- 65) 2)
   \<and> fl32 0 = 0
   \<and> fl32 (LIFPopulation2.rest (LIFPopulation2_init 2 1 100 (- 52) (- 65) 2)) = LIFPopulation2.rest (LIFPopulation2_init 2 1 100 (- 52) (- 65) 2)
   \<and> LIFPopulation2.s (fst (LIFPopulation2_forward_rnd fl32 exp (LIFPopulation2_init 2 1 100 (- 52) (- 65) 2) ([20, 0] :: real list))) ! 0 = 1
   \<and> length ([7, 0] :: real list) = LIFPopulation2.neurons (LIFPopulation2_init 2 1 100 (- 52) (- 65) 2)
   \<and> length ([9, 0] :: real list) = LIFPopulation2.neurons (LIFPopulation2_init 2 1 100 (- 52) (- 65) 2)
   \<and> 0 < countdown fl32 (LIFPopulation2.dt (LIFPopulation2_init 2 1 100 (- 52) (- 65) 2)) 0 (LIFPopulation2.tau_ref (LIFPopulation2_init 2 1 100 (- 52) (- 65) 2))
   \<and> 0 < countdown fl32 (LIFPopulation2.dt (LIFPopulation2_init 2 1 100 (- 52) (- 65) 2)) 1 (LIFPopulation2.tau_ref (LIFPopulation2_init 2 1 100 (- 52) (- 65) 2))
   \<and> LIFPopulation2.rest (LIFPopulation2_init 2 1 100 (- 52) (- 65) 2) < LIFPopulation2.v_th (LIFPopulation2_init 2 1 100 (- 52) (- 65) 2)
   \<and> countdown fl32 (LIFPopulation2.dt (LIFPopulation2_init 2 1 100 (- 52) (- 65) 2)) 2 (LIFPopulation2.tau_ref (LIFPopulation2_init 2 1 100 (- 52) (- 65) 2)) \<le> 0
   \<and> length ([3, 0] :: real list) = LIFPopulation2.neurons (LIFPopulation2_init 2 1 100 (- 52) (- 65) 2)
   \<and> LIFPopulation2.v (steps (LIFPopulation2_forward_rnd fl32 exp) (fst (LIFPopulation2_forward_rnd fl32 exp (LIFPopulation2_init 2 1 100 (- 52) (- 65) 2) ([20, 0] :: real list))) ([[7, 0], [9, 0]] :: real list list)) ! 0 = - 65
   \<and> LIFPopulation2.refrac (steps (LIFPopulation2_forward_rnd fl32 exp) (fst (LIFPopulation2_forward_rnd fl32 exp (LIFPopulation2_init 2 1 100 (- 52) (- 65) 2) ([20, 0] :: real list))) ([[7, 0], [9, 0]] :: real list list)) ! 0 = 0
   \<and> LIFPopulation2.v (fst (LIFPopulation2_forward_rnd fl32 exp (steps (LIFPopulation2_forward_rnd fl32 exp) (fst (LIFPopulation2_forward_rnd fl32 exp (LIFPopulation2_init 2 1 100 (- 52) (- 65) 2) ([20, 0] :: real list))) ([[7, 0], [9, 0]] :: real list list)) ([3, 0] :: real list))) ! 0 = - 62
   \<and> LIFPopulation_wf (LIFPopulation_init 2 1 100 (- 52) (1 / 4) (- 65) 2)
   \<and> length ([20, 0] :: real list) = LIFPopulation.neurons (LIFPopulation_init 2 1 100 (- 52) (1 / 4) (- 65) 2)
   \<and> 0 < LIFPopulation.neurons (LIFPopulation_init 2 1 100 (- 52) (1 / 4) (- 65) 2)
   \<and> fl32 0 = 0
   \<and> fl32 (LIFPopulation.rest (LIFPopulation_init 2 1 100 (- 52) (1 / 4) (- 65) 2)) = LIFPopulation.rest (LIFPopulation_init 2 1 100 (- 52) (1 / 4) (- 65) 2)
   \<and> LIFPopulation.s (fst (LIFPopulation_forward_rnd fl32 exp (LIFPopulation_init 2 1 100 (- 52) (1 / 4) (- 65) 2) ([20, 0] :: real list))) ! 0 = 1
   \<and> length ([7, 0] :: real list) = LIFPopulation.neurons (LIFPopulation_init 2 1 100 (- 52) (1 / 4) (- 65) 2)
   \<and> length ([9, 0] :: real list) = LIFPopulation.neurons (LIFPopulation_init 2 1 100 (- 52) (1 / 4) (- 65) 2)
   \<and> 0 < countdown fl32 (LIFPopulation.dt (LIFPopulation_init 2 1 100 (- 52) (1 / 4) (- 65) 2)) 0 (LIFPopulation.tau_ref (LIFPopulation_init 2 1 100 (- 52) (1 / 4) (- 65) 2))
   \<and> 0 < countdown fl32 (LIFPopulation.dt (LIFPopulation_init 2 1 100 (- 52) (1 / 4) (- 65) 2)) 1 (LIFPopulation.tau_ref (LIFPopulation_init 2 1 100 (- 52) (1 / 4) (- 65) 2))
   \<and> LIFPopulation.rest (LIFPopulation_init 2 1 100 (- 52) (1 / 4) (- 65) 2) < fl32 (LIFPopulation.v_th (LIFPopulation_init 2 1 100 (- 52) (1 / 4) (- 65) 2) + LIFPopulation.theta (LIFPopulation_init 2 1 100 (- 52) (1 / 4) (- 65) 2))
   \<and> countdown fl32 (LIFPopulation.dt (LIFPopulation_init 2 1 100 (- 52) (1 / 4) (- 65) 2)) 2 (LIFPopulation.tau_ref (LIFPopulation_init 2 1 100 (- 52) (1 / 4) (- 65) 2)) \<le> 0
   \<and> length ([3, 0] :: real list) = LIFPopulation.neurons (LIFPopulation_init 2 1 100 (- 52) (1 / 4) (- 65) 2)
   \<and> LIFPopulation.v (steps (LIFPopulation_forward_rnd fl32 exp) (fst (LIFPopulation_forward_rnd fl32 exp (LIFPopulation_init 2 1 100 (- 52) (1 / 4) (- 65) 2) ([20, 0] :: real list))) ([[7, 0], [9, 0]] :: real list list)) ! 0 = - 65
   \<and> LIFPopulation.refrac (steps (LIFPopulation_forward_rnd fl32 exp) (fst (LIFPopulation_forward_rnd fl32 exp (LIFPopulation_init 2 1 100 (- 52) (1 / 4) (- 65) 2) ([20, 0] :: real list))) ([[7, 0], [9, 0]] :: real list list)) ! 0 = 0
   \<and> LIFPopulation.v (fst (LIFPopulation_forward_rnd fl32 exp (steps (LIFPopulation_forward_rnd fl32 exp) (fst (LIFPopulation_forward_rnd fl32 exp (LIFPopulation_init 2 1 100 (- 52) (1 / 4) (- 65) 2) ([20, 0] :: real list))) ([[7, 0], [9, 0]] :: real list list)) ([3, 0] :: real list))) ! 0 = - 62
   \<and> DiehlAndCookPopulation_wf \<lparr>DiehlAndCookPopulation.neurons = 2, traces = True, dt = 1, v = [- 65, - 65],
        tau_rc = 100, v_th = - 52, theta = 1 / 4, s = [0, 0], rest = - 65,
        refrac = [0, 0], tau_ref = 2, x = Some [0, 0], tau_tr = Some 20, scale_tr = Some 1\<rparr>
   \<and> length ([20, 0] :: real list) = DiehlAndCookPopulation.neurons \<lparr>DiehlAndCookPopulation.neurons = 2, traces = True, dt = 1, v = [- 65, - 65],
        tau_rc = 100, v_th = - 52, theta = 1 / 4, s = [0, 0], rest = - 65,
        refrac = [0, 0], tau_ref = 2, x = Some [0, 0], tau_tr = Some 20, scale_tr = Some 1\<rparr>
   \<and> 0 < DiehlAndCookPopulation.neurons \<lparr>DiehlAndCookPopulation.neurons = 2, traces = True, dt = 1, v = [- 65, - 65],
        tau_rc = 100, v_th = - 52, theta = 1 / 4, s = [0, 0], rest = - 65,
        refrac = [0, 0], tau_ref = 2, x = Some [0, 0], tau_tr = Some 20, scale_tr = Some 1\<rparr>
   \<and> fl32 0 = 0
   \<and> fl32 (DiehlAndCookPopulation.rest \<lparr>DiehlAndCookPopulation.neurons = 2, traces = True, dt = 1, v = [- 65, - 65],
        tau_rc = 100, v_th = - 52, theta = 1 / 4, s = [0, 0], rest = - 65,
        refrac = [0, 0], tau_ref = 2, x = Some [0, 0], tau_tr = Some 20, scale_tr = Some 1\<rparr>) = DiehlAndCookPopulation.rest \<lparr>DiehlAndCookPopulation.neurons = 2, traces = True, dt = 1, v = [- 65, - 65],
        tau_rc = 100, v_th = - 52, theta = 1 / 4, s = [0, 0], rest = - 65,
        refrac = [0, 0], tau_ref = 2, x = Some [0, 0], tau_tr = Some 20, scale_tr = Some 1\<rparr>
   \<and> DiehlAndCookPopulation.s (fst (DiehlAndCookPopulation_forward_rnd fl32 exp \<lparr>DiehlAndCookPopulation.neurons = 2, traces = True, dt = 1, v = [- 65, - 65],
        tau_rc = 100, v_th = - 52, theta = 1 / 4, s = [0, 0], rest = - 65,
        refrac = [0, 0], tau_ref = 2, x = Some [0, 0], tau_tr = Some 20, scale_tr = Some 1\<rparr> ([20, 0] :: real list))) ! 0 = 1
   \<and> length ([7, 0] :: real list) = DiehlAndCookPopulation.neurons \<lparr>DiehlAndCookPopulation.neurons = 2, traces = True, dt = 1, v = [- 65, - 65],
        tau_rc = 100, v_th = - 52, theta = 1 / 4, s = [0, 0], rest = - 65,
        refrac = [0, 0], tau_ref = 2, x = Some [0, 0], tau_tr = Some 20, scale_tr = Some 1\<rparr>
   \<and> length ([9, 0] :: real list) = DiehlAndCookPopulation.neurons \<lparr>DiehlAndCookPopulation.neurons = 2, traces = True, dt = 1, v = [- 65, - 65],
        tau_rc = 100, v_th = - 52, theta = 1 / 4, s = [0, 0], rest = - 65,
        refrac = [0, 0], tau_ref = 2, x = Some [0, 0], tau_tr = Some 20, scale_tr = Some 1\<rparr>
   \<and> 0 < countdown fl32 (DiehlAndCookPopulation.dt \<lparr>DiehlAndCookPopulation.neurons = 2, traces = True, dt = 1, v = [- 65, - 65],
        tau_rc = 100, v_th = - 52, theta = 1 / 4, s = [0, 0], rest = - 65,
        refrac = [0, 0], tau_ref = 2, x = Some [0, 0], tau_tr = Some 20, scale_tr = Some 1\<rparr>) 0 (DiehlAndCookPopulation.tau_ref \<lparr>DiehlAndCookPopulation.neurons = 2, traces = True, dt = 1, v = [- 65, - 65],
        tau_rc = 100, v_th = - 52, theta = 1 / 4, s = [0, 0], rest = - 65,
        refrac = [0, 0], tau_ref = 2, x = Some [0, 0], tau_tr = Some 20, scale_tr = Some 1\<rparr>)
   \<and> 0 < countdown fl32 (DiehlAndCookPopulation.dt \<lparr>DiehlAndCookPopulation.neurons = 2, traces = True, dt = 1, v = [- 65, - 65],
        tau_rc = 100, v_th = - 52, theta = 1 / 4, s = [0, 0], rest = - 65,
        refrac = [0, 0], tau_ref = 2, x = Some [0, 0], tau_tr = Some 20, scale_tr = Some 1\<rparr>) 1 (DiehlAndCookPopulation.tau_ref \<lparr>DiehlAndCookPopulation.neurons = 2, traces = True, dt = 1, v = [- 65, - 65],
        tau_rc = 100, v_th = - 52, theta = 1 / 4, s = [0, 0], rest = - 65,
        refrac = [0, 0], tau_ref = 2, x = Some [0, 0], tau_tr = Some 20, scale_tr = Some 1\<rparr>)
   \<and> DiehlAndCookPopulation.rest \<lparr>DiehlAndCookPopulation.neurons = 2, traces = True, dt = 1, v = [- 65, - 65],
        tau_rc = 100, v_th = - 52, theta = 1 / 4, s = [0, 0], rest = - 65,
        refrac = [0, 0], tau_ref = 2, x = Some [0, 0], tau_tr = Some 20, scale_tr = Some 1\<rparr> < fl32 (DiehlAndCookPopulation.v_th \<lparr>DiehlAndCookPopulation.neurons = 2, traces = True, dt = 1, v = [- 65, - 65],
        tau_rc = 100, v_th = - 52, theta = 1 / 4, s = [0, 0], rest = - 65,
        refrac = [0, 0], tau_ref = 2, x = Some [0, 0], tau_tr = Some 20, scale_tr = Some 1\<rparr> + DiehlAndCookPopulation.theta \<lparr>DiehlAndCookPopulation.neurons = 2, traces = True, dt = 1, v = [- 65, - 65],
        tau_rc = 100, v_th = - 52, theta = 1 / 4, s = [0, 0], rest = - 65,
        refrac = [0, 0], tau_ref = 2, x = Some [0, 0], tau_tr = Some 20, scale_tr = Some 1\<rparr>)
   \<and> countdown fl32 (DiehlAndCookPopulation.dt \<lparr>DiehlAndCookPopulation.neurons = 2, traces = True, dt = 1, v = [- 65, - 65],
        tau_rc = 100, v_th = - 52, theta = 1 / 4, s = [0, 0], rest = - 65,
        refrac = [0, 0], tau_ref = 2, x = Some [0, 0], tau_tr = Some 20, scale_tr = Some 1\<rparr>) 2 (DiehlAndCookPopulation.tau_ref \<lparr>DiehlAndCookPopulation.neurons = 2, traces = True, dt = 1, v = [- 65, - 65],
        tau_rc = 100, v_th = - 52, theta = 1 / 4, s = [0, 0], rest = - 65,
        refrac = [0, 0], tau_ref = 2, x = Some [0, 0], tau_tr = Some 20, scale_tr = Some 1\<rparr>) \<le> 0
   \<and> length ([3, 0] :: real list) = DiehlAndCookPopulation.neurons \<lparr>DiehlAndCookPopulation.neurons = 2, traces = True, dt = 1, v = [- 65, - 65],
        tau_rc = 100, v_th = - 52, theta = 1 / 4, s = [0, 0], rest = - 65,
        refrac = [0, 0], tau_ref = 2, x = Some [0, 0], tau_tr = Some 20, scale_tr = Some 1\<rparr>
   \<and> DiehlAndCookPopulation.v (steps (DiehlAndCookPopulation_forward_rnd fl32 exp) (fst (DiehlAndCookPopulation_forward_rnd fl32 exp \<lparr>DiehlAndCookPopulation.neurons = 2, traces = True, dt = 1, v = [- 65, - 65],
        tau_rc = 100, v_th = - 52, theta = 1 / 4, s = [0, 0], rest = - 65,
        refrac = [0, 0], tau_ref = 2, x = Some [0, 0], tau_tr = Some 20, scale_tr = Some 1\<rparr> ([20, 0] :: real list))) ([[7, 0], [9, 0]] :: real list list)) ! 0 = - 65
   \<and> DiehlAndCookPopulation.refrac (steps (DiehlAndCookPopulation_forward_rnd fl32 exp) (fst (DiehlAndCookPopulation_forward_rnd fl32 exp \<lparr>DiehlAndCookPopulation.neurons = 2, traces = True, dt = 1, v = [- 65, - 65],
        tau_rc = 100, v_th = - 52, theta = 1 / 4, s = [0, 0], rest = - 65,
        refrac = [0, 0], tau_ref = 2, x = Some [0, 0], tau_tr = Some 20, scale_tr = Some 1\<rparr> ([20, 0] :: real list))) ([[7, 0], [9, 0]] :: real list list)) ! 0 = 0
   \<and> DiehlAndCookPopulation.v (fst (DiehlAndCookPopulation_forward_rnd fl32 exp (steps (DiehlAndCookPopulation_forward_rnd fl32 exp) (fst (DiehlAndCookPopulation_forward_rnd fl32 exp \<lparr>DiehlAndCookPopulation.neurons = 2, traces = True, dt = 1, v = [- 65, - 65],
        tau_rc = 100, v_th = - 52, theta = 1 / 4, s = [0, 0], rest = - 65,
        refrac = [0, 0], tau_ref = 2, x = Some [0, 0], tau_tr = Some 20, scale_tr = Some 1\<rparr> ([20, 0] :: real list))) ([[7, 0], [9, 0]] :: real list list)) ([3, 0] :: real list))) ! 0 = - 62
   \<and> HomoeostasisLIFPopulation_wf (HomoeostasisLIFPopulation_init 2 1 100 (- 52) (1 / 4) 10000000 (- 65) 2 True True)
   \<and> length ([20, 0] :: real list) = HomoeostasisLIFPopulation.neurons (HomoeostasisLIFPopulation_init 2 1 100 (- 52) (1 / 4) 10000000 (- 65) 2 True True)
   \<and> 0 < HomoeostasisLIFPopulation.neurons (HomoeostasisLIFPopulation_init 2 1 100 (- 52) (1 / 4) 10000000 (- 65) 2 True True)
   \<and> fl32 0 = 0
   \<and> fl32 (HomoeostasisLIFPopulation.rest (HomoeostasisLIFPopulation_init 2 1 100 (- 52) (1 / 4) 10000000 (- 65) 2 True True)) = HomoeostasisLIFPopulation.rest (HomoeostasisLIFPopulation_init 2 1 100 (- 52) (1 / 4) 10000000 (- 65) 2 True True)
   \<and> HomoeostasisLIFPopulation.s (fst (HomoeostasisLIFPopulation_forward_rnd fl32 exp (HomoeostasisLIFPopulation_init 2 1 100 (- 52) (1 / 4) 10000000 (- 65) 2 True True) ([20, 0] :: real list))) ! 0 = 1
   \<and> length ([7, 0] :: real list) = HomoeostasisLIFPopulation.neurons (HomoeostasisLIFPopulation_init 2 1 100 (- 52) (1 / 4) 10000000 (- 65) 2 True True)
   \<and> length ([9, 0] :: real list) = HomoeostasisLIFPopulation.neurons (HomoeostasisLIFPopulation_init 2 1 100 (- 52) (1 / 4) 10000000 (- 65) 2 True True)
   \<and> 0 < countdown fl32 (HomoeostasisLIFPopulation.dt (HomoeostasisLIFPopulation_init 2 1 100 (- 52) (1 / 4) 10000000 (- 65) 2 True True)) 0 (HomoeostasisLIFPopulation.tau_ref (HomoeostasisLIFPopulation_init 2 1 100 (- 52) (1 / 4) 10000000 (- 65) 2 True True))
   \<and> 0 < countdown fl32 (HomoeostasisLIFPopulation.dt (HomoeostasisLIFPopulation_init 2 1 100 (- 52) (1 / 4) 10000000 (- 65) 2 True True)) 1 (HomoeostasisLIFPopulation.tau_ref (HomoeostasisLIFPopulation_init 2 1 100 (- 52) (1 / 4) 10000000 (- 65) 2 True True))
   \<and> HomoeostasisLIFPopulation.rest (HomoeostasisLIFPopulation_init 2 1 100 (- 52) (1 / 4) 10000000 (- 65) 2 True True) < fl32 (HomoeostasisLIFPopulation.v_th (HomoeostasisLIFPopulation_init 2 1 100 (- 52) (1 / 4) 10000000 (- 65) 2 True True) + theta_idle fl32 (HomoeostasisLIFPopulation_law_rnd fl32 exp (HomoeostasisLIFPopulation_init 2 1 100 (- 52) (1 / 4) 10000000 (- 65) 2 True True)) 0 (HomoeostasisLIFPopulation.theta (fst (HomoeostasisLIFPopulation_forward_rnd fl32 exp (HomoeostasisLIFPopulation_init 2 1 100 (- 52) (1 / 4) 10000000 (- 65) 2 True True) ([20, 0] :: real list))) ! 0))
   \<and> HomoeostasisLIFPopulation.rest (HomoeostasisLIFPopulation_init 2 1 100 (- 52) (1 / 4) 10000000 (- 65) 2 True True) < fl32 (HomoeostasisLIFPopulation.v_th (HomoeostasisLIFPopulation_init 2 1 100 (- 52) (1 / 4) 10000000 (- 65) 2 True True) + theta_idle fl32 (HomoeostasisLIFPopulation_law_rnd fl32 exp (HomoeostasisLIFPopulation_init 2 1 100 (- 52) (1 / 4) 10000000 (- 65) 2 True True)) 1 (HomoeostasisLIFPopulation.theta (fst (HomoeostasisLIFPopulation_forward_rnd fl32 exp (HomoeostasisLIFPopulation_init 2 1 100 (- 52) (1 / 4) 10000000 (- 65) 2 True True) ([20, 0] :: real list))) ! 0))
   \<and> countdown fl32 (HomoeostasisLIFPopulation.dt (HomoeostasisLIFPopulation_init 2 1 100 (- 52) (1 / 4) 10000000 (- 65) 2 True True)) 2 (HomoeostasisLIFPopulation.tau_ref (HomoeostasisLIFPopulation_init 2 1 100 (- 52) (1 / 4) 10000000 (- 65) 2 True True)) \<le> 0
   \<and> length ([3, 0] :: real list) = HomoeostasisLIFPopulation.neurons (HomoeostasisLIFPopulation_init 2 1 100 (- 52) (1 / 4) 10000000 (- 65) 2 True True)
   \<and> HomoeostasisLIFPopulation.v (steps (HomoeostasisLIFPopulation_forward_rnd fl32 exp) (fst (HomoeostasisLIFPopulation_forward_rnd fl32 exp (HomoeostasisLIFPopulation_init 2 1 100 (- 52) (1 / 4) 10000000 (- 65) 2 True True) ([20, 0] :: real list))) ([[7, 0], [9, 0]] :: real list list)) ! 0 = - 65
   \<and> HomoeostasisLIFPopulation.refrac (steps (HomoeostasisLIFPopulation_forward_rnd fl32 exp) (fst (HomoeostasisLIFPopulation_forward_rnd fl32 exp (HomoeostasisLIFPopulation_init 2 1 100 (- 52) (1 / 4) 10000000 (- 65) 2 True True) ([20, 0] :: real list))) ([[7, 0], [9, 0]] :: real list list)) ! 0 = 0
   \<and> HomoeostasisLIFPopulation.v (fst (HomoeostasisLIFPopulation_forward_rnd fl32 exp (steps (HomoeostasisLIFPopulation_forward_rnd fl32 exp) (fst (HomoeostasisLIFPopulation_forward_rnd fl32 exp (HomoeostasisLIFPopulation_init 2 1 100 (- 52) (1 / 4) 10000000 (- 65) 2 True True) ([20, 0] :: real list))) ([[7, 0], [9, 0]] :: real list list)) ([3, 0] :: real list))) ! 0 = - 62
   \<and> 0 < (1 :: real)
   \<and> countdown fl32 1 0 2 = 2
   \<and> countdown fl32 1 1 2 = 1
   \<and> countdown fl32 1 2 2 = 0
   \<and> (2 :: nat) \<le> nat \<lceil>(2 :: real) / 1\<rceil>
   \<and> 0 < countdown fl32 1 0 2
   \<and> 0 < countdown fl32 1 1 2
   \<and> countdown fl32 1 2 2 \<le> 0"
proof -
  let ?pf = "(IFPopulation_init 2 1 5 0 2 True)"
  let ?p2 = "(LIFPopulation2_init 2 1 100 (- 52) (- 65) 2)"
  let ?pl = "(LIFPopulation_init 2 1 100 (- 52) (1 / 4) (- 65) 2)"
  let ?pd = "\<lparr>DiehlAndCookPopulation.neurons = 2, traces = True, dt = 1, v = [- 65, - 65],
        tau_rc = 100, v_th = - 52, theta = 1 / 4, s = [0, 0], rest = - 65,
        refrac = [0, 0], tau_ref = 2, x = Some [0, 0], tau_tr = Some 20, scale_tr = Some 1\<rparr>"
  let ?ph = "(HomoeostasisLIFPopulation_init 2 1 100 (- 52) (1 / 4) 10000000 (- 65) 2 True True)"
  note T = refractory_hold [where pf = ?pf and ?p2.0 = ?p2 and pl = ?pl and pd = ?pd and ph = ?ph
      and ?x0.0 = "[20, 0]" and i = 0 and xs = "[[7, 0], [9, 0]]" and xin = "[3, 0]"
      and rnd = fl32 and fexp = exp and ?dt0.0 = 1 and n = 2 and r = 2]
  have h0: "IFPopulation_wf ?pf" "length ([20, 0] :: real list) = IFPopulation.neurons ?pf" "0 < IFPopulation.neurons ?pf" "fl32 0 = 0" "fl32 (IFPopulation.rest ?pf) = IFPopulation.rest ?pf" "IFPopulation.s (fst (IFPopulation_forward_rnd fl32 ?pf ([20, 0] :: real list))) ! 0 = 1" "(\<forall>xin \<in> set ([[7, 0], [9, 0]] :: real list list). length xin = IFPopulation.neurons ?pf)" "(\<forall>k < length ([[7, 0], [9, 0]] :: real list list). 0 < countdown fl32 (IFPopulation.dt ?pf) k (IFPopulation.tau_ref ?pf))" "IFPopulation.rest ?pf < IFPopulation.v_th ?pf"
    by (simp_all add: IFPopulation_wf_def IFPopulation_forward_rnd_def IFPopulation_init_def add_input_rnd_def tensor_mul_def tensor_iadd_def le_zero_def masked_fill_def Let_def numeral_2_eq_2 All_less_Suc fl32_zero fl32_one fl32_hold_values  IFPopulation_law_rnd_def adapt_rnd_def)
  have x0: "IFPopulation_wf ?pf" "length ([20, 0] :: real list) = IFPopulation.neurons ?pf" "0 < IFPopulation.neurons ?pf" "fl32 0 = 0" "fl32 (IFPopulation.rest ?pf) = IFPopulation.rest ?pf" "IFPopulation.s (fst (IFPopulation_forward_rnd fl32 ?pf ([20, 0] :: real list))) ! 0 = 1" "length ([7, 0] :: real list) = IFPopulation.neurons ?pf" "length ([9, 0] :: real list) = IFPopulation.neurons ?pf" "0 < countdown fl32 (IFPopulation.dt ?pf) 0 (IFPopulation.tau_ref ?pf)" "0 < countdown fl32 (IFPopulation.dt ?pf) 1 (IFPopulation.tau_ref ?pf)" "IFPopulation.rest ?pf < IFPopulation.v_th ?pf"
    by (simp_all add: IFPopulation_wf_def IFPopulation_forward_rnd_def IFPopulation_init_def add_input_rnd_def tensor_mul_def tensor_iadd_def le_zero_def masked_fill_def Let_def numeral_2_eq_2 All_less_Suc fl32_zero fl32_one fl32_hold_values  IFPopulation_law_rnd_def adapt_rnd_def)
  have g0: "countdown fl32 (IFPopulation.dt ?pf) 2 (IFPopulation.tau_ref ?pf) \<le> 0" "length ([3, 0] :: real list) = IFPopulation.neurons ?pf"
    by (simp_all add: IFPopulation_wf_def IFPopulation_forward_rnd_def IFPopulation_init_def add_input_rnd_def tensor_mul_def tensor_iadd_def le_zero_def masked_fill_def Let_def numeral_2_eq_2 All_less_Suc fl32_zero fl32_one fl32_hold_values  IFPopulation_law_rnd_def adapt_rnd_def)
  have c0: "IFPopulation.v (steps (IFPopulation_forward_rnd fl32) (fst (IFPopulation_forward_rnd fl32 ?pf ([20, 0] :: real list))) ([[7, 0], [9, 0]] :: real list list)) ! 0 = IFPopulation.rest ?pf
      \<and> IFPopulation.refrac (steps (IFPopulation_forward_rnd fl32) (fst (IFPopulation_forward_rnd fl32 ?pf ([20, 0] :: real list))) ([[7, 0], [9, 0]] :: real list list)) ! 0
          = countdown fl32 (IFPopulation.dt ?pf) (length ([[7, 0], [9, 0]] :: real list list)) (IFPopulation.tau_ref ?pf)
      \<and> (countdown fl32 (IFPopulation.dt ?pf) (length ([[7, 0], [9, 0]] :: real list list)) (IFPopulation.tau_ref ?pf) \<le> 0
           \<and> length ([3, 0] :: real list) = IFPopulation.neurons ?pf \<longrightarrow>
           IFPopulation.v (fst (IFPopulation_forward_rnd fl32 (steps (IFPopulation_forward_rnd fl32) (fst (IFPopulation_forward_rnd fl32 ?pf ([20, 0] :: real list))) ([[7, 0], [9, 0]] :: real list list)) ([3, 0] :: real list))) ! 0
           = (if IFPopulation.v_th ?pf \<le> fl32 (IFPopulation.rest ?pf + fl32 (([3, 0] :: real list) ! 0))
              then IFPopulation.rest ?pf else fl32 (IFPopulation.rest ?pf + fl32 (([3, 0] :: real list) ! 0))))"
    by (rule T [THEN conjunct1, THEN mp]) (intro conjI h0)
  have e0: "IFPopulation.v (steps (IFPopulation_forward_rnd fl32) (fst (IFPopulation_forward_rnd fl32 ?pf ([20, 0] :: real list))) ([[7, 0], [9, 0]] :: real list list)) ! 0 = 0" "IFPopulation.refrac (steps (IFPopulation_forward_rnd fl32) (fst (IFPopulation_forward_rnd fl32 ?pf ([20, 0] :: real list))) ([[7, 0], [9, 0]] :: real list list)) ! 0 = 0" "IFPopulation.v (fst (IFPopulation_forward_rnd fl32 (steps (IFPopulation_forward_rnd fl32) (fst (IFPopulation_forward_rnd fl32 ?pf ([20, 0] :: real list))) ([[7, 0], [9, 0]] :: real list list)) ([3, 0] :: real list))) ! 0 = 3"
    using c0 g0 by (simp_all add: IFPopulation_wf_def IFPopulation_forward_rnd_def IFPopulation_init_def add_input_rnd_def tensor_mul_def tensor_iadd_def le_zero_def masked_fill_def Let_def numeral_2_eq_2 All_less_Suc fl32_zero fl32_one fl32_hold_values  IFPopulation_law_rnd_def adapt_rnd_def)
  have h1: "LIFPopulation2_wf ?p2" "length ([20, 0] :: real list) = LIFPopulation2.neurons ?p2" "0 < LIFPopulation2.neurons ?p2" "fl32 0 = 0" "fl32 (LIFPopulation2.rest ?p2) = LIFPopulation2.rest ?p2" "LIFPopulation2.s (fst (LIFPopulation2_forward_rnd fl32 exp ?p2 ([20, 0] :: real list))) ! 0 = 1" "(\<forall>xin \<in> set ([[7, 0], [9, 0]] :: real list list). length xin = LIFPopulation2.neurons ?p2)" "(\<forall>k < length ([[7, 0], [9, 0]] :: real list list). 0 < countdown fl32 (LIFPopulation2.dt ?p2) k (LIFPopulation2.tau_ref ?p2))" "LIFPopulation2.rest ?p2 < LIFPopulation2.v_th ?p2"
    by (simp_all add: LIFPopulation2_wf_def LIFPopulation2_forward_rnd_def LIFPopulation2_init_def add_input_rnd_def tensor_mul_def tensor_iadd_def le_zero_def masked_fill_def Let_def numeral_2_eq_2 All_less_Suc fl32_zero fl32_one fl32_hold_values gt_zero_def LIFPopulation2_law_rnd_def adapt_rnd_def)
  have x1: "LIFPopulation2_wf ?p2" "length ([20, 0] :: real list) = LIFPopulation2.neurons ?p2" "0 < LIFPopulation2.neurons ?p2" "fl32 0 = 0" "fl32 (LIFPopulation2.rest ?p2) = LIFPopulation2.rest ?p2" "LIFPopulation2.s (fst (LIFPopulation2_forward_rnd fl32 exp ?p2 ([20, 0] :: real list))) ! 0 = 1" "length ([7, 0] :: real list) = LIFPopulation2.neurons ?p2" "length ([9, 0] :: real list) = LIFPopulation2.neurons ?p2" "0 < countdown fl32 (LIFPopulation2.dt ?p2) 0 (LIFPopulation2.tau_ref ?p2)" "0 < countdown fl32 (LIFPopulation2.dt ?p2) 1 (LIFPopulation2.tau_ref ?p2)" "LIFPopulation2.rest ?p2 < LIFPopulation2.v_th ?p2"
    by (simp_all add: LIFPopulation2_wf_def LIFPopulation2_forward_rnd_def LIFPopulation2_init_def add_input_rnd_def tensor_mul_def tensor_iadd_def le_zero_def masked_fill_def Let_def numeral_2_eq_2 All_less_Suc fl32_zero fl32_one fl32_hold_values gt_zero_def LIFPopulation2_law_rnd_def adapt_rnd_def)
  have g1: "countdown fl32 (LIFPopulation2.dt ?p2) 2 (LIFPopulation2.tau_ref ?p2) \<le> 0" "length ([3, 0] :: real list) = LIFPopulation2.neurons ?p2"
    by (simp_all add: LIFPopulation2_wf_def LIFPopulation2_forward_rnd_def LIFPopulation2_init_def add_input_rnd_def tensor_mul_def tensor_iadd_def le_zero_def masked_fill_def Let_def numeral_2_eq_2 All_less_Suc fl32_zero fl32_one fl32_hold_values gt_zero_def LIFPopulation2_law_rnd_def adapt_rnd_def)
  have c1: "LIFPopulation2.v (steps (LIFPopulation2_forward_rnd fl32 exp) (fst (LIFPopulation2_forward_rnd fl32 exp ?p2 ([20, 0] :: real list))) ([[7, 0], [9, 0]] :: real list list)) ! 0 = LIFPopulation2.rest ?p2
      \<and> LIFPopulation2.refrac (steps (LIFPopulation2_forward_rnd fl32 exp) (fst (LIFPopulation2_forward_rnd fl32 exp ?p2 ([20, 0] :: real list))) ([[7, 0], [9, 0]] :: real list list)) ! 0
          = countdown fl32 (LIFPopulation2.dt ?p2) (length ([[7, 0], [9, 0]] :: real list list)) (LIFPopulation2.tau_ref ?p2)
      \<and> (countdown fl32 (LIFPopulation2.dt ?p2) (length ([[7, 0], [9, 0]] :: real list list)) (LIFPopulation2.tau_ref ?p2) \<le> 0
           \<and> length ([3, 0] :: real list) = LIFPopulation2.neurons ?p2 \<longrightarrow>
           LIFPopulation2.v (fst (LIFPopulation2_forward_rnd fl32 exp (steps (LIFPopulation2_forward_rnd fl32 exp) (fst (LIFPopulation2_forward_rnd fl32 exp ?p2 ([20, 0] :: real list))) ([[7, 0], [9, 0]] :: real list list)) ([3, 0] :: real list))) ! 0
           = (if LIFPopulation2.v_th ?p2 \<le> fl32 (LIFPopulation2.rest ?p2 + fl32 (([3, 0] :: real list) ! 0))
              then LIFPopulation2.rest ?p2 else fl32 (LIFPopulation2.rest ?p2 + fl32 (([3, 0] :: real list) ! 0))))"
    by (rule T [THEN conjunct2, THEN conjunct1, THEN mp]) (intro conjI h1)
  have e1: "LIFPopulation2.v (steps (LIFPopulation2_forward_rnd fl32 exp) (fst (LIFPopulation2_forward_rnd fl32 exp ?p2 ([20, 0] :: real list))) ([[7, 0], [9, 0]] :: real list list)) ! 0 = - 65" "LIFPopulation2.refrac (steps (LIFPopulation2_forward_rnd fl32 exp) (fst (LIFPopulation2_forward_rnd fl32 exp ?p2 ([20, 0] :: real list))) ([[7, 0], [9, 0]] :: real list list)) ! 0 = 0" "LIFPopulation2.v (fst (LIFPopulation2_forward_rnd fl32 exp (steps (LIFPopulation2_forward_rnd fl32 exp) (fst (LIFPopulation2_forward_rnd fl32 exp ?p2 ([20, 0] :: real list))) ([[7, 0], [9, 0]] :: real list list)) ([3, 0] :: real list))) ! 0 = - 62"
    using c1 g1 by (simp_all add: LIFPopulation2_wf_def LIFPopulation2_forward_rnd_def LIFPopulation2_init_def add_input_rnd_def tensor_mul_def tensor_iadd_def le_zero_def masked_fill_def Let_def numeral_2_eq_2 All_less_Suc fl32_zero fl32_one fl32_hold_values gt_zero_def LIFPopulation2_law_rnd_def adapt_rnd_def)
  have h2: "LIFPopulation_wf ?pl" "length ([20, 0] :: real list) = LIFPopulation.neurons ?pl" "0 < LIFPopulation.neurons ?pl" "fl32 0 = 0" "fl32 (LIFPopulation.rest ?pl) = LIFPopulation.rest ?pl" "LIFPopulation.s (fst (LIFPopulation_forward_rnd fl32 exp ?pl ([20, 0] :: real list))) ! 0 = 1" "(\<forall>xin \<in> set ([[7, 0], [9, 0]] :: real list list). length xin = LIFPopulation.neurons ?pl)" "(\<forall>k < length ([[7, 0], [9, 0]] :: real list list). 0 < countdown fl32 (LIFPopulation.dt ?pl) k (LIFPopulation.tau_ref ?pl))" "LIFPopulation.rest ?pl < fl32 (LIFPopulation.v_th ?pl + LIFPopulation.theta ?pl)"
    by (simp_all add: LIFPopulation_wf_def LIFPopulation_forward_rnd_def LIFPopulation_init_def add_input_rnd_def tensor_mul_def tensor_iadd_def le_zero_def masked_fill_def Let_def numeral_2_eq_2 All_less_Suc fl32_zero fl32_one fl32_hold_values  LIFPopulation_law_rnd_def adapt_rnd_def)
  have x2: "LIFPopulation_wf ?pl" "length ([20, 0] :: real list) = LIFPopulation.neurons ?pl" "0 < LIFPopulation.neurons ?pl" "fl32 0 = 0" "fl32 (LIFPopulation.rest ?pl) = LIFPopulation.rest ?pl" "LIFPopulation.s (fst (LIFPopulation_forward_rnd fl32 exp ?pl ([20, 0] :: real list))) ! 0 = 1" "length ([7, 0] :: real list) = LIFPopulation.neurons ?pl" "length ([9, 0] :: real list) = LIFPopulation.neurons ?pl" "0 < countdown fl32 (LIFPopulation.dt ?pl) 0 (LIFPopulation.tau_ref ?pl)" "0 < countdown fl32 (LIFPopulation.dt ?pl) 1 (LIFPopulation.tau_ref ?pl)" "LIFPopulation.rest ?pl < fl32 (LIFPopulation.v_th ?pl + LIFPopulation.theta ?pl)"
    by (simp_all add: LIFPopulation_wf_def LIFPopulation_forward_rnd_def LIFPopulation_init_def add_input_rnd_def tensor_mul_def tensor_iadd_def le_zero_def masked_fill_def Let_def numeral_2_eq_2 All_less_Suc fl32_zero fl32_one fl32_hold_values  LIFPopulation_law_rnd_def adapt_rnd_def)
  have g2: "countdown fl32 (LIFPopulation.dt ?pl) 2 (LIFPopulation.tau_ref ?pl) \<le> 0" "length ([3, 0] :: real list) = LIFPopulation.neurons ?pl"
    by (simp_all add: LIFPopulation_wf_def LIFPopulation_forward_rnd_def LIFPopulation_init_def add_input_rnd_def tensor_mul_def tensor_iadd_def le_zero_def masked_fill_def Let_def numeral_2_eq_2 All_less_Suc fl32_zero fl32_one fl32_hold_values  LIFPopulation_law_rnd_def adapt_rnd_def)
  have c2: "LIFPopulation.v (steps (LIFPopulation_forward_rnd fl32 exp) (fst (LIFPopulation_forward_rnd fl32 exp ?pl ([20, 0] :: real list))) ([[7, 0], [9, 0]] :: real list list)) ! 0 = LIFPopulation.rest ?pl
      \<and> LIFPopulation.refrac (steps (LIFPopulation_forward_rnd fl32 exp) (fst (LIFPopulation_forward_rnd fl32 exp ?pl ([20, 0] :: real list))) ([[7, 0], [9, 0]] :: real list list)) ! 0
          = countdown fl32 (LIFPopulation.dt ?pl) (length ([[7, 0], [9, 0]] :: real list list)) (LIFPopulation.tau_ref ?pl)
      \<and> (countdown fl32 (LIFPopulation.dt ?pl) (length ([[7, 0], [9, 0]] :: real list list)) (LIFPopulation.tau_ref ?pl) \<le> 0
           \<and> length ([3, 0] :: real list) = LIFPopulation.neurons ?pl \<longrightarrow>
           LIFPopulation.v (fst (LIFPopulation_forward_rnd fl32 exp (steps (LIFPopulation_forward_rnd fl32 exp) (fst (LIFPopulation_forward_rnd fl32 exp ?pl ([20, 0] :: real list))) ([[7, 0], [9, 0]] :: real list list)) ([3, 0] :: real list))) ! 0
           = (if fl32 (LIFPopulation.v_th ?pl + LIFPopulation.theta ?pl) \<le> fl32 (LIFPopulation.rest ?pl + fl32 (([3, 0] :: real list) ! 0))
              then LIFPopulation.rest ?pl else fl32 (LIFPopulation.rest ?pl + fl32 (([3, 0] :: real list) ! 0))))"
    by (rule T [THEN conjunct2, THEN conjunct2, THEN conjunct1, THEN mp]) (intro conjI h2)
  have e2: "LIFPopulation.v (steps (LIFPopulation_forward_rnd fl32 exp) (fst (LIFPopulation_forward_rnd fl32 exp ?pl ([20, 0] :: real list))) ([[7, 0], [9, 0]] :: real list list)) ! 0 = - 65" "LIFPopulation.refrac (steps (LIFPopulation_forward_rnd fl32 exp) (fst (LIFPopulation_forward_rnd fl32 exp ?pl ([20, 0] :: real list))) ([[7, 0], [9, 0]] :: real list list)) ! 0 = 0" "LIFPopulation.v (fst (LIFPopulation_forward_rnd fl32 exp (steps (LIFPopulation_forward_rnd fl32 exp) (fst (LIFPopulation_forward_rnd fl32 exp ?pl ([20, 0] :: real list))) ([[7, 0], [9, 0]] :: real list list)) ([3, 0] :: real list))) ! 0 = - 62"
    using c2 g2 by (simp_all add: LIFPopulation_wf_def LIFPopulation_forward_rnd_def LIFPopulation_init_def add_input_rnd_def tensor_mul_def tensor_iadd_def le_zero_def masked_fill_def Let_def numeral_2_eq_2 All_less_Suc fl32_zero fl32_one fl32_hold_values  LIFPopulation_law_rnd_def adapt_rnd_def)
  have h3: "DiehlAndCookPopulation_wf ?pd" "length ([20, 0] :: real list) = DiehlAndCookPopulation.neurons ?pd" "0 < DiehlAndCookPopulation.neurons ?pd" "fl32 0 = 0" "fl32 (DiehlAndCookPopulation.rest ?pd) = DiehlAndCookPopulation.rest ?pd" "DiehlAndCookPopulation.s (fst (DiehlAndCookPopulation_forward_rnd fl32 exp ?pd ([20, 0] :: real list))) ! 0 = 1" "(\<forall>xin \<in> set ([[7, 0], [9, 0]] :: real list list). length xin = DiehlAndCookPopulation.neurons ?pd)" "(\<forall>k < length ([[7, 0], [9, 0]] :: real list list). 0 < countdown fl32 (DiehlAndCookPopulation.dt ?pd) k (DiehlAndCookPopulation.tau_ref ?pd))" "DiehlAndCookPopulation.rest ?pd < fl32 (DiehlAndCookPopulation.v_th ?pd + DiehlAndCookPopulation.theta ?pd)"
    by (simp_all add: DiehlAndCookPopulation_wf_def DiehlAndCookPopulation_forward_rnd_def  add_input_rnd_def tensor_mul_def tensor_iadd_def le_zero_def masked_fill_def Let_def numeral_2_eq_2 All_less_Suc fl32_zero fl32_one fl32_hold_values DiehlAndCookPopulation_trace_rnd_def DiehlAndCookPopulation_law_rnd_def adapt_rnd_def DiehlAndCookPopulation_trace_rnd_def)
  have x3: "DiehlAndCookPopulation_wf ?pd" "length ([20, 0] :: real list) = DiehlAndCookPopulation.neurons ?pd" "0 < DiehlAndCookPopulation.neurons ?pd" "fl32 0 = 0" "fl32 (DiehlAndCookPopulation.rest ?pd) = DiehlAndCookPopulation.rest ?pd" "DiehlAndCookPopulation.s (fst (DiehlAndCookPopulation_forward_rnd fl32 exp ?pd ([20, 0] :: real list))) ! 0 = 1" "length ([7, 0] :: real list) = DiehlAndCookPopulation.neurons ?pd" "length ([9, 0] :: real list) = DiehlAndCookPopulation.neurons ?pd" "0 < countdown fl32 (DiehlAndCookPopulation.dt ?pd) 0 (DiehlAndCookPopulation.tau_ref ?pd)" "0 < countdown fl32 (DiehlAndCookPopulation.dt ?pd) 1 (DiehlAndCookPopulation.tau_ref ?pd)" "DiehlAndCookPopulation.rest ?pd < fl32 (DiehlAndCookPopulation.v_th ?pd + DiehlAndCookPopulation.theta ?pd)"
    by (simp_all add: DiehlAndCookPopulation_wf_def DiehlAndCookPopulation_forward_rnd_def  add_input_rnd_def tensor_mul_def tensor_iadd_def le_zero_def masked_fill_def Let_def numeral_2_eq_2 All_less_Suc fl32_zero fl32_one fl32_hold_values DiehlAndCookPopulation_trace_rnd_def DiehlAndCookPopulation_law_rnd_def adapt_rnd_def DiehlAndCookPopulation_trace_rnd_def)
  have g3: "countdown fl32 (DiehlAndCookPopulation.dt ?pd) 2 (DiehlAndCookPopulation.tau_ref ?pd) \<le> 0" "length ([3, 0] :: real list) = DiehlAndCookPopulation.neurons ?pd"
    by (simp_all add: DiehlAndCookPopulation_wf_def DiehlAndCookPopulation_forward_rnd_def  add_input_rnd_def tensor_mul_def tensor_iadd_def le_zero_def masked_fill_def Let_def numeral_2_eq_2 All_less_Suc fl32_zero fl32_one fl32_hold_values DiehlAndCookPopulation_trace_rnd_def DiehlAndCookPopulation_law_rnd_def adapt_rnd_def DiehlAndCookPopulation_trace_rnd_def)
  have c3: "DiehlAndCookPopulation.v (steps (DiehlAndCookPopulation_forward_rnd fl32 exp) (fst (DiehlAndCookPopulation_forward_rnd fl32 exp ?pd ([20, 0] :: real list))) ([[7, 0], [9, 0]] :: real list list)) ! 0 = DiehlAndCookPopulation.rest ?pd
      \<and> DiehlAndCookPopulation.refrac (steps (DiehlAndCookPopulation_forward_rnd fl32 exp) (fst (DiehlAndCookPopulation_forward_rnd fl32 exp ?pd ([20, 0] :: real list))) ([[7, 0], [9, 0]] :: real list list)) ! 0
          = countdown fl32 (DiehlAndCookPopulation.dt ?pd) (length ([[7, 0], [9, 0]] :: real list list)) (DiehlAndCookPopulation.tau_ref ?pd)
      \<and> (countdown fl32 (DiehlAndCookPopulation.dt ?pd) (length ([[7, 0], [9, 0]] :: real list list)) (DiehlAndCookPopulation.tau_ref ?pd) \<le> 0
           \<and> length ([3, 0] :: real list) = DiehlAndCookPopulation.neurons ?pd \<longrightarrow>
           DiehlAndCookPopulation.v (fst (DiehlAndCookPopulation_forward_rnd fl32 exp (steps (DiehlAndCookPopulation_forward_rnd fl32 exp) (fst (DiehlAndCookPopulation_forward_rnd fl32 exp ?pd ([20, 0] :: real list))) ([[7, 0], [9, 0]] :: real list list)) ([3, 0] :: real list))) ! 0
           = (if fl32 (DiehlAndCookPopulation.v_th ?pd + DiehlAndCookPopulation.theta ?pd) \<le> fl32 (DiehlAndCookPopulation.rest ?pd + fl32 (([3, 0] :: real list) ! 0))
              then DiehlAndCookPopulation.rest ?pd else fl32 (DiehlAndCookPopulation.rest ?pd + fl32 (([3, 0] :: real list) ! 0))))"
    by (rule T [THEN conjunct2, THEN conjunct2, THEN conjunct2, THEN conjunct1, THEN mp]) (intro conjI h3)
  have e3: "DiehlAndCookPopulation.v (steps (DiehlAndCookPopulation_forward_rnd fl32 exp) (fst (DiehlAndCookPopulation_forward_rnd fl32 exp ?pd ([20, 0] :: real list))) ([[7, 0], [9, 0]] :: real list list)) ! 0 = - 65" "DiehlAndCookPopulation.refrac (steps (DiehlAndCookPopulation_forward_rnd fl32 exp) (fst (DiehlAndCookPopulation_forward_rnd fl32 exp ?pd ([20, 0] :: real list))) ([[7, 0], [9, 0]] :: real list list)) ! 0 = 0" "DiehlAndCookPopulation.v (fst (DiehlAndCookPopulation_forward_rnd fl32 exp (steps (DiehlAndCookPopulation_forward_rnd fl32 exp) (fst (DiehlAndCookPopulation_forward_rnd fl32 exp ?pd ([20, 0] :: real list))) ([[7, 0], [9, 0]] :: real list list)) ([3, 0] :: real list))) ! 0 = - 62"
    using c3 g3 by (simp_all add: DiehlAndCookPopulation_wf_def DiehlAndCookPopulation_forward_rnd_def  add_input_rnd_def tensor_mul_def tensor_iadd_def le_zero_def masked_fill_def Let_def numeral_2_eq_2 All_less_Suc fl32_zero fl32_one fl32_hold_values DiehlAndCookPopulation_trace_rnd_def DiehlAndCookPopulation_law_rnd_def adapt_rnd_def DiehlAndCookPopulation_trace_rnd_def)
  have h4: "HomoeostasisLIFPopulation_wf ?ph" "length ([20, 0] :: real list) = HomoeostasisLIFPopulation.neurons ?ph" "0 < HomoeostasisLIFPopulation.neurons ?ph" "fl32 0 = 0" "fl32 (HomoeostasisLIFPopulation.rest ?ph) = HomoeostasisLIFPopulation.rest ?ph" "HomoeostasisLIFPopulation.s (fst (HomoeostasisLIFPopulation_forward_rnd fl32 exp ?ph ([20, 0] :: real list))) ! 0 = 1" "(\<forall>xin \<in> set ([[7, 0], [9, 0]] :: real list list). length xin = HomoeostasisLIFPopulation.neurons ?ph)" "(\<forall>k < length ([[7, 0], [9, 0]] :: real list list). 0 < countdown fl32 (HomoeostasisLIFPopulation.dt ?ph) k (HomoeostasisLIFPopulation.tau_ref ?ph))" "(\<forall>k < length ([[7, 0], [9, 0]] :: real list list). HomoeostasisLIFPopulation.rest ?ph < fl32 (HomoeostasisLIFPopulation.v_th ?ph + theta_idle fl32 (HomoeostasisLIFPopulation_law_rnd fl32 exp ?ph) k (HomoeostasisLIFPopulation.theta (fst (HomoeostasisLIFPopulation_forward_rnd fl32 exp ?ph ([20, 0] :: real list))) ! 0)))"
    by (simp_all add: HomoeostasisLIFPopulation_wf_def HomoeostasisLIFPopulation_forward_rnd_def HomoeostasisLIFPopulation_init_def add_input_rnd_def tensor_mul_def tensor_iadd_def le_zero_def masked_fill_def Let_def numeral_2_eq_2 All_less_Suc fl32_zero fl32_one fl32_hold_values HomoeostasisLIFPopulation_after_spikes_rnd_def gt_zero_def lt_one_def HomoeostasisLIFPopulation_law_rnd_def adapt_rnd_def HomoeostasisLIFPopulation_after_spikes_rnd_def gt_zero_def lt_one_def)
  have x4: "HomoeostasisLIFPopulation_wf ?ph" "length ([20, 0] :: real list) = HomoeostasisLIFPopulation.neurons ?ph" "0 < HomoeostasisLIFPopulation.neurons ?ph" "fl32 0 = 0" "fl32 (HomoeostasisLIFPopulation.rest ?ph) = HomoeostasisLIFPopulation.rest ?ph" "HomoeostasisLIFPopulation.s (fst (HomoeostasisLIFPopulation_forward_rnd fl32 exp ?ph ([20, 0] :: real list))) ! 0 = 1" "length ([7, 0] :: real list) = HomoeostasisLIFPopulation.neurons ?ph" "length ([9, 0] :: real list) = HomoeostasisLIFPopulation.neurons ?ph" "0 < countdown fl32 (HomoeostasisLIFPopulation.dt ?ph) 0 (HomoeostasisLIFPopulation.tau_ref ?ph)" "0 < countdown fl32 (HomoeostasisLIFPopulation.dt ?ph) 1 (HomoeostasisLIFPopulation.tau_ref ?ph)" "HomoeostasisLIFPopulation.rest ?ph < fl32 (HomoeostasisLIFPopulation.v_th ?ph + theta_idle fl32 (HomoeostasisLIFPopulation_law_rnd fl32 exp ?ph) 0 (HomoeostasisLIFPopulation.theta (fst (HomoeostasisLIFPopulation_forward_rnd fl32 exp ?ph ([20, 0] :: real list))) ! 0))" "HomoeostasisLIFPopulation.rest ?ph < fl32 (HomoeostasisLIFPopulation.v_th ?ph + theta_idle fl32 (HomoeostasisLIFPopulation_law_rnd fl32 exp ?ph) 1 (HomoeostasisLIFPopulation.theta (fst (HomoeostasisLIFPopulation_forward_rnd fl32 exp ?ph ([20, 0] :: real list))) ! 0))"
    by (simp_all add: HomoeostasisLIFPopulation_wf_def HomoeostasisLIFPopulation_forward_rnd_def HomoeostasisLIFPopulation_init_def add_input_rnd_def tensor_mul_def tensor_iadd_def le_zero_def masked_fill_def Let_def numeral_2_eq_2 All_less_Suc fl32_zero fl32_one fl32_hold_values HomoeostasisLIFPopulation_after_spikes_rnd_def gt_zero_def lt_one_def HomoeostasisLIFPopulation_law_rnd_def adapt_rnd_def HomoeostasisLIFPopulation_after_spikes_rnd_def gt_zero_def lt_one_def)
  have g4: "countdown fl32 (HomoeostasisLIFPopulation.dt ?ph) 2 (HomoeostasisLIFPopulation.tau_ref ?ph) \<le> 0" "length ([3, 0] :: real list) = HomoeostasisLIFPopulation.neurons ?ph"
    by (simp_all add: HomoeostasisLIFPopulation_wf_def HomoeostasisLIFPopulation_forward_rnd_def HomoeostasisLIFPopulation_init_def add_input_rnd_def tensor_mul_def tensor_iadd_def le_zero_def masked_fill_def Let_def numeral_2_eq_2 All_less_Suc fl32_zero fl32_one fl32_hold_values HomoeostasisLIFPopulation_after_spikes_rnd_def gt_zero_def lt_one_def HomoeostasisLIFPopulation_law_rnd_def adapt_rnd_def HomoeostasisLIFPopulation_after_spikes_rnd_def gt_zero_def lt_one_def)
  have c4: "HomoeostasisLIFPopulation.v (steps (HomoeostasisLIFPopulation_forward_rnd fl32 exp) (fst (HomoeostasisLIFPopulation_forward_rnd fl32 exp ?ph ([20, 0] :: real list))) ([[7, 0], [9, 0]] :: real list list)) ! 0 = HomoeostasisLIFPopulation.rest ?ph
      \<and> HomoeostasisLIFPopulation.refrac (steps (HomoeostasisLIFPopulation_forward_rnd fl32 exp) (fst (HomoeostasisLIFPopulation_forward_rnd fl32 exp ?ph ([20, 0] :: real list))) ([[7, 0], [9, 0]] :: real list list)) ! 0
          = countdown fl32 (HomoeostasisLIFPopulation.dt ?ph) (length ([[7, 0], [9, 0]] :: real list list)) (HomoeostasisLIFPopulation.tau_ref ?ph)
      \<and> (countdown fl32 (HomoeostasisLIFPopulation.dt ?ph) (length ([[7, 0], [9, 0]] :: real list list)) (HomoeostasisLIFPopulation.tau_ref ?ph) \<le> 0
           \<and> length ([3, 0] :: real list) = HomoeostasisLIFPopulation.neurons ?ph \<longrightarrow>
           HomoeostasisLIFPopulation.v (fst (HomoeostasisLIFPopulation_forward_rnd fl32 exp (steps (HomoeostasisLIFPopulation_forward_rnd fl32 exp) (fst (HomoeostasisLIFPopulation_forward_rnd fl32 exp ?ph ([20, 0] :: real list))) ([[7, 0], [9, 0]] :: real list list)) ([3, 0] :: real list))) ! 0
           = (if fl32 (HomoeostasisLIFPopulation.v_th ?ph + HomoeostasisLIFPopulation.theta (steps (HomoeostasisLIFPopulation_forward_rnd fl32 exp) (fst (HomoeostasisLIFPopulation_forward_rnd fl32 exp ?ph ([20, 0] :: real list))) ([[7, 0], [9, 0]] :: real list list)) ! 0) \<le> fl32 (HomoeostasisLIFPopulation.rest ?ph + fl32 (([3, 0] :: real list) ! 0))
              then HomoeostasisLIFPopulation.rest ?ph else fl32 (HomoeostasisLIFPopulation.rest ?ph + fl32 (([3, 0] :: real list) ! 0))))"
    by (rule T [THEN conjunct2, THEN conjunct2, THEN conjunct2, THEN conjunct2, THEN conjunct1, THEN mp]) (intro conjI h4)
  have t4: "HomoeostasisLIFPopulation.theta (steps (HomoeostasisLIFPopulation_forward_rnd fl32 exp) (fst (HomoeostasisLIFPopulation_forward_rnd fl32 exp ?ph ([20, 0] :: real list))) ([[7, 0], [9, 0]] :: real list list)) ! 0 = 0"
    by (simp add: steps_def HomoeostasisLIFPopulation_wf_def HomoeostasisLIFPopulation_forward_rnd_def HomoeostasisLIFPopulation_init_def add_input_rnd_def tensor_mul_def tensor_iadd_def le_zero_def masked_fill_def Let_def numeral_2_eq_2 All_less_Suc fl32_zero fl32_one fl32_hold_values HomoeostasisLIFPopulation_after_spikes_rnd_def gt_zero_def lt_one_def HomoeostasisLIFPopulation_law_rnd_def adapt_rnd_def HomoeostasisLIFPopulation_after_spikes_rnd_def gt_zero_def lt_one_def)
  have e4: "HomoeostasisLIFPopulation.v (steps (HomoeostasisLIFPopulation_forward_rnd fl32 exp) (fst (HomoeostasisLIFPopulation_forward_rnd fl32 exp ?ph ([20, 0] :: real list))) ([[7, 0], [9, 0]] :: real list list)) ! 0 = - 65" "HomoeostasisLIFPopulation.refrac (steps (HomoeostasisLIFPopulation_forward_rnd fl32 exp) (fst (HomoeostasisLIFPopulation_forward_rnd fl32 exp ?ph ([20, 0] :: real list))) ([[7, 0], [9, 0]] :: real list list)) ! 0 = 0" "HomoeostasisLIFPopulation.v (fst (HomoeostasisLIFPopulation_forward_rnd fl32 exp (steps (HomoeostasisLIFPopulation_forward_rnd fl32 exp) (fst (HomoeostasisLIFPopulation_forward_rnd fl32 exp ?ph ([20, 0] :: real list))) ([[7, 0], [9, 0]] :: real list list)) ([3, 0] :: real list))) ! 0 = - 62"
    using c4 [unfolded t4] g4 by (simp_all add: HomoeostasisLIFPopulation_init_def numeral_2_eq_2 fl32_zero fl32_one fl32_hold_values)
  have h5: "0 < (1 :: real)" "countdown fl32 1 0 2 = 2" "countdown fl32 1 1 2 = 1" "countdown fl32 1 2 2 = 0"
    by (simp_all add: numeral_2_eq_2 fl32_zero fl32_one fl32_hold_values)
  have a5: "0 < (1 :: real) \<and> (\<forall>k \<le> 2. countdown fl32 1 k 2 = 2 - real k * 1)"
    by (simp add: numeral_2_eq_2 All_less_Suc le_Suc_eq all_conj_distrib fl32_zero fl32_one fl32_hold_values)
  have c5: "((\<forall>k < 2. 0 < countdown fl32 1 k 2) \<longleftrightarrow> (2 :: nat) \<le> nat \<lceil>(2 :: real) / 1\<rceil>)
        \<and> ((2 :: nat) = nat \<lceil>(2 :: real) / 1\<rceil> \<longrightarrow> countdown fl32 1 2 2 \<le> 0)"
    by (rule T [THEN conjunct2, THEN conjunct2, THEN conjunct2, THEN conjunct2, THEN conjunct2, THEN mp]) (rule a5)
  have e5: "(2 :: nat) \<le> nat \<lceil>(2 :: real) / 1\<rceil>" "0 < countdown fl32 1 0 2" "0 < countdown fl32 1 1 2" "countdown fl32 1 2 2 \<le> 0"
    using c5 by (simp_all add: numeral_2_eq_2 All_less_Suc)
  show ?thesis
    by (intro conjI) (rule x0 x1 x2 x3 x4 g0 g1 g2 g3 g4 e0 e1 e2 e3 e4 h5 e5)+
qed

text \<open>
  Claim C5, as stated, fails. An \<open>IFPopulation\<close> of one neuron with \<open>v_th = 0.9\<close>,
  \<open>rest = 0\<close>, \<open>tau_ref = 0\<close>, \<open>dt = 1\<close> fed \<open>[1, 1, 1]\<close> spikes at the first step
  already: with spike counting the three calls return the spikes 1, 1, 1, not 0, 1, 1;
  built with the default \<open>count_spike=False\<close> the first call raises \<open>AttributeError\<close>
  after it has set the spike to 1.
\<close>

theorem if_scenario_counterexample:
  "snd (run IFPopulation_forward (IFPopulation_init 1 1 (9 / 10) 0 0 True) [[1], [1], [1]])
     = Inr [([1], [0]), ([1], [0]), ([1], [0])]
   \<and> [[1], [1], [1]] \<noteq> [[0], [1], [1::real]]
   \<and> snd (run IFPopulation_forward (IFPopulation_init 1 1 (9 / 10) 0 0 False) [[1], [1], [1]])
     = Inl AttributeError
   \<and> IFPopulation.s (fst (IFPopulation_forward (IFPopulation_init 1 1 (9 / 10) 0 0 False) [1]))
     = [1]"
  by (simp add: IFPopulation_forward_def IFPopulation_init_def add_input_def tensor_mul_def
      tensor_iadd_def le_zero_def masked_fill_def Let_def)

text \<open>
  Claim C5, amended. Built with \<open>count_spike=True\<close>, the population of claim C5 fed
  \<open>[1, 1, 1]\<close> returns the spike 1 and the potential 0 at each of the three steps, and the
  potential the spike test reads is 1 at each step.
\<close>

theorem if_scenario:
  "snd (run IFPopulation_forward (IFPopulation_init 1 1 (9 / 10) 0 0 True) [[1], [1], [1]])
     = Inr [([1], [0]), ([1], [0]), ([1], [0])]
   \<and> add_input (IFPopulation.v (IFPopulation_init 1 1 (9 / 10) 0 0 True))
         (IFPopulation.refrac (IFPopulation_init 1 1 (9 / 10) 0 0 True)) [1] = Inr [1]
   \<and> add_input (IFPopulation.v (steps IFPopulation_forward (IFPopulation_init 1 1 (9 / 10) 0 0 True) [[1]]))
         (IFPopulation.refrac (steps IFPopulation_forward (IFPopulation_init 1 1 (9 / 10) 0 0 True) [[1]]))
         [1] = Inr [1]
   \<and> add_input (IFPopulation.v (steps IFPopulation_forward (IFPopulation_init 1 1 (9 / 10) 0 0 True) [[1], [1]]))
         (IFPopulation.refrac (steps IFPopulation_forward (IFPopulation_init 1 1 (9 / 10) 0 0 True) [[1], [1]]))
         [1] = Inr [1]"
  by (simp add: IFPopulation_forward_def IFPopulation_init_def add_input_def tensor_mul_def
      tensor_iadd_def le_zero_def masked_fill_def Let_def steps_def)

text \<open>
  Claim C6, as stated, fails for \<open>InputPopulation\<close>: \<open>forward\<close> stores its input in \<open>s\<close>
  without a threshold, so the input \<open>[1 / 2]\<close> leaves the entry \<open>1 / 2\<close> in \<open>s\<close>.
\<close>

theorem spike_state_binary_counterexample:
  "InputPopulation_init 1 1 True 20 1 False
     = Inr \<lparr>InputPopulation.neurons = 1, traces = True, count_spike = False, dt = 1, s = [0],
            x = Some [0], tau_tr = Some 20, scale_tr = Some 1, spikecount = None\<rparr>
   \<and> InputPopulation_forward
        \<lparr>InputPopulation.neurons = 1, traces = True, count_spike = False, dt = 1, s = [0],
         x = Some [0], tau_tr = Some 20, scale_tr = Some 1, spikecount = None\<rparr> [1 / 2]
     = (\<lparr>InputPopulation.neurons = 1, traces = True, count_spike = False, dt = 1, s = [1 / 2],
         x = Some [1 / 2], tau_tr = Some 20, scale_tr = Some 1, spikecount = None\<rparr>, Inr [1 / 2])
   \<and> (1 / 2 :: real) \<noteq> 0 \<and> (1 / 2 :: real) \<noteq> 1"
  by (simp add: InputPopulation_init_def InputPopulation_reset_def InputPopulation_forward_def
      InputPopulation_trace_def tensor_assign_def Let_def)

text \<open>
  Claim C6, amended. In each thresholded population every entry of \<open>s\<close> is 0 or 1 after
  a call of \<open>forward\<close> on any input, given that it was so before the call (as it is on a
  new object). \<open>InputPopulation.forward\<close> on an input of the population's size makes \<open>s\<close>
  a copy of the input and returns it.
\<close>

theorem spike_state_binary:
  "(set (IFPopulation.s pf) \<subseteq> {0, 1} \<longrightarrow>
      set (IFPopulation.s (fst (IFPopulation_forward pf xin))) \<subseteq> {0, 1})
   \<and> (set (LIFPopulation.s pl) \<subseteq> {0, 1} \<longrightarrow>
      set (LIFPopulation.s (fst (LIFPopulation_forward pl xin))) \<subseteq> {0, 1})
   \<and> (set (LIFPopulation2.s p2) \<subseteq> {0, 1} \<longrightarrow>
      set (LIFPopulation2.s (fst (LIFPopulation2_forward p2 xin))) \<subseteq> {0, 1})
   \<and> (set (HomoeostasisLIFPopulation.s ph) \<subseteq> {0, 1} \<longrightarrow>
      set (HomoeostasisLIFPopulation.s (fst (HomoeostasisLIFPopulation_forward ph xin))) \<subseteq> {0, 1})
   \<and> (set (DiehlAndCookPopulation.s pd) \<subseteq> {0, 1} \<longrightarrow>
      set (DiehlAndCookPopulation.s (fst (DiehlAndCookPopulation_forward pd xin))) \<subseteq> {0, 1})
   \<and> (InputPopulation_wf pn \<and> length xin = InputPopulation.neurons pn \<longrightarrow>
        InputPopulation.s (fst (InputPopulation_forward pn xin)) = xin
        \<and> snd (InputPopulation_forward pn xin) = Inr xin)"
  by (intro conjI)
    (rule IFPopulation_spikes_01, rule LIFPopulation_spikes_01, rule LIFPopulation2_spikes_01, rule HomoeostasisLIFPopulation_spikes_01, rule DiehlAndCookPopulation_spikes_01,
     rule InputPopulation_forward_copy)

theorem spike_state_binary_witness:
  "set (IFPopulation.s (IFPopulation_init 2 1 (9 / 10) 0 0 True)) \<subseteq> {0, 1}
   \<and> set (IFPopulation.s (fst (IFPopulation_forward (IFPopulation_init 2 1 (9 / 10) 0 0 True) [20, 1]))) \<subseteq> {0, 1}
   \<and> set (LIFPopulation.s (LIFPopulation_init 2 1 100 (- 52) (1 / 20) (- 65) 5)) \<subseteq> {0, 1}
   \<and> set (LIFPopulation.s (fst (LIFPopulation_forward (LIFPopulation_init 2 1 100 (- 52) (1 / 20) (- 65) 5) [20, 1]))) \<subseteq> {0, 1}
   \<and> set (LIFPopulation2.s (LIFPopulation2_init 2 1 100 (- 52) (- 65) 5)) \<subseteq> {0, 1}
   \<and> set (LIFPopulation2.s (fst (LIFPopulation2_forward (LIFPopulation2_init 2 1 100 (- 52) (- 65) 5) [20, 1]))) \<subseteq> {0, 1}
   \<and> set (HomoeostasisLIFPopulation.s (HomoeostasisLIFPopulation_init 2 1 100 (- 52) (1 / 20) 10000000 (- 65) 5 False True)) \<subseteq> {0, 1}
   \<and> set (HomoeostasisLIFPopulation.s (fst (HomoeostasisLIFPopulation_forward (HomoeostasisLIFPopulation_init 2 1 100 (- 52) (1 / 20) 10000000 (- 65) 5 False True) [20, 1]))) \<subseteq> {0, 1}
   \<and> set (DiehlAndCookPopulation.s \<lparr>DiehlAndCookPopulation.neurons = 2, traces = True, dt = 1, v = [- 65, - 65],
        tau_rc = 100, v_th = - 52, theta = 1 / 20, s = [0, 0], rest = - 65,
        refrac = [0, 0], tau_ref = 5, x = Some [0, 0], tau_tr = Some 20, scale_tr = Some 1\<rparr>) \<subseteq> {0, 1}
   \<and> set (DiehlAndCookPopulation.s (fst (DiehlAndCookPopulation_forward \<lparr>DiehlAndCookPopulation.neurons = 2, traces = True, dt = 1, v = [- 65, - 65],
        tau_rc = 100, v_th = - 52, theta = 1 / 20, s = [0, 0], rest = - 65,
        refrac = [0, 0], tau_ref = 5, x = Some [0, 0], tau_tr = Some 20, scale_tr = Some 1\<rparr> [20, 1]))) \<subseteq> {0, 1}
   \<and> InputPopulation_wf \<lparr>InputPopulation.neurons = 2, traces = True, count_spike = False, dt = 1, s = [0, 0],
        x = Some [0, 0], tau_tr = Some 20, scale_tr = Some 1, spikecount = None\<rparr>
   \<and> length ([20, 1] :: real list) = InputPopulation.neurons \<lparr>InputPopulation.neurons = 2, traces = True, count_spike = False, dt = 1, s = [0, 0],
        x = Some [0, 0], tau_tr = Some 20, scale_tr = Some 1, spikecount = None\<rparr>
   \<and> InputPopulation.s (fst (InputPopulation_forward \<lparr>InputPopulation.neurons = 2, traces = True, count_spike = False, dt = 1, s = [0, 0],
        x = Some [0, 0], tau_tr = Some 20, scale_tr = Some 1, spikecount = None\<rparr> [20, 1])) = [20, 1]
   \<and> snd (InputPopulation_forward \<lparr>InputPopulation.neurons = 2, traces = True, count_spike = False, dt = 1, s = [0, 0],
        x = Some [0, 0], tau_tr = Some 20, scale_tr = Some 1, spikecount = None\<rparr> [20, 1]) = Inr [20, 1]"
proof -
  let ?pn = "\<lparr>InputPopulation.neurons = 2, traces = True, count_spike = False, dt = 1, s = [0, 0],
        x = Some [0, 0], tau_tr = Some 20, scale_tr = Some 1, spikecount = None\<rparr>"
  let ?pf = "IFPopulation_init 2 1 (9 / 10) 0 0 True"
  let ?pl = "LIFPopulation_init 2 1 100 (- 52) (1 / 20) (- 65) 5"
  let ?p2 = "LIFPopulation2_init 2 1 100 (- 52) (- 65) 5"
  let ?ph = "HomoeostasisLIFPopulation_init 2 1 100 (- 52) (1 / 20) 10000000 (- 65) 5 False True"
  let ?pd = "\<lparr>DiehlAndCookPopulation.neurons = 2, traces = True, dt = 1, v = [- 65, - 65],
        tau_rc = 100, v_th = - 52, theta = 1 / 20, s = [0, 0], rest = - 65,
        refrac = [0, 0], tau_ref = 5, x = Some [0, 0], tau_tr = Some 20, scale_tr = Some 1\<rparr>"
  have h0: "set (IFPopulation.s ?pf) \<subseteq> {0, 1}"
    by (simp add: IFPopulation_init_def)
  have c0: "set (IFPopulation.s (fst (IFPopulation_forward ?pf [20, 1]))) \<subseteq> {0, 1}"
    using spike_state_binary [where pf = ?pf and xin = "[20, 1]"] h0 by blast
  have h1: "set (LIFPopulation.s ?pl) \<subseteq> {0, 1}"
    by (simp add: LIFPopulation_init_def)
  have c1: "set (LIFPopulation.s (fst (LIFPopulation_forward ?pl [20, 1]))) \<subseteq> {0, 1}"
    using spike_state_binary [where pl = ?pl and xin = "[20, 1]"] h1 by blast
  have h2: "set (LIFPopulation2.s ?p2) \<subseteq> {0, 1}"
    by (simp add: LIFPopulation2_init_def)
  have c2: "set (LIFPopulation2.s (fst (LIFPopulation2_forward ?p2 [20, 1]))) \<subseteq> {0, 1}"
    using spike_state_binary [where ?p2.0 = ?p2 and xin = "[20, 1]"] h2 by blast
  have h3: "set (HomoeostasisLIFPopulation.s ?ph) \<subseteq> {0, 1}"
    by (simp add: HomoeostasisLIFPopulation_init_def)
  have c3: "set (HomoeostasisLIFPopulation.s (fst (HomoeostasisLIFPopulation_forward ?ph [20, 1]))) \<subseteq> {0, 1}"
    using spike_state_binary [where ph = ?ph and xin = "[20, 1]"] h3 by blast
  have h4: "set (DiehlAndCookPopulation.s ?pd) \<subseteq> {0, 1}"
    by (simp add: )
  have c4: "set (DiehlAndCookPopulation.s (fst (DiehlAndCookPopulation_forward ?pd [20, 1]))) \<subseteq> {0, 1}"
    using spike_state_binary [where pd = ?pd and xin = "[20, 1]"] h4 by blast
  have hn: "InputPopulation_wf ?pn" "length ([20, 1] :: real list) = InputPopulation.neurons ?pn"
    by (simp_all add: InputPopulation_wf_def)
  have cn: "InputPopulation.s (fst (InputPopulation_forward ?pn [20, 1])) = [20, 1]"
    "snd (InputPopulation_forward ?pn [20, 1]) = Inr [20, 1]"
    using spike_state_binary [where pn = ?pn and xin = "[20, 1]"] hn by blast+
  show ?thesis
    by (intro conjI) (rule h0 c0 h1 c1 h2 c2 h3 c3 h4 c4 hn cn)+
qed

text \<open>
  Claim C7, as stated, fails: no method checks the length of its input. An input of
  length 1 given to a population of two neurons is accepted and used for both neurons;
  an input of length 3 given to a \<open>LIFPopulation\<close> of two neurons raises only after the
  potentials have been decayed.
\<close>

theorem wrong_length_input_counterexample:
  "snd (IFPopulation_forward (IFPopulation_init 2 1 (9 / 10) 0 0 True) [1]) = Inr ([1, 1], [0, 0])
   \<and> snd (LIFPopulation_forward
        \<lparr>LIFPopulation.neurons = 2, dt = 1, v = [- 60, - 60], tau_rc = 100, v_th = - 52,
         theta = 1 / 20, s = [0, 0], rest = - 65, refrac = [- 1, - 1], tau_ref = 5\<rparr> [1, 2, 3])
     = Inl RuntimeError
   \<and> LIFPopulation.v (fst (LIFPopulation_forward
        \<lparr>LIFPopulation.neurons = 2, dt = 1, v = [- 60, - 60], tau_rc = 100, v_th = - 52,
         theta = 1 / 20, s = [0, 0], rest = - 65, refrac = [- 1, - 1], tau_ref = 5\<rparr> [1, 2, 3]))
     \<noteq> [- 60, - 60]"
  by (simp add: IFPopulation_forward_def IFPopulation_init_def LIFPopulation_forward_def
      add_input_def tensor_mul_def tensor_iadd_def le_zero_def masked_fill_def Let_def
      numeral_2_eq_2)

text \<open>
  Claim C7, amended. For an input whose length is neither the population's size nor 1,
  \<open>forward\<close> raises torch's \<open>RuntimeError\<close>: \<open>InputPopulation\<close> and \<open>IFPopulation\<close> are
  unchanged, a leaky population has only had its potentials decayed towards rest. An
  input of length 1 is used for every neuron: the call is the call on that value repeated.
\<close>

theorem wrong_length_input:
  "(InputPopulation_wf pn \<and> length xin \<noteq> InputPopulation.neurons pn \<and> length xin \<noteq> 1 \<longrightarrow>
      InputPopulation_forward pn xin = (pn, Inl RuntimeError))
   \<and> (InputPopulation_wf pn \<and> length xin = 1 \<longrightarrow>
      InputPopulation_forward pn xin = InputPopulation_forward pn (replicate (InputPopulation.neurons pn) (hd xin)))
   \<and> (IFPopulation_wf pf \<and> length xin \<noteq> IFPopulation.neurons pf \<and> length xin \<noteq> 1 \<longrightarrow>
      IFPopulation_forward pf xin = (pf, Inl RuntimeError))
   \<and> (IFPopulation_wf pf \<and> length xin = 1 \<longrightarrow>
      IFPopulation_forward pf xin = IFPopulation_forward pf (replicate (IFPopulation.neurons pf) (hd xin)))
   \<and> (LIFPopulation_wf pl \<and> length xin \<noteq> LIFPopulation.neurons pl \<and> length xin \<noteq> 1 \<longrightarrow>
      LIFPopulation_forward pl xin = (pl\<lparr>LIFPopulation.v :=
            map (\<lambda>u. exp (- LIFPopulation.dt pl / LIFPopulation.tau_rc pl) * (u - LIFPopulation.rest pl) + LIFPopulation.rest pl)
                (LIFPopulation.v pl)\<rparr>, Inl RuntimeError))
   \<and> (LIFPopulation_wf pl \<and> length xin = 1 \<longrightarrow>
      LIFPopulation_forward pl xin = LIFPopulation_forward pl (replicate (LIFPopulation.neurons pl) (hd xin)))
   \<and> (LIFPopulation2_wf p2 \<and> length xin \<noteq> LIFPopulation2.neurons p2 \<and> length xin \<noteq> 1 \<longrightarrow>
      LIFPopulation2_forward p2 xin = (p2\<lparr>LIFPopulation2.v :=
            map (\<lambda>u. exp (- LIFPopulation2.dt p2 / LIFPopulation2.tau_rc p2) * (u - LIFPopulation2.rest p2) + LIFPopulation2.rest p2)
                (LIFPopulation2.v p2)\<rparr>, Inl RuntimeError))
   \<and> (LIFPopulation2_wf p2 \<and> length xin = 1 \<longrightarrow>
      LIFPopulation2_forward p2 xin = LIFPopulation2_forward p2 (replicate (LIFPopulation2.neurons p2) (hd xin)))
   \<and> (HomoeostasisLIFPopulation_wf ph \<and> length xin \<noteq> HomoeostasisLIFPopulation.neurons ph \<and> length xin \<noteq> 1 \<longrightarrow>
      HomoeostasisLIFPopulation_forward ph xin = (ph\<lparr>HomoeostasisLIFPopulation.v :=
            map (\<lambda>u. exp (- HomoeostasisLIFPopulation.dt ph / HomoeostasisLIFPopulation.tau_rc ph) * (u - HomoeostasisLIFPopulation.rest ph) + HomoeostasisLIFPopulation.rest ph)
                (HomoeostasisLIFPopulation.v ph)\<rparr>, Inl RuntimeError))
   \<and> (HomoeostasisLIFPopulation_wf ph \<and> length xin = 1 \<longrightarrow>
      HomoeostasisLIFPopulation_forward ph xin = HomoeostasisLIFPopulation_forward ph (replicate (HomoeostasisLIFPopulation.neurons ph) (hd xin)))
   \<and> (DiehlAndCookPopulation_wf pd \<and> length xin \<noteq> DiehlAndCookPopulation.neurons pd \<and> length xin \<noteq> 1 \<longrightarrow>
      DiehlAndCookPopulation_forward pd xin = (pd\<lparr>DiehlAndCookPopulation.v :=
            map (\<lambda>u. exp (- DiehlAndCookPopulation.dt pd / DiehlAndCookPopulation.tau_rc pd) * (u - DiehlAndCookPopulation.rest pd) + DiehlAndCookPopulation.rest pd)
                (DiehlAndCookPopulation.v pd)\<rparr>, Inl RuntimeError))
   \<and> (DiehlAndCookPopulation_wf pd \<and> length xin = 1 \<longrightarrow>
      DiehlAndCookPopulation_forward pd xin = DiehlAndCookPopulation_forward pd (replicate (DiehlAndCookPopulation.neurons pd) (hd xin)))"
  by (intro conjI)
    (rule InputPopulation_forward_bad, rule InputPopulation_forward_bcast,
     rule IFPopulation_forward_bad, rule IFPopulation_forward_bcast,
     rule LIFPopulation_forward_bad, rule LIFPopulation_forward_bcast,
     rule LIFPopulation2_forward_bad, rule LIFPopulation2_forward_bcast,
     rule HomoeostasisLIFPopulation_forward_bad, rule HomoeostasisLIFPopulation_forward_bcast,
     rule DiehlAndCookPopulation_forward_bad, rule DiehlAndCookPopulation_forward_bcast)

theorem wrong_length_input_witness:
  "InputPopulation_wf \<lparr>InputPopulation.neurons = 2, traces = True, count_spike = False, dt = 1, s = [0, 0],
        x = Some [0, 0], tau_tr = Some 20, scale_tr = Some 1, spikecount = None\<rparr>
   \<and> length ([1, 2, 3] :: real list) \<noteq> InputPopulation.neurons \<lparr>InputPopulation.neurons = 2, traces = True, count_spike = False, dt = 1, s = [0, 0],
        x = Some [0, 0], tau_tr = Some 20, scale_tr = Some 1, spikecount = None\<rparr>
   \<and> length ([1, 2, 3] :: real list) \<noteq> 1
   \<and> length ([7] :: real list) = 1
   \<and> InputPopulation_forward \<lparr>InputPopulation.neurons = 2, traces = True, count_spike = False, dt = 1, s = [0, 0],
        x = Some [0, 0], tau_tr = Some 20, scale_tr = Some 1, spikecount = None\<rparr> [1, 2, 3] = (\<lparr>InputPopulation.neurons = 2, traces = True, count_spike = False, dt = 1, s = [0, 0],
        x = Some [0, 0], tau_tr = Some 20, scale_tr = Some 1, spikecount = None\<rparr>, Inl RuntimeError)
   \<and> InputPopulation_forward \<lparr>InputPopulation.neurons = 2, traces = True, count_spike = False, dt = 1, s = [0, 0],
        x = Some [0, 0], tau_tr = Some 20, scale_tr = Some 1, spikecount = None\<rparr> [7] = InputPopulation_forward \<lparr>InputPopulation.neurons = 2, traces = True, count_spike = False, dt = 1, s = [0, 0],
        x = Some [0, 0], tau_tr = Some 20, scale_tr = Some 1, spikecount = None\<rparr> (replicate (InputPopulation.neurons \<lparr>InputPopulation.neurons = 2, traces = True, count_spike = False, dt = 1, s = [0, 0],
        x = Some [0, 0], tau_tr = Some 20, scale_tr = Some 1, spikecount = None\<rparr>) (hd [7]))
   \<and> IFPopulation_wf (IFPopulation_init 2 1 (9 / 10) 0 0 True)
   \<and> length ([1, 2, 3] :: real list) \<noteq> IFPopulation.neurons (IFPopulation_init 2 1 (9 / 10) 0 0 True)
   \<and> length ([1, 2, 3] :: real list) \<noteq> 1
   \<and> length ([7] :: real list) = 1
   \<and> IFPopulation_forward (IFPopulation_init 2 1 (9 / 10) 0 0 True) [1, 2, 3] = ((IFPopulation_init 2 1 (9 / 10) 0 0 True), Inl RuntimeError)
   \<and> IFPopulation_forward (IFPopulation_init 2 1 (9 / 10) 0 0 True) [7] = IFPopulation_forward (IFPopulation_init 2 1 (9 / 10) 0 0 True) (replicate (IFPopulation.neurons (IFPopulation_init 2 1 (9 / 10) 0 0 True)) (hd [7]))
   \<and> LIFPopulation_wf (LIFPopulation_init 2 1 100 (- 52) (1 / 20) (- 65) 5)
   \<and> length ([1, 2, 3] :: real list) \<noteq> LIFPopulation.neurons (LIFPopulation_init 2 1 100 (- 52) (1 / 20) (- 65) 5)
   \<and> length ([1, 2, 3] :: real list) \<noteq> 1
   \<and> length ([7] :: real list) = 1
   \<and> LIFPopulation_forward (LIFPopulation_init 2 1 100 (- 52) (1 / 20) (- 65) 5) [1, 2, 3] = ((LIFPopulation_init 2 1 100 (- 52) (1 / 20) (- 65) 5)\<lparr>LIFPopulation.v :=
            map (\<lambda>u. exp (- LIFPopulation.dt (LIFPopulation_init 2 1 100 (- 52) (1 / 20) (- 65) 5) / LIFPopulation.tau_rc (LIFPopulation_init 2 1 100 (- 52) (1 / 20) (- 65) 5)) * (u - LIFPopulation.rest (LIFPopulation_init 2 1 100 (- 52) (1 / 20) (- 65) 5)) + LIFPopulation.rest (LIFPopulation_init 2 1 100 (- 52) (1 / 20) (- 65) 5))
                (LIFPopulation.v (LIFPopulation_init 2 1 100 (- 52) (1 / 20) (- 65) 5))\<rparr>, Inl RuntimeError)
   \<and> LIFPopulation_forward (LIFPopulation_init 2 1 100 (- 52) (1 / 20) (- 65) 5) [7] = LIFPopulation_forward (LIFPopulation_init 2 1 100 (- 52) (1 / 20) (- 65) 5) (replicate (LIFPopulation.neurons (LIFPopulation_init 2 1 100 (- 52) (1 / 20) (- 65) 5)) (hd [7]))
   \<and> LIFPopulation2_wf (LIFPopulation2_init 2 1 100 (- 52) (- 65) 5)
   \<and> length ([1, 2, 3] :: real list) \<noteq> LIFPopulation2.neurons (LIFPopulation2_init 2 1 100 (- 52) (- 65) 5)
   \<and> length ([1, 2, 3] :: real list) \<noteq> 1
   \<and> length ([7] :: real list) = 1
   \<and> LIFPopulation2_forward (LIFPopulation2_init 2 1 100 (- 52) (- 65) 5) [1, 2, 3] = ((LIFPopulation2_init 2 1 100 (- 52) (- 65) 5)\<lparr>LIFPopulation2.v :=
            map (\<lambda>u. exp (- LIFPopulation2.dt (LIFPopulation2_init 2 1 100 (- 52) (- 65) 5) / LIFPopulation2.tau_rc (LIFPopulation2_init 2 1 100 (- 52) (- 65) 5)) * (u - LIFPopulation2.rest (LIFPopulation2_init 2 1 100 (- 52) (- 65) 5)) + LIFPopulation2.rest (LIFPopulation2_init 2 1 100 (- 52) (- 65) 5))
                (LIFPopulation2.v (LIFPopulation2_init 2 1 100 (- 52) (- 65) 5))\<rparr>, Inl RuntimeError)
   \<and> LIFPopulation2_forward (LIFPopulation2_init 2 1 100 (- 52) (- 65) 5) [7] = LIFPopulation2_forward (LIFPopulation2_init 2 1 100 (- 52) (- 65) 5) (replicate (LIFPopulation2.neurons (LIFPopulation2_init 2 1 100 (- 52) (- 65) 5)) (hd [7]))
   \<and> HomoeostasisLIFPopulation_wf (HomoeostasisLIFPopulation_init 2 1 100 (- 52) (1 / 20) 10000000 (- 65) 5 False True)
   \<and> length ([1, 2, 3] :: real list) \<noteq> HomoeostasisLIFPopulation.neurons (HomoeostasisLIFPopulation_init 2 1 100 (- 52) (1 / 20) 10000000 (- 65) 5 False True)
   \<and> length ([1, 2, 3] :: real list) \<noteq> 1
   \<and> length ([7] :: real list) = 1
   \<and> HomoeostasisLIFPopulation_forward (HomoeostasisLIFPopulation_init 2 1 100 (- 52) (1 / 20) 10000000 (- 65) 5 False True) [1, 2, 3] = ((HomoeostasisLIFPopulation_init 2 1 100 (- 52) (1 / 20) 10000000 (- 65) 5 False True)\<lparr>HomoeostasisLIFPopulation.v :=
            map (\<lambda>u. exp (- HomoeostasisLIFPopulation.dt (HomoeostasisLIFPopulation_init 2 1 100 (- 52) (1 / 20) 10000000 (- 65) 5 False True) / HomoeostasisLIFPopulation.tau_rc (HomoeostasisLIFPopulation_init 2 1 100 (- 52) (1 / 20) 10000000 (- 65) 5 False True)) * (u - HomoeostasisLIFPopulation.rest (HomoeostasisLIFPopulation_init 2 1 100 (- 52) (1 / 20) 10000000 (- 65) 5 False True)) + HomoeostasisLIFPopulation.rest (HomoeostasisLIFPopulation_init 2 1 100 (- 52) (1 / 20) 10000000 (- 65) 5 False True))
                (HomoeostasisLIFPopulation.v (HomoeostasisLIFPopulation_init 2 1 100 (- 52) (1 / 20) 10000000 (- 65) 5 False True))\<rparr>, Inl RuntimeError)
   \<and> HomoeostasisLIFPopulation_forward (HomoeostasisLIFPopulation_init 2 1 100 (- 52) (1 / 20) 10000000 (- 65) 5 False True) [7] = HomoeostasisLIFPopulation_forward (HomoeostasisLIFPopulation_init 2 1 100 (- 52) (1 / 20) 10000000 (- 65) 5 False True) (replicate (HomoeostasisLIFPopulation.neurons (HomoeostasisLIFPopulation_init 2 1 100 (- 52) (1 / 20) 10000000 (- 65) 5 False True)) (hd [7]))
   \<and> DiehlAndCookPopulation_wf \<lparr>DiehlAndCookPopulation.neurons = 2, traces = True, dt = 1, v = [- 65, - 65],
        tau_rc = 100, v_th = - 52, theta = 1 / 20, s = [0, 0], rest = - 65,
        refrac = [0, 0], tau_ref = 5, x = Some [0, 0], tau_tr = Some 20, scale_tr = Some 1\<rparr>
   \<and> length ([1, 2, 3] :: real list) \<noteq> DiehlAndCookPopulation.neurons \<lparr>DiehlAndCookPopulation.neurons = 2, traces = True, dt = 1, v = [- 65, - 65],
        tau_rc = 100, v_th = - 52, theta = 1 / 20, s = [0, 0], rest = - 65,
        refrac = [0, 0], tau_ref = 5, x = Some [0, 0], tau_tr = Some 20, scale_tr = Some 1\<rparr>
   \<and> length ([1, 2, 3] :: real list) \<noteq> 1
   \<and> length ([7] :: real list) = 1
   \<and> DiehlAndCookPopulation_forward \<lparr>DiehlAndCookPopulation.neurons = 2, traces = True, dt = 1, v = [- 65, - 65],
        tau_rc = 100, v_th = - 52, theta = 1 / 20, s = [0, 0], rest = - 65,
        refrac = [0, 0], tau_ref = 5, x = Some [0, 0], tau_tr = Some 20, scale_tr = Some 1\<rparr> [1, 2, 3] = (\<lparr>DiehlAndCookPopulation.neurons = 2, traces = True, dt = 1, v = [- 65, - 65],
        tau_rc = 100, v_th = - 52, theta = 1 / 20, s = [0, 0], rest = - 65,
        refrac = [0, 0], tau_ref = 5, x = Some [0, 0], tau_tr = Some 20, scale_tr = Some 1\<rparr>\<lparr>DiehlAndCookPopulation.v :=
            map (\<lambda>u. exp (- DiehlAndCookPopulation.dt \<lparr>DiehlAndCookPopulation.neurons = 2, traces = True, dt = 1, v = [- 65, - 65],
        tau_rc = 100, v_th = - 52, theta = 1 / 20, s = [0, 0], rest = - 65,
        refrac = [0, 0], tau_ref = 5, x = Some [0, 0], tau_tr = Some 20, scale_tr = Some 1\<rparr> / DiehlAndCookPopulation.tau_rc \<lparr>DiehlAndCookPopulation.neurons = 2, traces = True, dt = 1, v = [- 65, - 65],
        tau_rc = 100, v_th = - 52, theta = 1 / 20, s = [0, 0], rest = - 65,
        refrac = [0, 0], tau_ref = 5, x = Some [0, 0], tau_tr = Some 20, scale_tr = Some 1\<rparr>) * (u - DiehlAndCookPopulation.rest \<lparr>DiehlAndCookPopulation.neurons = 2, traces = True, dt = 1, v = [- 65, - 65],
        tau_rc = 100, v_th = - 52, theta = 1 / 20, s = [0, 0], rest = - 65,
        refrac = [0, 0], tau_ref = 5, x = Some [0, 0], tau_tr = Some 20, scale_tr = Some 1\<rparr>) + DiehlAndCookPopulation.rest \<lparr>DiehlAndCookPopulation.neurons = 2, traces = True, dt = 1, v = [- 65, - 65],
        tau_rc = 100, v_th = - 52, theta = 1 / 20, s = [0, 0], rest = - 65,
        refrac = [0, 0], tau_ref = 5, x = Some [0, 0], tau_tr = Some 20, scale_tr = Some 1\<rparr>)
                (DiehlAndCookPopulation.v \<lparr>DiehlAndCookPopulation.neurons = 2, traces = True, dt = 1, v = [- 65, - 65],
        tau_rc = 100, v_th = - 52, theta = 1 / 20, s = [0, 0], rest = - 65,
        refrac = [0, 0], tau_ref = 5, x = Some [0, 0], tau_tr = Some 20, scale_tr = Some 1\<rparr>)\<rparr>, Inl RuntimeError)
   \<and> DiehlAndCookPopulation_forward \<lparr>DiehlAndCookPopulation.neurons = 2, traces = True, dt = 1, v = [- 65, - 65],
        tau_rc = 100, v_th = - 52, theta = 1 / 20, s = [0, 0], rest = - 65,
        refrac = [0, 0], tau_ref = 5, x = Some [0, 0], tau_tr = Some 20, scale_tr = Some 1\<rparr> [7] = DiehlAndCookPopulation_forward \<lparr>DiehlAndCookPopulation.neurons = 2, traces = True, dt = 1, v = [- 65, - 65],
        tau_rc = 100, v_th = - 52, theta = 1 / 20, s = [0, 0], rest = - 65,
        refrac = [0, 0], tau_ref = 5, x = Some [0, 0], tau_tr = Some 20, scale_tr = Some 1\<rparr> (replicate (DiehlAndCookPopulation.neurons \<lparr>DiehlAndCookPopulation.neurons = 2, traces = True, dt = 1, v = [- 65, - 65],
        tau_rc = 100, v_th = - 52, theta = 1 / 20, s = [0, 0], rest = - 65,
        refrac = [0, 0], tau_ref = 5, x = Some [0, 0], tau_tr = Some 20, scale_tr = Some 1\<rparr>) (hd [7]))"
proof -
  let ?pn = "\<lparr>InputPopulation.neurons = 2, traces = True, count_spike = False, dt = 1, s = [0, 0],
        x = Some [0, 0], tau_tr = Some 20, scale_tr = Some 1, spikecount = None\<rparr>"
  let ?pf = "IFPopulation_init 2 1 (9 / 10) 0 0 True"
  let ?pl = "LIFPopulation_init 2 1 100 (- 52) (1 / 20) (- 65) 5"
  let ?p2 = "LIFPopulation2_init 2 1 100 (- 52) (- 65) 5"
  let ?ph = "HomoeostasisLIFPopulation_init 2 1 100 (- 52) (1 / 20) 10000000 (- 65) 5 False True"
  let ?pd = "\<lparr>DiehlAndCookPopulation.neurons = 2, traces = True, dt = 1, v = [- 65, - 65],
        tau_rc = 100, v_th = - 52, theta = 1 / 20, s = [0, 0], rest = - 65,
        refrac = [0, 0], tau_ref = 5, x = Some [0, 0], tau_tr = Some 20, scale_tr = Some 1\<rparr>"
  have h0: "InputPopulation_wf ?pn" "length ([1, 2, 3] :: real list) \<noteq> InputPopulation.neurons ?pn" "length ([1, 2, 3] :: real list) \<noteq> 1" "length ([7] :: real list) = 1"
    by (simp_all add: InputPopulation_wf_def  numeral_2_eq_2)
  have b0: "InputPopulation_forward ?pn [1, 2, 3] = (?pn, Inl RuntimeError)"
    by (rule wrong_length_input [where pn = ?pn and xin = "[1, 2, 3]", THEN conjunct1, THEN mp])
      (intro conjI h0)
  have o0: "InputPopulation_forward ?pn [7] = InputPopulation_forward ?pn (replicate (InputPopulation.neurons ?pn) (hd [7]))"
    by (rule wrong_length_input [where pn = ?pn and xin = "[7]", THEN conjunct2, THEN conjunct1, THEN mp])
      (intro conjI h0)
  have h1: "IFPopulation_wf ?pf" "length ([1, 2, 3] :: real list) \<noteq> IFPopulation.neurons ?pf" "length ([1, 2, 3] :: real list) \<noteq> 1" "length ([7] :: real list) = 1"
    by (simp_all add: IFPopulation_wf_def IFPopulation_init_def numeral_2_eq_2)
  have b1: "IFPopulation_forward ?pf [1, 2, 3] = (?pf, Inl RuntimeError)"
    by (rule wrong_length_input [where pf = ?pf and xin = "[1, 2, 3]", THEN conjunct2, THEN conjunct2, THEN conjunct1, THEN mp])
      (intro conjI h1)
  have o1: "IFPopulation_forward ?pf [7] = IFPopulation_forward ?pf (replicate (IFPopulation.neurons ?pf) (hd [7]))"
    by (rule wrong_length_input [where pf = ?pf and xin = "[7]", THEN conjunct2, THEN conjunct2, THEN conjunct2, THEN conjunct1, THEN mp])
      (intro conjI h1)
  have h2: "LIFPopulation_wf ?pl" "length ([1, 2, 3] :: real list) \<noteq> LIFPopulation.neurons ?pl" "length ([1, 2, 3] :: real list) \<noteq> 1" "length ([7] :: real list) = 1"
    by (simp_all add: LIFPopulation_wf_def LIFPopulation_init_def numeral_2_eq_2)
  have b2: "LIFPopulation_forward ?pl [1, 2, 3] = (?pl\<lparr>LIFPopulation.v :=
            map (\<lambda>u. exp (- LIFPopulation.dt ?pl / LIFPopulation.tau_rc ?pl) * (u - LIFPopulation.rest ?pl) + LIFPopulation.rest ?pl)
                (LIFPopulation.v ?pl)\<rparr>, Inl RuntimeError)"
    by (rule wrong_length_input [where pl = ?pl and xin = "[1, 2, 3]", THEN conjunct2, THEN conjunct2, THEN conjunct2, THEN conjunct2, THEN conjunct1, THEN mp])
      (intro conjI h2)
  have o2: "LIFPopulation_forward ?pl [7] = LIFPopulation_forward ?pl (replicate (LIFPopulation.neurons ?pl) (hd [7]))"
    by (rule wrong_length_input [where pl = ?pl and xin = "[7]", THEN conjunct2, THEN conjunct2, THEN conjunct2, THEN conjunct2, THEN conjunct2, THEN conjunct1, THEN mp])
      (intro conjI h2)
  have h3: "LIFPopulation2_wf ?p2" "length ([1, 2, 3] :: real list) \<noteq> LIFPopulation2.neurons ?p2" "length ([1, 2, 3] :: real list) \<noteq> 1" "length ([7] :: real list) = 1"
    by (simp_all add: LIFPopulation2_wf_def LIFPopulation2_init_def numeral_2_eq_2)
  have b3: "LIFPopulation2_forward ?p2 [1, 2, 3] = (?p2\<lparr>LIFPopulation2.v :=
            map (\<lambda>u. exp (- LIFPopulation2.dt ?p2 / LIFPopulation2.tau_rc ?p2) * (u - LIFPopulation2.rest ?p2) + LIFPopulation2.rest ?p2)
                (LIFPopulation2.v ?p2)\<rparr>, Inl RuntimeError)"
    by (rule wrong_length_input [where ?p2.0 = ?p2 and xin = "[1, 2, 3]", THEN conjunct2, THEN conjunct2, THEN conjunct2, THEN conjunct2, THEN conjunct2, THEN conjunct2, THEN conjunct1, THEN mp])
      (intro conjI h3)
  have o3: "LIFPopulation2_forward ?p2 [7] = LIFPopulation2_forward ?p2 (replicate (LIFPopulation2.neurons ?p2) (hd [7]))"
    by (rule wrong_length_input [where ?p2.0 = ?p2 and xin = "[7]", THEN conjunct2, THEN conjunct2, THEN conjunct2, THEN conjunct2, THEN conjunct2, THEN conjunct2, THEN conjunct2, THEN conjunct1, THEN mp])
      (intro conjI h3)
  have h4: "HomoeostasisLIFPopulation_wf ?ph" "length ([1, 2, 3] :: real list) \<noteq> HomoeostasisLIFPopulation.neurons ?ph" "length ([1, 2, 3] :: real list) \<noteq> 1" "length ([7] :: real list) = 1"
    by (simp_all add: HomoeostasisLIFPopulation_wf_def HomoeostasisLIFPopulation_init_def numeral_2_eq_2)
  have b4: "HomoeostasisLIFPopulation_forward ?ph [1, 2, 3] = (?ph\<lparr>HomoeostasisLIFPopulation.v :=
            map (\<lambda>u. exp (- HomoeostasisLIFPopulation.dt ?ph / HomoeostasisLIFPopulation.tau_rc ?ph) * (u - HomoeostasisLIFPopulation.rest ?ph) + HomoeostasisLIFPopulation.rest ?ph)
                (HomoeostasisLIFPopulation.v ?ph)\<rparr>, Inl RuntimeError)"
    by (rule wrong_length_input [where ph = ?ph and xin = "[1, 2, 3]", THEN conjunct2, THEN conjunct2, THEN conjunct2, THEN conjunct2, THEN conjunct2, THEN conjunct2, THEN conjunct2, THEN conjunct2, THEN conjunct1, THEN mp])
      (intro conjI h4)
  have o4: "HomoeostasisLIFPopulation_forward ?ph [7] = HomoeostasisLIFPopulation_forward ?ph (replicate (HomoeostasisLIFPopulation.neurons ?ph) (hd [7]))"
    by (rule wrong_length_input [where ph = ?ph and xin = "[7]", THEN conjunct2, THEN conjunct2, THEN conjunct2, THEN conjunct2, THEN conjunct2, THEN conjunct2, THEN conjunct2, THEN conjunct2, THEN conjunct2, THEN conjunct1, THEN mp])
      (intro conjI h4)
  have h5: "DiehlAndCookPopulation_wf ?pd" "length ([1, 2, 3] :: real list) \<noteq> DiehlAndCookPopulation.neurons ?pd" "length ([1, 2, 3] :: real list) \<noteq> 1" "length ([7] :: real list) = 1"
    by (simp_all add: DiehlAndCookPopulation_wf_def  numeral_2_eq_2)
  have b5: "DiehlAndCookPopulation_forward ?pd [1, 2, 3] = (?pd\<lparr>DiehlAndCookPopulation.v :=
            map (\<lambda>u. exp (- DiehlAndCookPopulation.dt ?pd / DiehlAndCookPopulation.tau_rc ?pd) * (u - DiehlAndCookPopulation.rest ?pd) + DiehlAndCookPopulation.rest ?pd)
                (DiehlAndCookPopulation.v ?pd)\<rparr>, Inl RuntimeError)"
    by (rule wrong_length_input [where pd = ?pd and xin = "[1, 2, 3]", THEN conjunct2, THEN conjunct2, THEN conjunct2, THEN conjunct2, THEN conjunct2, THEN conjunct2, THEN conjunct2, THEN conjunct2, THEN conjunct2, THEN conjunct2, THEN conjunct1, THEN mp])
      (intro conjI h5)
  have o5: "DiehlAndCookPopulation_forward ?pd [7] = DiehlAndCookPopulation_forward ?pd (replicate (DiehlAndCookPopulation.neurons ?pd) (hd [7]))"
    by (rule wrong_length_input [where pd = ?pd and xin = "[7]", THEN conjunct2, THEN conjunct2, THEN conjunct2, THEN conjunct2, THEN conjunct2, THEN conjunct2, THEN conjunct2, THEN conjunct2, THEN conjunct2, THEN conjunct2, THEN conjunct2, THEN mp])
      (intro conjI h5)
  show ?thesis
    by (intro conjI) (rule h0 b0 o0 h1 b1 o1 h2 b2 o2 h3 b3 o3 h4 b4 o4 h5 b5 o5)+
qed

text \<open>
  Claim C8. The constructors of \<open>InputPopulation\<close> and \<open>DiehlAndCookPopulation\<close> raise
  \<open>AttributeError\<close> for \<open>traces=False\<close>, and \<open>reset\<close> raises it on any object that has no
  trace buffer.
\<close>

theorem traces_disabled_fails:
  "InputPopulation_init n dt0 False tau_tr0 scale_tr0 cs = Inl AttributeError
   \<and> DiehlAndCookPopulation_init n dt0 tau_rc0 v_th0 theta0 rest0 tau_ref0 False tau_tr0 scale_tr0
       = Inl AttributeError
   \<and> (InputPopulation.x pn = None \<longrightarrow> snd (InputPopulation_reset pn) = Inl AttributeError)
   \<and> (DiehlAndCookPopulation.x pd = None \<longrightarrow>
        snd (DiehlAndCookPopulation_reset pd) = Inl AttributeError)"
  by (simp add: InputPopulation_init_def InputPopulation_reset_def
      DiehlAndCookPopulation_init_def DiehlAndCookPopulation_reset_def Let_def)

theorem traces_disabled_fails_witness:
  "InputPopulation_init 2 1 False 20 1 False = Inl AttributeError
   \<and> DiehlAndCookPopulation_init 2 1 100 (- 52) (1 / 20) (- 65) 5 False 20 1 = Inl AttributeError
   \<and> InputPopulation.x
        \<lparr>InputPopulation.neurons = 2, traces = False, count_spike = False, dt = 1, s = [0, 0],
         x = None, tau_tr = None, scale_tr = None, spikecount = None\<rparr> = None
   \<and> snd (InputPopulation_reset
        \<lparr>InputPopulation.neurons = 2, traces = False, count_spike = False, dt = 1, s = [0, 0],
         x = None, tau_tr = None, scale_tr = None, spikecount = None\<rparr>) = Inl AttributeError
   \<and> DiehlAndCookPopulation.x
        \<lparr>DiehlAndCookPopulation.neurons = 2, traces = False, dt = 1, v = [0, 0],
         tau_rc = 100, v_th = - 52, theta = 1 / 20, s = [0, 0], rest = - 65,
         refrac = [0, 0], tau_ref = 5, x = None, tau_tr = None, scale_tr = None\<rparr> = None
   \<and> snd (DiehlAndCookPopulation_reset
        \<lparr>DiehlAndCookPopulation.neurons = 2, traces = False, dt = 1, v = [0, 0],
         tau_rc = 100, v_th = - 52, theta = 1 / 20, s = [0, 0], rest = - 65,
         refrac = [0, 0], tau_ref = 5, x = None, tau_tr = None, scale_tr = None\<rparr>)
       = Inl AttributeError"
  using traces_disabled_fails [of 2 1 20 1 False 100 "- 52" "1 / 20" "- 65" 5
      "\<lparr>InputPopulation.neurons = 2, traces = False, count_spike = False, dt = 1, s = [0, 0],
         x = None, tau_tr = None, scale_tr = None, spikecount = None\<rparr>"
      "\<lparr>DiehlAndCookPopulation.neurons = 2, traces = False, dt = 1, v = [0, 0],
         tau_rc = 100, v_th = - 52, theta = 1 / 20, s = [0, 0], rest = - 65,
         refrac = [0, 0], tau_ref = 5, x = None, tau_tr = None, scale_tr = None\<rparr>"]
  by simp

text \<open>
  Claim C9. A \<open>LIFPopulation\<close> and a \<open>DiehlAndCookPopulation\<close> that has its trace
  buffers, with the same shared hyperparameters, potentials and refractory counters,
  return the same sequence of spike and potential vectors, or raise the same exception,
  on every sequence of inputs; in particular when both are newly built from the same
  arguments.
\<close>

theorem diehl_cook_equals_lif:
  "(same_membrane l d \<and> DiehlAndCookPopulation.x d \<noteq> None
      \<and> DiehlAndCookPopulation.tau_tr d \<noteq> None \<and> DiehlAndCookPopulation.scale_tr d \<noteq> None \<longrightarrow>
      snd (run LIFPopulation_forward l xs) = snd (run DiehlAndCookPopulation_forward d xs))
   \<and> (DiehlAndCookPopulation_init n dt0 tau_rc0 v_th0 theta0 rest0 tau_ref0 tr tau_tr0 scale_tr0
        = Inr d0 \<longrightarrow>
      snd (run LIFPopulation_forward (LIFPopulation_init n dt0 tau_rc0 v_th0 theta0 rest0 tau_ref0) ys)
      = snd (run DiehlAndCookPopulation_forward d0 ys))"
  using same_membrane_run same_membrane_init by blast

theorem diehl_cook_equals_lif_witness:
  "same_membrane (LIFPopulation_init 2 1 100 (- 52) (1 / 20) (- 65) 5)
     \<lparr>DiehlAndCookPopulation.neurons = 2, traces = True, dt = 1, v = [- 65, - 65],
      tau_rc = 100, v_th = - 52, theta = 1 / 20, s = [0, 0], rest = - 65,
      refrac = [0, 0], tau_ref = 5, x = Some [0, 0], tau_tr = Some 20, scale_tr = Some 1\<rparr>
   \<and> DiehlAndCookPopulation_init 2 1 100 (- 52) (1 / 20) (- 65) 5 True 20 1
     = Inr \<lparr>DiehlAndCookPopulation.neurons = 2, traces = True, dt = 1, v = [- 65, - 65],
            tau_rc = 100, v_th = - 52, theta = 1 / 20, s = [0, 0], rest = - 65,
            refrac = [0, 0], tau_ref = 5, x = Some [0, 0], tau_tr = Some 20, scale_tr = Some 1\<rparr>
   \<and> snd (run DiehlAndCookPopulation_forward
         \<lparr>DiehlAndCookPopulation.neurons = 2, traces = True, dt = 1, v = [- 65, - 65],
            tau_rc = 100, v_th = - 52, theta = 1 / 20, s = [0, 0], rest = - 65,
            refrac = [0, 0], tau_ref = 5, x = Some [0, 0], tau_tr = Some 20, scale_tr = Some 1\<rparr>
         [[20, 1], [3, 4, 5]])
     = snd (run LIFPopulation_forward (LIFPopulation_init 2 1 100 (- 52) (1 / 20) (- 65) 5)
         [[20, 1], [3, 4, 5]])
   \<and> snd (run LIFPopulation_forward (LIFPopulation_init 2 1 100 (- 52) (1 / 20) (- 65) 5)
         [[20, 1]]) = Inr [([1, 0], [- 65, - 64])]
   \<and> snd (run DiehlAndCookPopulation_forward
         \<lparr>DiehlAndCookPopulation.neurons = 2, traces = True, dt = 1, v = [- 65, - 65],
            tau_rc = 100, v_th = - 52, theta = 1 / 20, s = [0, 0], rest = - 65,
            refrac = [0, 0], tau_ref = 5, x = Some [0, 0], tau_tr = Some 20, scale_tr = Some 1\<rparr>
         [[20, 1]]) = Inr [([1, 0], [- 65, - 64])]"
proof -
  let ?l = "LIFPopulation_init 2 1 100 (- 52) (1 / 20) (- 65) 5"
  let ?d = "\<lparr>DiehlAndCookPopulation.neurons = 2, traces = True, dt = 1, v = [- 65, - 65],
            tau_rc = 100, v_th = - 52, theta = 1 / 20, s = [0, 0], rest = - 65,
            refrac = [0, 0], tau_ref = 5, x = Some [0, 0], tau_tr = Some 20, scale_tr = Some 1\<rparr>"
  have m: "same_membrane ?l ?d"
    by (simp add: same_membrane_def LIFPopulation_init_def numeral_2_eq_2)
  have b: "DiehlAndCookPopulation.x ?d \<noteq> None" "DiehlAndCookPopulation.tau_tr ?d \<noteq> None"
    "DiehlAndCookPopulation.scale_tr ?d \<noteq> None"
    by simp_all
  have i: "DiehlAndCookPopulation_init 2 1 100 (- 52) (1 / 20) (- 65) 5 True 20 1 = Inr ?d"
    by (simp add: DiehlAndCookPopulation_init_def DiehlAndCookPopulation_reset_def numeral_2_eq_2)
  have r: "snd (run LIFPopulation_forward ?l [[20, 1]]) = Inr [([1, 0], [- 65, - 64])]"
    by (simp add: LIFPopulation_forward_def LIFPopulation_init_def add_input_def tensor_mul_def
        tensor_iadd_def le_zero_def masked_fill_def Let_def numeral_2_eq_2)
  have e1: "snd (run DiehlAndCookPopulation_forward ?d [[20, 1], [3, 4, 5]])
            = snd (run LIFPopulation_forward ?l [[20, 1], [3, 4, 5]])"
    using diehl_cook_equals_lif [of _ _ _ 2 1 100 "- 52" "1 / 20" "- 65" 5 True 20 1 ?d
        "[[20, 1], [3, 4, 5]]"] i
    by simp
  have e2: "snd (run DiehlAndCookPopulation_forward ?d [[20, 1]])
            = Inr [([1, 0], [- 65, - 64])]"
    using diehl_cook_equals_lif [of ?l ?d "[[20, 1]]"] m b r
    by simp
  show ?thesis
    by (intro conjI) (rule m i e1 r e2)+
qed

text \<open>
  Claim C10, as stated, fails. In float32 an increment of \<open>theta\<close> can be rounded away.
  With the default parameters (\<open>theta_plus\<close> is the float32 value \<open>13421773 / 268435456\<close> of 0.05)
  and \<open>theta = 16777216\<close>, which is \<open>2 ^ 24\<close>, a call leaves \<open>theta\<close> as it is, whether the neuron
  spikes (input 30000000) or not (input 0): the sums \<open>16777216 + theta_plus\<close> and
  \<open>16777216 + c\<close> for an increment \<open>c\<close> of at most 1 are rounded to 16777216. With
  \<^verbatim>\<open>tau_theta=0.001\<close> the increment of a silent neuron is the exponential of \<open>- 16383999 / 16384\<close>,
  which is below half the smallest subnormal and rounds to 0, so \<open>theta\<close> is still 0 after the
  first call on a new object. The float32 exponential is taken here as the rounded real one.
\<close>

theorem theta_saturates_counterexample:
  "HomoeostasisLIFPopulation.s (fst (HomoeostasisLIFPopulation_forward_rnd fl32 (\<lambda>y. fl32 (exp y)) \<lparr>HomoeostasisLIFPopulation.neurons = 1, dt = 1, v = [- 65], tau_rc = 100, v_th = - 52, s = [0],
        rest = - 65, refrac = [0], tau_ref = 5, threshold = - 52,
        theta_plus = 13421773 / 268435456, theta = [16777216], tau_theta = 10000000,
        frozen_th = False, count_spike = True, spikecount = Some [0]\<rparr> [30000000])) = [1]
   \<and> HomoeostasisLIFPopulation.theta (fst (HomoeostasisLIFPopulation_forward_rnd fl32 (\<lambda>y. fl32 (exp y)) \<lparr>HomoeostasisLIFPopulation.neurons = 1, dt = 1, v = [- 65], tau_rc = 100, v_th = - 52, s = [0],
        rest = - 65, refrac = [0], tau_ref = 5, threshold = - 52,
        theta_plus = 13421773 / 268435456, theta = [16777216], tau_theta = 10000000,
        frozen_th = False, count_spike = True, spikecount = Some [0]\<rparr> [30000000])) = [16777216]
   \<and> HomoeostasisLIFPopulation.s (fst (HomoeostasisLIFPopulation_forward_rnd fl32 (\<lambda>y. fl32 (exp y)) \<lparr>HomoeostasisLIFPopulation.neurons = 1, dt = 1, v = [- 65], tau_rc = 100, v_th = - 52, s = [0],
        rest = - 65, refrac = [0], tau_ref = 5, threshold = - 52,
        theta_plus = 13421773 / 268435456, theta = [16777216], tau_theta = 10000000,
        frozen_th = False, count_spike = True, spikecount = Some [0]\<rparr> [0])) = [0]
   \<and> HomoeostasisLIFPopulation.theta (fst (HomoeostasisLIFPopulation_forward_rnd fl32 (\<lambda>y. fl32 (exp y)) \<lparr>HomoeostasisLIFPopulation.neurons = 1, dt = 1, v = [- 65], tau_rc = 100, v_th = - 52, s = [0],
        rest = - 65, refrac = [0], tau_ref = 5, threshold = - 52,
        theta_plus = 13421773 / 268435456, theta = [16777216], tau_theta = 10000000,
        frozen_th = False, count_spike = True, spikecount = Some [0]\<rparr> [0])) = [16777216]
   \<and> HomoeostasisLIFPopulation.s (fst (HomoeostasisLIFPopulation_forward_rnd fl32 (\<lambda>y. fl32 (exp y)) (HomoeostasisLIFPopulation_init 1 1 100 (- 52) (13421773 / 268435456) (8589935 / 8589934592) (- 65) 5 False True) [0])) = [0]
   \<and> HomoeostasisLIFPopulation.theta (fst (HomoeostasisLIFPopulation_forward_rnd fl32 (\<lambda>y. fl32 (exp y)) (HomoeostasisLIFPopulation_init 1 1 100 (- 52) (13421773 / 268435456) (8589935 / 8589934592) (- 65) 5 False True) [0])) = [0]"
proof -
  have a: "fl32 (16777216 + fl32 (fl32 (exp (- (14073749 / 140737488355328))))) = 16777216"
    by (intro fl32_absorb fl32_nonneg fl32_unit) simp_all
  have u: "fl32 (exp (- (16383999 / 16384))) = 0"
    by (rule exp_underflow) simp
  show ?thesis
    by (simp add: HomoeostasisLIFPopulation_forward_rnd_def HomoeostasisLIFPopulation_after_spikes_rnd_def HomoeostasisLIFPopulation_init_def add_input_rnd_def
        tensor_mul_def tensor_iadd_def le_zero_def gt_zero_def lt_one_def masked_fill_def Let_def
        fl32_zero fl32_one fl32_two_24 fl32_theta_values a u)
qed

text \<open>
  Claim C10, amended. In \<open>HomoeostasisLIFPopulation\<close>, on an input of the population's size:
  with \<open>frozen_threshold\<close> false a call replaces \<open>theta ! i\<close> by the rounded sum of the rounded
  sum of \<open>theta ! i\<close> and the rounded \<open>(s > 0) * theta_plus\<close>, and the rounded
  \<open>(s < 1) * exp (- (dt / tau_theta))\<close>, for the \<open>s\<close> of this call, the quotient rounded too.
  In float32, \<open>theta ! i\<close> does not decrease in a call if it is a float32 value and
  \<open>theta_plus\<close> and the exponential are nonnegative. It need not increase, and it is bounded:
  if \<open>theta_plus\<close> and the exponential are at most 1, then over every sequence of calls a
  \<open>theta ! i\<close> of at most \<open>2 ^ 24 = 16777216\<close> stays at most 16777216, and, if they are
  nonnegative as well, a \<open>theta ! i\<close> equal to 16777216 stays 16777216.
\<close>

theorem theta_saturates:
  "(HomoeostasisLIFPopulation_wf p \<and> length xin = HomoeostasisLIFPopulation.neurons p
      \<and> i < HomoeostasisLIFPopulation.neurons p \<and> HomoeostasisLIFPopulation.frozen_th p = False \<longrightarrow>
      HomoeostasisLIFPopulation.theta (fst (HomoeostasisLIFPopulation_forward_rnd rnd fexp p xin)) ! i
      = rnd (rnd (HomoeostasisLIFPopulation.theta p ! i
                  + rnd ((if 0 < HomoeostasisLIFPopulation.s (fst (HomoeostasisLIFPopulation_forward_rnd rnd fexp p xin)) ! i
                          then 1 else 0) * HomoeostasisLIFPopulation.theta_plus p))
             + rnd ((if HomoeostasisLIFPopulation.s (fst (HomoeostasisLIFPopulation_forward_rnd rnd fexp p xin)) ! i < 1
                     then 1 else 0)
                    * fexp (- rnd (HomoeostasisLIFPopulation.dt p / HomoeostasisLIFPopulation.tau_theta p)))))
   \<and> (HomoeostasisLIFPopulation_wf p \<and> length xin = HomoeostasisLIFPopulation.neurons p
      \<and> i < HomoeostasisLIFPopulation.neurons p
      \<and> fl32 (HomoeostasisLIFPopulation.theta p ! i) = HomoeostasisLIFPopulation.theta p ! i
      \<and> 0 \<le> HomoeostasisLIFPopulation.theta_plus p
      \<and> 0 \<le> fexp (- fl32 (HomoeostasisLIFPopulation.dt p / HomoeostasisLIFPopulation.tau_theta p)) \<longrightarrow>
      HomoeostasisLIFPopulation.theta p ! i
      \<le> HomoeostasisLIFPopulation.theta (fst (HomoeostasisLIFPopulation_forward_rnd fl32 fexp p xin)) ! i)
   \<and> (HomoeostasisLIFPopulation_wf p \<and> (\<forall>xin \<in> set xs. length xin = HomoeostasisLIFPopulation.neurons p)
      \<and> i < HomoeostasisLIFPopulation.neurons p
      \<and> HomoeostasisLIFPopulation.theta_plus p \<le> 1
      \<and> fexp (- fl32 (HomoeostasisLIFPopulation.dt p / HomoeostasisLIFPopulation.tau_theta p)) \<le> 1 \<longrightarrow>
      (HomoeostasisLIFPopulation.theta p ! i \<le> 16777216 \<longrightarrow>
         HomoeostasisLIFPopulation.theta (steps (HomoeostasisLIFPopulation_forward_rnd fl32 fexp) p xs) ! i \<le> 16777216)
      \<and> (0 \<le> HomoeostasisLIFPopulation.theta_plus p
           \<and> 0 \<le> fexp (- fl32 (HomoeostasisLIFPopulation.dt p / HomoeostasisLIFPopulation.tau_theta p))
           \<and> HomoeostasisLIFPopulation.theta p ! i = 16777216 \<longrightarrow>
         HomoeostasisLIFPopulation.theta (steps (HomoeostasisLIFPopulation_forward_rnd fl32 fexp) p xs) ! i = 16777216))"
  by (intro conjI)
    (rule HomoeostasisLIFPopulation_theta_formula,
     rule HomoeostasisLIFPopulation_theta_above,
     rule HomoeostasisLIFPopulation_theta_cap)

theorem theta_saturates_witness:
  "HomoeostasisLIFPopulation_wf \<lparr>HomoeostasisLIFPopulation.neurons = 2, dt = 1, v = [- 65, - 65], tau_rc = 100, v_th = - 52, s = [0, 0],
        rest = - 65, refrac = [0, 0], tau_ref = 5, threshold = - 52,
        theta_plus = 13421773 / 268435456, theta = [16777216, 0], tau_theta = 10000000,
        frozen_th = False, count_spike = True, spikecount = Some [0, 0]\<rparr>
   \<and> length ([3, 0] :: real list) = HomoeostasisLIFPopulation.neurons \<lparr>HomoeostasisLIFPopulation.neurons = 2, dt = 1, v = [- 65, - 65], tau_rc = 100, v_th = - 52, s = [0, 0],
        rest = - 65, refrac = [0, 0], tau_ref = 5, threshold = - 52,
        theta_plus = 13421773 / 268435456, theta = [16777216, 0], tau_theta = 10000000,
        frozen_th = False, count_spike = True, spikecount = Some [0, 0]\<rparr>
   \<and> 0 < HomoeostasisLIFPopulation.neurons \<lparr>HomoeostasisLIFPopulation.neurons = 2, dt = 1, v = [- 65, - 65], tau_rc = 100, v_th = - 52, s = [0, 0],
        rest = - 65, refrac = [0, 0], tau_ref = 5, threshold = - 52,
        theta_plus = 13421773 / 268435456, theta = [16777216, 0], tau_theta = 10000000,
        frozen_th = False, count_spike = True, spikecount = Some [0, 0]\<rparr>
   \<and> HomoeostasisLIFPopulation.frozen_th \<lparr>HomoeostasisLIFPopulation.neurons = 2, dt = 1, v = [- 65, - 65], tau_rc = 100, v_th = - 52, s = [0, 0],
        rest = - 65, refrac = [0, 0], tau_ref = 5, threshold = - 52,
        theta_plus = 13421773 / 268435456, theta = [16777216, 0], tau_theta = 10000000,
        frozen_th = False, count_spike = True, spikecount = Some [0, 0]\<rparr> = False
   \<and> fl32 (HomoeostasisLIFPopulation.theta \<lparr>HomoeostasisLIFPopulation.neurons = 2, dt = 1, v = [- 65, - 65], tau_rc = 100, v_th = - 52, s = [0, 0],
        rest = - 65, refrac = [0, 0], tau_ref = 5, threshold = - 52,
        theta_plus = 13421773 / 268435456, theta = [16777216, 0], tau_theta = 10000000,
        frozen_th = False, count_spike = True, spikecount = Some [0, 0]\<rparr> ! 0) = HomoeostasisLIFPopulation.theta \<lparr>HomoeostasisLIFPopulation.neurons = 2, dt = 1, v = [- 65, - 65], tau_rc = 100, v_th = - 52, s = [0, 0],
        rest = - 65, refrac = [0, 0], tau_ref = 5, threshold = - 52,
        theta_plus = 13421773 / 268435456, theta = [16777216, 0], tau_theta = 10000000,
        frozen_th = False, count_spike = True, spikecount = Some [0, 0]\<rparr> ! 0
   \<and> 0 \<le> HomoeostasisLIFPopulation.theta_plus \<lparr>HomoeostasisLIFPopulation.neurons = 2, dt = 1, v = [- 65, - 65], tau_rc = 100, v_th = - 52, s = [0, 0],
        rest = - 65, refrac = [0, 0], tau_ref = 5, threshold = - 52,
        theta_plus = 13421773 / 268435456, theta = [16777216, 0], tau_theta = 10000000,
        frozen_th = False, count_spike = True, spikecount = Some [0, 0]\<rparr>
   \<and> 0 \<le> fl32 (exp (- fl32 (HomoeostasisLIFPopulation.dt \<lparr>HomoeostasisLIFPopulation.neurons = 2, dt = 1, v = [- 65, - 65], tau_rc = 100, v_th = - 52, s = [0, 0],
        rest = - 65, refrac = [0, 0], tau_ref = 5, threshold = - 52,
        theta_plus = 13421773 / 268435456, theta = [16777216, 0], tau_theta = 10000000,
        frozen_th = False, count_spike = True, spikecount = Some [0, 0]\<rparr> / HomoeostasisLIFPopulation.tau_theta \<lparr>HomoeostasisLIFPopulation.neurons = 2, dt = 1, v = [- 65, - 65], tau_rc = 100, v_th = - 52, s = [0, 0],
        rest = - 65, refrac = [0, 0], tau_ref = 5, threshold = - 52,
        theta_plus = 13421773 / 268435456, theta = [16777216, 0], tau_theta = 10000000,
        frozen_th = False, count_spike = True, spikecount = Some [0, 0]\<rparr>)))
   \<and> length ([7, 0] :: real list) = HomoeostasisLIFPopulation.neurons \<lparr>HomoeostasisLIFPopulation.neurons = 2, dt = 1, v = [- 65, - 65], tau_rc = 100, v_th = - 52, s = [0, 0],
        rest = - 65, refrac = [0, 0], tau_ref = 5, threshold = - 52,
        theta_plus = 13421773 / 268435456, theta = [16777216, 0], tau_theta = 10000000,
        frozen_th = False, count_spike = True, spikecount = Some [0, 0]\<rparr>
   \<and> length ([9, 0] :: real list) = HomoeostasisLIFPopulation.neurons \<lparr>HomoeostasisLIFPopulation.neurons = 2, dt = 1, v = [- 65, - 65], tau_rc = 100, v_th = - 52, s = [0, 0],
        rest = - 65, refrac = [0, 0], tau_ref = 5, threshold = - 52,
        theta_plus = 13421773 / 268435456, theta = [16777216, 0], tau_theta = 10000000,
        frozen_th = False, count_spike = True, spikecount = Some [0, 0]\<rparr>
   \<and> HomoeostasisLIFPopulation.theta_plus \<lparr>HomoeostasisLIFPopulation.neurons = 2, dt = 1, v = [- 65, - 65], tau_rc = 100, v_th = - 52, s = [0, 0],
        rest = - 65, refrac = [0, 0], tau_ref = 5, threshold = - 52,
        theta_plus = 13421773 / 268435456, theta = [16777216, 0], tau_theta = 10000000,
        frozen_th = False, count_spike = True, spikecount = Some [0, 0]\<rparr> \<le> 1
   \<and> fl32 (exp (- fl32 (HomoeostasisLIFPopulation.dt \<lparr>HomoeostasisLIFPopulation.neurons = 2, dt = 1, v = [- 65, - 65], tau_rc = 100, v_th = - 52, s = [0, 0],
        rest = - 65, refrac = [0, 0], tau_ref = 5, threshold = - 52,
        theta_plus = 13421773 / 268435456, theta = [16777216, 0], tau_theta = 10000000,
        frozen_th = False, count_spike = True, spikecount = Some [0, 0]\<rparr> / HomoeostasisLIFPopulation.tau_theta \<lparr>HomoeostasisLIFPopulation.neurons = 2, dt = 1, v = [- 65, - 65], tau_rc = 100, v_th = - 52, s = [0, 0],
        rest = - 65, refrac = [0, 0], tau_ref = 5, threshold = - 52,
        theta_plus = 13421773 / 268435456, theta = [16777216, 0], tau_theta = 10000000,
        frozen_th = False, count_spike = True, spikecount = Some [0, 0]\<rparr>))) \<le> 1
   \<and> HomoeostasisLIFPopulation.theta \<lparr>HomoeostasisLIFPopulation.neurons = 2, dt = 1, v = [- 65, - 65], tau_rc = 100, v_th = - 52, s = [0, 0],
        rest = - 65, refrac = [0, 0], tau_ref = 5, threshold = - 52,
        theta_plus = 13421773 / 268435456, theta = [16777216, 0], tau_theta = 10000000,
        frozen_th = False, count_spike = True, spikecount = Some [0, 0]\<rparr> ! 0 \<le> 16777216
   \<and> HomoeostasisLIFPopulation.theta \<lparr>HomoeostasisLIFPopulation.neurons = 2, dt = 1, v = [- 65, - 65], tau_rc = 100, v_th = - 52, s = [0, 0],
        rest = - 65, refrac = [0, 0], tau_ref = 5, threshold = - 52,
        theta_plus = 13421773 / 268435456, theta = [16777216, 0], tau_theta = 10000000,
        frozen_th = False, count_spike = True, spikecount = Some [0, 0]\<rparr> ! 0 = 16777216
   \<and> HomoeostasisLIFPopulation.theta (fst (HomoeostasisLIFPopulation_forward_rnd fl32 (\<lambda>y. fl32 (exp y)) \<lparr>HomoeostasisLIFPopulation.neurons = 2, dt = 1, v = [- 65, - 65], tau_rc = 100, v_th = - 52, s = [0, 0],
        rest = - 65, refrac = [0, 0], tau_ref = 5, threshold = - 52,
        theta_plus = 13421773 / 268435456, theta = [16777216, 0], tau_theta = 10000000,
        frozen_th = False, count_spike = True, spikecount = Some [0, 0]\<rparr> ([3, 0] :: real list))) ! 0
      = fl32 (fl32 (HomoeostasisLIFPopulation.theta \<lparr>HomoeostasisLIFPopulation.neurons = 2, dt = 1, v = [- 65, - 65], tau_rc = 100, v_th = - 52, s = [0, 0],
        rest = - 65, refrac = [0, 0], tau_ref = 5, threshold = - 52,
        theta_plus = 13421773 / 268435456, theta = [16777216, 0], tau_theta = 10000000,
        frozen_th = False, count_spike = True, spikecount = Some [0, 0]\<rparr> ! 0
                  + fl32 ((if 0 < HomoeostasisLIFPopulation.s (fst (HomoeostasisLIFPopulation_forward_rnd fl32 (\<lambda>y. fl32 (exp y)) \<lparr>HomoeostasisLIFPopulation.neurons = 2, dt = 1, v = [- 65, - 65], tau_rc = 100, v_th = - 52, s = [0, 0],
        rest = - 65, refrac = [0, 0], tau_ref = 5, threshold = - 52,
        theta_plus = 13421773 / 268435456, theta = [16777216, 0], tau_theta = 10000000,
        frozen_th = False, count_spike = True, spikecount = Some [0, 0]\<rparr> ([3, 0] :: real list))) ! 0
                          then 1 else 0) * HomoeostasisLIFPopulation.theta_plus \<lparr>HomoeostasisLIFPopulation.neurons = 2, dt = 1, v = [- 65, - 65], tau_rc = 100, v_th = - 52, s = [0, 0],
        rest = - 65, refrac = [0, 0], tau_ref = 5, threshold = - 52,
        theta_plus = 13421773 / 268435456, theta = [16777216, 0], tau_theta = 10000000,
        frozen_th = False, count_spike = True, spikecount = Some [0, 0]\<rparr>))
             + fl32 ((if HomoeostasisLIFPopulation.s (fst (HomoeostasisLIFPopulation_forward_rnd fl32 (\<lambda>y. fl32 (exp y)) \<lparr>HomoeostasisLIFPopulation.neurons = 2, dt = 1, v = [- 65, - 65], tau_rc = 100, v_th = - 52, s = [0, 0],
        rest = - 65, refrac = [0, 0], tau_ref = 5, threshold = - 52,
        theta_plus = 13421773 / 268435456, theta = [16777216, 0], tau_theta = 10000000,
        frozen_th = False, count_spike = True, spikecount = Some [0, 0]\<rparr> ([3, 0] :: real list))) ! 0 < 1
                     then 1 else 0)
                    * fl32 (exp (- fl32 (HomoeostasisLIFPopulation.dt \<lparr>HomoeostasisLIFPopulation.neurons = 2, dt = 1, v = [- 65, - 65], tau_rc = 100, v_th = - 52, s = [0, 0],
        rest = - 65, refrac = [0, 0], tau_ref = 5, threshold = - 52,
        theta_plus = 13421773 / 268435456, theta = [16777216, 0], tau_theta = 10000000,
        frozen_th = False, count_spike = True, spikecount = Some [0, 0]\<rparr> / HomoeostasisLIFPopulation.tau_theta \<lparr>HomoeostasisLIFPopulation.neurons = 2, dt = 1, v = [- 65, - 65], tau_rc = 100, v_th = - 52, s = [0, 0],
        rest = - 65, refrac = [0, 0], tau_ref = 5, threshold = - 52,
        theta_plus = 13421773 / 268435456, theta = [16777216, 0], tau_theta = 10000000,
        frozen_th = False, count_spike = True, spikecount = Some [0, 0]\<rparr>)))))
   \<and> HomoeostasisLIFPopulation.theta \<lparr>HomoeostasisLIFPopulation.neurons = 2, dt = 1, v = [- 65, - 65], tau_rc = 100, v_th = - 52, s = [0, 0],
        rest = - 65, refrac = [0, 0], tau_ref = 5, threshold = - 52,
        theta_plus = 13421773 / 268435456, theta = [16777216, 0], tau_theta = 10000000,
        frozen_th = False, count_spike = True, spikecount = Some [0, 0]\<rparr> ! 0 \<le> HomoeostasisLIFPopulation.theta (fst (HomoeostasisLIFPopulation_forward_rnd fl32 (\<lambda>y. fl32 (exp y)) \<lparr>HomoeostasisLIFPopulation.neurons = 2, dt = 1, v = [- 65, - 65], tau_rc = 100, v_th = - 52, s = [0, 0],
        rest = - 65, refrac = [0, 0], tau_ref = 5, threshold = - 52,
        theta_plus = 13421773 / 268435456, theta = [16777216, 0], tau_theta = 10000000,
        frozen_th = False, count_spike = True, spikecount = Some [0, 0]\<rparr> ([3, 0] :: real list))) ! 0
   \<and> HomoeostasisLIFPopulation.theta (steps (HomoeostasisLIFPopulation_forward_rnd fl32 (\<lambda>y. fl32 (exp y))) \<lparr>HomoeostasisLIFPopulation.neurons = 2, dt = 1, v = [- 65, - 65], tau_rc = 100, v_th = - 52, s = [0, 0],
        rest = - 65, refrac = [0, 0], tau_ref = 5, threshold = - 52,
        theta_plus = 13421773 / 268435456, theta = [16777216, 0], tau_theta = 10000000,
        frozen_th = False, count_spike = True, spikecount = Some [0, 0]\<rparr> ([[7, 0], [9, 0]] :: real list list)) ! 0 \<le> 16777216
   \<and> HomoeostasisLIFPopulation.theta (steps (HomoeostasisLIFPopulation_forward_rnd fl32 (\<lambda>y. fl32 (exp y))) \<lparr>HomoeostasisLIFPopulation.neurons = 2, dt = 1, v = [- 65, - 65], tau_rc = 100, v_th = - 52, s = [0, 0],
        rest = - 65, refrac = [0, 0], tau_ref = 5, threshold = - 52,
        theta_plus = 13421773 / 268435456, theta = [16777216, 0], tau_theta = 10000000,
        frozen_th = False, count_spike = True, spikecount = Some [0, 0]\<rparr> ([[7, 0], [9, 0]] :: real list list)) ! 0 = 16777216"
proof -
  let ?p = "\<lparr>HomoeostasisLIFPopulation.neurons = 2, dt = 1, v = [- 65, - 65], tau_rc = 100, v_th = - 52, s = [0, 0],
        rest = - 65, refrac = [0, 0], tau_ref = 5, threshold = - 52,
        theta_plus = 13421773 / 268435456, theta = [16777216, 0], tau_theta = 10000000,
        frozen_th = False, count_spike = True, spikecount = Some [0, 0]\<rparr>"
  note T = theta_saturates [where p = ?p and xin = "[3, 0]" and i = 0 and xs = "[[7, 0], [9, 0]]"
      and rnd = fl32 and fexp = "\<lambda>y. fl32 (exp y)"]
  have h1: "HomoeostasisLIFPopulation_wf ?p" "length ([3, 0] :: real list) = HomoeostasisLIFPopulation.neurons ?p" "0 < HomoeostasisLIFPopulation.neurons ?p" "HomoeostasisLIFPopulation.frozen_th ?p = False"
    by (simp_all add: HomoeostasisLIFPopulation_wf_def numeral_2_eq_2 fl32_zero fl32_two_24 fl32_nonneg fl32_unit)
  have h2: "HomoeostasisLIFPopulation_wf ?p" "length ([3, 0] :: real list) = HomoeostasisLIFPopulation.neurons ?p" "0 < HomoeostasisLIFPopulation.neurons ?p" "fl32 (HomoeostasisLIFPopulation.theta ?p ! 0) = HomoeostasisLIFPopulation.theta ?p ! 0" "0 \<le> HomoeostasisLIFPopulation.theta_plus ?p" "0 \<le> fl32 (exp (- fl32 (HomoeostasisLIFPopulation.dt ?p / HomoeostasisLIFPopulation.tau_theta ?p)))"
    by (simp_all add: HomoeostasisLIFPopulation_wf_def numeral_2_eq_2 fl32_zero fl32_two_24 fl32_nonneg fl32_unit)
  have h3: "HomoeostasisLIFPopulation_wf ?p" "(\<forall>xin \<in> set ([[7, 0], [9, 0]] :: real list list). length xin = HomoeostasisLIFPopulation.neurons ?p)" "0 < HomoeostasisLIFPopulation.neurons ?p" "HomoeostasisLIFPopulation.theta_plus ?p \<le> 1" "fl32 (exp (- fl32 (HomoeostasisLIFPopulation.dt ?p / HomoeostasisLIFPopulation.tau_theta ?p))) \<le> 1"
    by (simp_all add: HomoeostasisLIFPopulation_wf_def numeral_2_eq_2 fl32_zero fl32_two_24 fl32_nonneg fl32_unit)
  have x3: "length ([7, 0] :: real list) = HomoeostasisLIFPopulation.neurons ?p" "length ([9, 0] :: real list) = HomoeostasisLIFPopulation.neurons ?p" "HomoeostasisLIFPopulation.theta_plus ?p \<le> 1" "fl32 (exp (- fl32 (HomoeostasisLIFPopulation.dt ?p / HomoeostasisLIFPopulation.tau_theta ?p))) \<le> 1" "HomoeostasisLIFPopulation.theta ?p ! 0 \<le> 16777216" "HomoeostasisLIFPopulation.theta ?p ! 0 = 16777216"
    by (simp_all add: HomoeostasisLIFPopulation_wf_def numeral_2_eq_2 fl32_zero fl32_two_24 fl32_nonneg fl32_unit)
  have c1: "HomoeostasisLIFPopulation.theta (fst (HomoeostasisLIFPopulation_forward_rnd fl32 (\<lambda>y. fl32 (exp y)) ?p ([3, 0] :: real list))) ! 0
      = fl32 (fl32 (HomoeostasisLIFPopulation.theta ?p ! 0
                  + fl32 ((if 0 < HomoeostasisLIFPopulation.s (fst (HomoeostasisLIFPopulation_forward_rnd fl32 (\<lambda>y. fl32 (exp y)) ?p ([3, 0] :: real list))) ! 0
                          then 1 else 0) * HomoeostasisLIFPopulation.theta_plus ?p))
             + fl32 ((if HomoeostasisLIFPopulation.s (fst (HomoeostasisLIFPopulation_forward_rnd fl32 (\<lambda>y. fl32 (exp y)) ?p ([3, 0] :: real list))) ! 0 < 1
                     then 1 else 0)
                    * fl32 (exp (- fl32 (HomoeostasisLIFPopulation.dt ?p / HomoeostasisLIFPopulation.tau_theta ?p)))))"
    by (rule T [THEN conjunct1, THEN mp]) (intro conjI h1)
  have c2: "HomoeostasisLIFPopulation.theta ?p ! 0 \<le> HomoeostasisLIFPopulation.theta (fst (HomoeostasisLIFPopulation_forward_rnd fl32 (\<lambda>y. fl32 (exp y)) ?p ([3, 0] :: real list))) ! 0"
    by (rule T [THEN conjunct2, THEN conjunct1, THEN mp]) (intro conjI h2)
  have c3: "(HomoeostasisLIFPopulation.theta ?p ! 0 \<le> 16777216 \<longrightarrow>
         HomoeostasisLIFPopulation.theta (steps (HomoeostasisLIFPopulation_forward_rnd fl32 (\<lambda>y. fl32 (exp y))) ?p ([[7, 0], [9, 0]] :: real list list)) ! 0 \<le> 16777216)
      \<and> (0 \<le> HomoeostasisLIFPopulation.theta_plus ?p
           \<and> 0 \<le> fl32 (exp (- fl32 (HomoeostasisLIFPopulation.dt ?p / HomoeostasisLIFPopulation.tau_theta ?p)))
           \<and> HomoeostasisLIFPopulation.theta ?p ! 0 = 16777216 \<longrightarrow>
         HomoeostasisLIFPopulation.theta (steps (HomoeostasisLIFPopulation_forward_rnd fl32 (\<lambda>y. fl32 (exp y))) ?p ([[7, 0], [9, 0]] :: real list list)) ! 0 = 16777216)"
    by (rule T [THEN conjunct2, THEN conjunct2, THEN mp]) (intro conjI h3)
  have e3: "HomoeostasisLIFPopulation.theta (steps (HomoeostasisLIFPopulation_forward_rnd fl32 (\<lambda>y. fl32 (exp y))) ?p ([[7, 0], [9, 0]] :: real list list)) ! 0 \<le> 16777216" "HomoeostasisLIFPopulation.theta (steps (HomoeostasisLIFPopulation_forward_rnd fl32 (\<lambda>y. fl32 (exp y))) ?p ([[7, 0], [9, 0]] :: real list list)) ! 0 = 16777216"
    using c3 h2 x3 by simp_all
  show ?thesis
    by (intro conjI) (rule h1 h2 x3 c1 c2 e3)+
qed

end
